(* ===== verification/Prelude.thy ===== *)
theory Prelude
  imports Main "HOL-Library.Word"
begin

text \<open>
  Shared vocabulary of the development. Go values are modelled as follows: a Go
  \<open>string\<close> or \<open>[]byte\<close> is a HOL \<open>string\<close> (a list of 8-bit characters);
  a Go \<open>map[string]string\<close> is a partial map \<open>go_map\<close>; a Go \<open>int32\<close> is a
  \<open>32 word\<close> read with \<open>sint\<close>. The collections \<open>map_simps\<close> and
  \<open>digit_simps\<close> gather the facts the component proofs share about maps and about
  decimal digits; the generic lemmas on maps, lists and decimal numbers below are used by
  several components.
\<close>

type_synonym go_map = "string \<rightharpoonup> string"
type_synonym go_bytes = string
type_synonym int32 = "32 word"

named_theorems decoder_fatal "decoders whose only fatal errors are timestamp errors"
named_theorems map_simps "facts on Go maps modelled as partial maps"
named_theorems times_ok_dests "decoders that keep the timestamps they reach valid"
named_theorems digit_simps "facts on decimal digits and their characters"

section \<open>Maps\<close>

lemma map_upd_foldl_map_of [map_simps]:
  "foldl (\<lambda>m (k, v). m(k \<mapsto> v)) m0 kvs = m0 ++ map_of (rev kvs)"
  by (induction kvs arbitrary: m0) (auto simp: map_add_def fun_eq_iff split: option.splits)

lemma restrict_map_Compl_dom_apply [map_simps]:
  "(m |` (- dom m')) k = (case m' k of None \<Rightarrow> m k | Some _ \<Rightarrow> None)"
  by (auto simp: restrict_map_def split: option.splits)

lemma dom_restrict_Compl [map_simps]:
  "dom (m |` (- dom m')) = dom m - dom m'"
  by auto

lemma map_of_distinct_Cons_None:
  "distinct (map fst ((k, v) # kvs)) \<Longrightarrow> map_of kvs k = None"
  by (simp add: map_of_eq_None_iff)

lemma finite_map_enumeration:
  fixes m :: "'a \<rightharpoonup> 'b"
  assumes "finite (dom m)"
  shows "\<exists>kvs. distinct (map fst kvs) \<and> map_of kvs = m"
proof -
  obtain ks where ks: "set ks = dom m" "distinct ks"
    using finite_distinct_list [OF assms] by blast
  let ?kvs = "map (\<lambda>k. (k, the (m k))) ks"
  have "map fst ?kvs = ks" by (simp add: comp_def)
  moreover have "map_of ?kvs = m"
  proof
    fix k
    show "map_of ?kvs k = m k"
      using ks by (cases "k \<in> set ks") (auto simp: map_of_map_restrict map_of_eq_None_iff comp_def)
  qed
  ultimately show ?thesis using ks(2) by metis
qed

section \<open>Decimal numbers\<close>

lemma nat_div_mod_10_decompose [digit_simps]:
  "(n::nat) = 10 * (n div 10) + n mod 10"
  by simp

lemma int_div_mod_bounds:
  fixes a b :: int
  assumes "0 < b"
  shows "b * (a div b) \<le> a" and "a < b * (a div b) + b"
  using assms by (simp_all add: mult_div_mod_eq pos_mod_bound
      [THEN less_le_trans] add.commute minus_mod_eq_mult_div [symmetric])

lemma replicate_numeral: "replicate (numeral v) x = x # replicate (numeral v - 1) x"
  by (metis numeral_eq_Suc diff_Suc_1 replicate_Suc)

lemma find_Some_mem: "find P xs = Some x \<Longrightarrow> x \<in> set xs \<and> P x"
  by (induction xs) (auto split: if_splits)

end
