(* ===== verification/Ecosystem.thy ===== *)
theory Ecosystem
  imports Prelude
begin

text \<open>
  The ecosystem identifiers of \<open>src/pkg/types/types.go\<close>: the Go type
  \<open>Ecosystem\<close> (an \<open>int32\<close>), its five named constants, the \<open>Ecosystems\<close>
  table from constant names to codes, and the method \<open>AsString\<close>, a \<open>switch\<close>
  with a \<open>default\<close> arm that yields the empty string. The closed datatype
  \<open>eco\<close> is the abstract view the specification asks for (a tagged enum with an
  exhaustive display function); \<open>AsString\<close> is shown to refine it, with every code
  outside the enum mapped to the empty string.
\<close>

type_synonym Ecosystem = int32

definition EcosystemNpm :: Ecosystem where "EcosystemNpm = 1"
definition EcosystemGo :: Ecosystem where "EcosystemGo = 2"
definition EcosystemPypi :: Ecosystem where "EcosystemPypi = 3"
definition EcosystemMaven :: Ecosystem where "EcosystemMaven = 4"
definition EcosystemCrates :: Ecosystem where "EcosystemCrates = 5"

definition Ecosystems :: "string \<rightharpoonup> Ecosystem" where
  "Ecosystems =
     [''EcosystemNpm'' \<mapsto> EcosystemNpm,
      ''EcosystemGo'' \<mapsto> EcosystemGo,
      ''EcosystemPypi'' \<mapsto> EcosystemPypi,
      ''EcosystemMaven'' \<mapsto> EcosystemMaven,
      ''EcosystemCrates'' \<mapsto> EcosystemCrates]"

definition AsString :: "Ecosystem \<Rightarrow> string" where
  "AsString ecosystem =
     (if ecosystem = EcosystemNpm then ''npm''
      else if ecosystem = EcosystemGo then ''Go''
      else if ecosystem = EcosystemPypi then ''PyPI''
      else if ecosystem = EcosystemMaven then ''Maven''
      else if ecosystem = EcosystemCrates then ''crates''
      else '''')"

subsection \<open>The closed enumeration the codes stand for\<close>

datatype eco = Npm | GoModules | Pypi | Maven | Crates

fun eco_code :: "eco \<Rightarrow> Ecosystem" where
  "eco_code Npm = EcosystemNpm"
| "eco_code GoModules = EcosystemGo"
| "eco_code Pypi = EcosystemPypi"
| "eco_code Maven = EcosystemMaven"
| "eco_code Crates = EcosystemCrates"

fun eco_name :: "eco \<Rightarrow> string" where
  "eco_name Npm = ''npm''"
| "eco_name GoModules = ''Go''"
| "eco_name Pypi = ''PyPI''"
| "eco_name Maven = ''Maven''"
| "eco_name Crates = ''crates''"

definition all_ecos :: "eco list" where
  "all_ecos = [Npm, GoModules, Pypi, Maven, Crates]"

definition eco_of_code :: "Ecosystem \<Rightarrow> eco option" where
  "eco_of_code c = find (\<lambda>x. eco_code x = c) all_ecos"

subsection \<open>Properties\<close>

lemmas Ecosystem_codes =
  EcosystemNpm_def EcosystemGo_def EcosystemPypi_def EcosystemMaven_def EcosystemCrates_def


lemma all_ecos_complete: "x \<in> set all_ecos"
  by (cases x) (simp_all add: all_ecos_def)

lemma eco_code_inj: "eco_code x = eco_code y \<longleftrightarrow> x = y"
  by (cases x; cases y) (simp_all add: Ecosystem_codes)

lemma eco_of_code_eco_code [simp]: "eco_of_code (eco_code x) = Some x"
  by (cases x) (simp_all add: eco_of_code_def all_ecos_def Ecosystem_codes)

lemma eco_of_code_None: "eco_of_code c = None \<longleftrightarrow> c \<notin> range eco_code"
  by (auto simp: eco_of_code_def find_None_iff all_ecos_complete)

lemma eco_of_code_Some: "eco_of_code c = Some x \<Longrightarrow> c = eco_code x"
  by (auto simp: eco_of_code_def find_Some_iff)

lemma range_eco_code: "range eco_code = {1, 2, 3, 4, 5}"
proof
  show "range eco_code \<subseteq> {1, 2, 3, 4, 5}"
  proof
    fix c assume "c \<in> range eco_code"
    then obtain x where "c = eco_code x" by blast
    then show "c \<in> {1, 2, 3, 4, 5}" by (cases x) (simp_all add: Ecosystem_codes)
  qed
next
  have "eco_code ` set all_ecos = {1, 2, 3, 4, 5}"
    by (simp add: all_ecos_def Ecosystem_codes insert_commute)
  then show "{1, 2, 3, 4, 5} \<subseteq> range eco_code" by blast
qed

lemma ran_Ecosystems: "ran Ecosystems = range eco_code"
  by (simp add: Ecosystems_def range_eco_code Ecosystem_codes insert_commute)

lemma AsString_eco_of_code:
  "AsString c = (case eco_of_code c of Some x \<Rightarrow> eco_name x | None \<Rightarrow> '''')"
proof (cases "eco_of_code c")
  case None
  then have "c \<notin> {1, 2, 3, 4, 5}" by (simp add: eco_of_code_None range_eco_code)
  with None show ?thesis by (simp add: AsString_def Ecosystem_codes)
next
  case (Some x)
  then have "c = eco_code x" by (rule eco_of_code_Some)
  with Some show ?thesis by (cases x) (simp_all add: AsString_def Ecosystem_codes)
qed

lemma eco_name_nonempty: "eco_name x \<noteq> []"
  by (cases x) simp_all

lemma sint_between_1_5:
  "(c::int32) \<in> {1, 2, 3, 4, 5} \<longleftrightarrow> 1 \<le> sint c \<and> sint c \<le> 5"
proof
  assume "c \<in> {1, 2, 3, 4, 5}"
  then show "1 \<le> sint c \<and> sint c \<le> 5" by auto
next
  assume "1 \<le> sint c \<and> sint c \<le> 5"
  then have "sint c \<in> sint ` {1, 2, 3, 4, 5 :: int32}" by auto
  moreover have "inj (sint :: int32 \<Rightarrow> int)" by (rule injI) (rule signed_word_eqI)
  ultimately show "c \<in> {1, 2, 3, 4, 5}" by (simp only: inj_image_mem_iff)
qed

text \<open>C23: the display name of a code is the name of the enumeration value it stands
  for, and the empty string for every other code.\<close>

theorem AsString_refines_eco:
  "AsString c = (case eco_of_code c of Some x \<Rightarrow> eco_name x | None \<Rightarrow> [])"
  by (simp add: AsString_eco_of_code)

text \<open>C24: \<open>AsString\<close> yields the empty string exactly for the codes that are not in
  the \<open>Ecosystems\<close> table; an unknown code is not an error.\<close>

theorem AsString_empty_iff_unknown:
  "AsString c = [] \<longleftrightarrow> c \<notin> ran Ecosystems"
  by (auto simp: AsString_eco_of_code ran_Ecosystems eco_of_code_None eco_name_nonempty
           split: option.splits dest: eco_of_code_Some)

text \<open>The examples of the specification, evaluated through the refinement theorem:
  code 3 is PyPI and code 99 has the empty name.\<close>

theorem AsString_refines_eco_witness:
  "AsString 3 = ''PyPI'' \<and> AsString 99 = []"
proof -
  have "eco_of_code 3 = Some Pypi"
    by (simp add: eco_of_code_def all_ecos_def Ecosystem_codes)
  moreover have "eco_of_code 99 = None"
    by (simp add: eco_of_code_def all_ecos_def Ecosystem_codes)
  ultimately show ?thesis
    using AsString_refines_eco [of 3] AsString_refines_eco [of 99] by simp
qed

end
