(* ===== verification/Dependencies.thy ===== *)
theory Dependencies
  imports Ecosystem
begin

text \<open>
  The dependency-set differ of \<open>src/pkg/types/types.go\<close>: the struct
  \<open>Dependency\<close>, \<open>ConvertDepsToMap\<close> (a \<open>for range\<close> loop that stores each
  dependency's version under its name, so the last entry for a name wins) and
  \<open>DiffDependencies\<close> (a \<open>for range\<close> loop over the new map that copies every
  entry whose name the old map lacks).

  Go ranges over a map in an order the runtime chooses afresh on every loop. The model
  makes that order an argument: \<open>DiffDependencies\<close> takes the list of the new map's
  entries in the order the runtime visits them, and \<open>go_range_order m kvs\<close> says
  that \<open>kvs\<close> is such an order for \<open>m\<close> (each key once, with its value). The
  abstract specification \<open>added_deps\<close> is the restriction of the new map to the
  names the old map lacks; the refinement theorem says that the loop computes it for
  every order the runtime may choose.
\<close>

record Dependency =
  Name :: string
  Version :: string
  Ecosystem :: Ecosystem

definition go_range_order :: "go_map \<Rightarrow> (string \<times> string) list \<Rightarrow> bool" where
  "go_range_order m kvs \<longleftrightarrow> distinct (map fst kvs) \<and> map_of kvs = m"

definition ConvertDepsToMap :: "Dependency list \<Rightarrow> go_map" where
  "ConvertDepsToMap deps =
     foldl (\<lambda>depMap dep. depMap(Name dep \<mapsto> Version dep)) Map.empty deps"

definition DiffDependencies_body :: "go_map \<Rightarrow> go_map \<Rightarrow> string \<times> string \<Rightarrow> go_map" where
  "DiffDependencies_body oldDeps addedDeps entry =
     (case entry of (dep, version) \<Rightarrow>
        (case oldDeps dep of
           None \<Rightarrow> addedDeps(dep \<mapsto> version)
         | Some _ \<Rightarrow> addedDeps))"

definition DiffDependencies :: "go_map \<Rightarrow> (string \<times> string) list \<Rightarrow> go_map" where
  "DiffDependencies oldDeps newDepsOrder =
     foldl (DiffDependencies_body oldDeps) Map.empty newDepsOrder"

definition added_deps :: "go_map \<Rightarrow> go_map \<Rightarrow> go_map" where
  "added_deps oldDeps newDeps = newDeps |` (- dom oldDeps)"

definition dep_entry :: "Dependency \<Rightarrow> string \<times> string" where
  "dep_entry dep = (Name dep, Version dep)"

subsection \<open>The conversion loop\<close>

lemma ConvertDepsToMap_map_of:
  "ConvertDepsToMap deps = map_of (rev (map dep_entry deps))"
proof -
  have "foldl (\<lambda>depMap dep. depMap(Name dep \<mapsto> Version dep)) m deps
        = foldl (\<lambda>m (k, v). m(k \<mapsto> v)) m (map dep_entry deps)" for m
    by (induction deps arbitrary: m) (simp_all add: dep_entry_def)
  then show ?thesis by (simp add: ConvertDepsToMap_def map_simps)
qed

lemma ConvertDepsToMap_snoc [simp]:
  "ConvertDepsToMap (deps @ [dep]) = (ConvertDepsToMap deps)(Name dep \<mapsto> Version dep)"
  by (simp add: ConvertDepsToMap_def)

lemma ConvertDepsToMap_Nil [simp]: "ConvertDepsToMap [] = Map.empty"
  by (simp add: ConvertDepsToMap_def)

lemma dom_ConvertDepsToMap: "dom (ConvertDepsToMap deps) = Name ` set deps"
  by (simp add: ConvertDepsToMap_map_of dom_map_of_conv_image_fst image_image dep_entry_def)

lemma finite_dom_ConvertDepsToMap: "finite (dom (ConvertDepsToMap deps))"
  by (simp add: dom_ConvertDepsToMap)

subsection \<open>The differ loop\<close>

lemma DiffDependencies_foldl:
  assumes "distinct (map fst kvs)" and "\<forall>k \<in> set (map fst kvs). acc k = None"
  shows "foldl (DiffDependencies_body oldDeps) acc kvs
         = acc ++ (map_of kvs |` (- dom oldDeps))"
  using assms
proof (induction kvs arbitrary: acc)
  case Nil
  then show ?case by simp
next
  case (Cons kv kvs)
  obtain k v where kv: "kv = (k, v)" by fastforce
  let ?acc' = "DiffDependencies_body oldDeps acc (k, v)"
  let ?R = "\<lambda>kvs. map_of kvs |` (- dom oldDeps)"
  have IH: "foldl (DiffDependencies_body oldDeps) ?acc' kvs = ?acc' ++ ?R kvs"
    using Cons.prems kv
    by (intro Cons.IH) (auto simp: DiffDependencies_body_def split: option.splits)
  have fresh: "map_of kvs k = None"
    using Cons.prems(1) kv by (simp add: map_of_eq_None_iff)
  have step: "?acc' ++ ?R kvs = acc ++ ?R ((k, v) # kvs)"
  proof
    fix x
    show "(?acc' ++ ?R kvs) x = (acc ++ ?R ((k, v) # kvs)) x"
      using fresh
      by (cases "x = k"; cases "oldDeps x")
         (auto simp: DiffDependencies_body_def map_add_def restrict_map_def
               split: option.splits)
  qed
  show ?case unfolding kv foldl_Cons IH by (rule step)
qed

lemma go_range_order_exists: "finite (dom m) \<Longrightarrow> \<exists>kvs. go_range_order m kvs"
  unfolding go_range_order_def by (rule finite_map_enumeration)

text \<open>C19: whatever order the Go runtime visits the new map in, \<open>DiffDependencies\<close>
  returns exactly the entries of the new map whose names the old map does not hold.\<close>

theorem DiffDependencies_refines_added:
  "go_range_order newDeps order \<Longrightarrow> DiffDependencies oldDeps order = added_deps oldDeps newDeps"
  unfolding go_range_order_def DiffDependencies_def added_deps_def
  by (subst DiffDependencies_foldl) auto

text \<open>C20: two runs of \<open>DiffDependencies\<close> over the same maps agree, whatever orders
  the runtime chooses for them.\<close>

theorem DiffDependencies_order_independent:
  assumes "go_range_order newDeps order1" and "go_range_order newDeps order2"
  shows "DiffDependencies oldDeps order1 = DiffDependencies oldDeps order2"
  using assms unfolding go_range_order_def DiffDependencies_def
  by (simp add: DiffDependencies_foldl)

text \<open>C21: in the map \<open>ConvertDepsToMap\<close> builds, a name is bound to the version of the
  last dependency of that name in the slice, and unbound when the slice has none.\<close>

theorem ConvertDepsToMap_last_wins:
  "ConvertDepsToMap deps n =
     (case filter (\<lambda>d. Name d = n) (rev deps) of [] \<Rightarrow> None | d # _ \<Rightarrow> Some (Version d))"
  by (induction deps rule: rev_induct) simp_all

text \<open>C22: diffing the maps of two dependency slices reports, for each name that occurs in
  the new slice and not in the old one, the version the new slice binds it to last.\<close>

theorem DiffDependencies_ConvertDepsToMap:
  assumes "go_range_order (ConvertDepsToMap newList) order"
  shows "DiffDependencies (ConvertDepsToMap oldList) order
         = ConvertDepsToMap newList |` (- (Name ` set oldList))"
  using assms unfolding go_range_order_def DiffDependencies_def
  by (simp add: DiffDependencies_foldl dom_ConvertDepsToMap)

subsection \<open>Witnesses: the specification's examples\<close>

lemma spec_order_example:
  "go_range_order (map_of [(''a'', ''2''), (''b'', ''1'')]) [(''a'', ''2''), (''b'', ''1'')]"
  by (simp add: go_range_order_def)

lemma spec_order_example_swapped:
  "go_range_order (map_of [(''a'', ''2''), (''b'', ''1'')]) [(''b'', ''1''), (''a'', ''2'')]"
proof -
  have "map_of [(''b'', ''1''), (''a'', ''2'')] = map_of [(''a'', ''2''), (''b'', ''1'')]"
    by (simp add: fun_eq_iff)
  then show ?thesis by (simp add: go_range_order_def)
qed

theorem DiffDependencies_refines_added_witness:
  "go_range_order (map_of [(''a'', ''2''), (''b'', ''1'')]) [(''a'', ''2''), (''b'', ''1'')]
   \<and> DiffDependencies [''a'' \<mapsto> ''1''] [(''a'', ''2''), (''b'', ''1'')] ''b'' = Some ''1''
   \<and> DiffDependencies [''a'' \<mapsto> ''1''] [(''a'', ''2''), (''b'', ''1'')] ''a'' = None"
proof -
  have "DiffDependencies [''a'' \<mapsto> ''1''] [(''a'', ''2''), (''b'', ''1'')]
        = added_deps [''a'' \<mapsto> ''1''] (map_of [(''a'', ''2''), (''b'', ''1'')])"
    by (rule DiffDependencies_refines_added [OF spec_order_example])
  then show ?thesis using spec_order_example by (simp add: added_deps_def)
qed

theorem DiffDependencies_order_independent_witness:
  "go_range_order (map_of [(''a'', ''2''), (''b'', ''1'')]) [(''a'', ''2''), (''b'', ''1'')]
   \<and> go_range_order (map_of [(''a'', ''2''), (''b'', ''1'')]) [(''b'', ''1''), (''a'', ''2'')]
   \<and> DiffDependencies Map.empty [(''a'', ''2''), (''b'', ''1'')]
     = DiffDependencies Map.empty [(''b'', ''1''), (''a'', ''2'')]"
  using DiffDependencies_order_independent [OF spec_order_example spec_order_example_swapped]
    spec_order_example spec_order_example_swapped
  by blast

theorem DiffDependencies_ConvertDepsToMap_witness:
  "go_range_order (ConvertDepsToMap [\<lparr>Name = ''a'', Version = ''1'', Ecosystem = 1\<rparr>,
                                     \<lparr>Name = ''a'', Version = ''2'', Ecosystem = 1\<rparr>])
                  [(''a'', ''2'')]
   \<and> DiffDependencies (ConvertDepsToMap []) [(''a'', ''2'')] ''a'' = Some ''2''"
proof -
  let ?new = "[\<lparr>Name = ''a'', Version = ''1'', Ecosystem = 1\<rparr>,
               \<lparr>Name = ''a'', Version = ''2'', Ecosystem = (1::int32)\<rparr>]"
  have cv: "ConvertDepsToMap ?new = [''a'' \<mapsto> ''2'']"
    by (simp add: ConvertDepsToMap_def)
  have o: "go_range_order (ConvertDepsToMap ?new) [(''a'', ''2'')]"
    unfolding cv by (simp add: go_range_order_def)
  have "DiffDependencies (ConvertDepsToMap []) [(''a'', ''2'')]
        = ConvertDepsToMap ?new |` (- (Name ` set ([] :: Dependency list)))"
    by (rule DiffDependencies_ConvertDepsToMap [OF o])
  then show ?thesis using o unfolding cv by simp
qed

end
