(* ===== verification/Calendar.thy ===== *)
theory Calendar
  imports Prelude
begin

text \<open>
  The proleptic Gregorian calendar that Go's \<open>time\<close> package uses to turn an
  instant into a civil date and back (\<open>isLeap\<close>, \<open>daysIn\<close>, and the day counts
  behind \<open>Date\<close> and \<open>absDate\<close>). Days are counted from 0001-01-01, which is day 0,
  as Go's internal absolute time counts seconds from that date. \<open>days_from_civil\<close>
  is the direction \<open>Date\<close> takes; \<open>civil_from_days\<close> the direction \<open>Format\<close>
  takes. Go computes the latter with 400-, 100- and 4-year cycles; the model finds the
  year from an estimate with one correction step and the month by scanning the month
  lengths, which yields the same date, as the two round-trip theorems at the end of this
  theory establish.
\<close>

definition isLeap :: "int \<Rightarrow> bool" where
  "isLeap year \<longleftrightarrow> year mod 4 = 0 \<and> (year mod 100 \<noteq> 0 \<or> year mod 400 = 0)"

definition month_lengths :: "nat list" where
  "month_lengths = [31, 28, 31, 30, 31, 30, 31, 31, 30, 31, 30, 31]"

definition daysIn :: "nat \<Rightarrow> int \<Rightarrow> nat" where
  "daysIn m year = (if m = 2 \<and> isLeap year then 29 else month_lengths ! (m - 1))"

definition days_before_month :: "int \<Rightarrow> nat \<Rightarrow> nat" where
  "days_before_month year m = sum_list (map (\<lambda>k. daysIn k year) [1..<m])"

definition days_before_year :: "int \<Rightarrow> int" where
  "days_before_year year =
     365 * (year - 1) + (year - 1) div 4 - (year - 1) div 100 + (year - 1) div 400"

definition days_from_civil :: "int \<Rightarrow> nat \<Rightarrow> nat \<Rightarrow> int" where
  "days_from_civil year m d = days_before_year year + int (days_before_month year m) + int d - 1"

definition year_of_days :: "int \<Rightarrow> int" where
  "year_of_days n =
     (let e = (400 * n + 699) div 146097 in if days_before_year (e + 1) \<le> n then e + 1 else e)"

function month_day :: "int \<Rightarrow> nat \<Rightarrow> nat \<Rightarrow> nat \<times> nat" where
  "month_day year doy m =
     (if m < 12 \<and> daysIn m year \<le> doy then month_day year (doy - daysIn m year) (Suc m)
      else (m, Suc doy))"
  by pat_completeness auto
termination
  by (relation "measure (\<lambda>(year, doy, m). 12 - m)") auto

declare month_day.simps [simp del]

definition civil_from_days :: "int \<Rightarrow> int \<times> nat \<times> nat" where
  "civil_from_days n =
     (let y = year_of_days n in
      case month_day y (nat (n - days_before_year y)) 1 of (m, d) \<Rightarrow> (y, m, d))"

definition valid_date :: "int \<Rightarrow> nat \<Rightarrow> nat \<Rightarrow> bool" where
  "valid_date y m d \<longleftrightarrow> 1 \<le> m \<and> m \<le> 12 \<and> 1 \<le> d \<and> d \<le> daysIn m y"

subsection \<open>Years\<close>

lemma days_before_year_scaled:
  fixes Y A B C a b c :: int
  assumes "Y = 4 * A + a" "Y = 100 * B + b" "Y = 400 * C + c"
  shows "400 * (365 * Y + A - B + C) = 146097 * Y - 100 * a + 4 * b - c"
proof -
  have "400 * A = 100 * Y - 100 * a" "400 * B = 4 * Y - 4 * b" "400 * C = Y - c"
    using assms by simp_all
  then show ?thesis by (simp add: algebra_simps)
qed

lemma days_before_year_exact:
  "400 * days_before_year y
   = 146097 * y - 146097 - 100 * ((y - 1) mod 4) + 4 * ((y - 1) mod 100) - (y - 1) mod 400"
proof -
  have "400 * days_before_year y
        = 146097 * (y - 1) - 100 * ((y - 1) mod 4) + 4 * ((y - 1) mod 100) - (y - 1) mod 400"
    unfolding days_before_year_def by (rule days_before_year_scaled) simp_all
  then show ?thesis by (simp add: algebra_simps)
qed

lemma days_before_year_lower: "146097 * y - 146796 \<le> 400 * days_before_year y"
proof -
  have "(y - 1) mod 4 \<le> 3" "0 \<le> (y - 1) mod 100" "(y - 1) mod 400 \<le> 399" by simp_all
  then show ?thesis unfolding days_before_year_exact by linarith
qed

lemma days_before_year_upper: "400 * days_before_year y \<le> 146097 * y - 145701"
proof -
  have "0 \<le> (y - 1) mod 4" "(y - 1) mod 100 \<le> 99" "0 \<le> (y - 1) mod 400" by simp_all
  then show ?thesis unfolding days_before_year_exact by linarith
qed

lemma div_pred_step:
  fixes y k :: int
  assumes "0 < k"
  shows "y div k - (y - 1) div k = (if y mod k = 0 then 1 else 0)"
proof -
  define q r where "q = y div k" and "r = y mod k"
  have y: "y = k * q + r" and r: "0 \<le> r" "r < k"
    using assms by (simp_all add: q_def r_def)
  show ?thesis
  proof (cases "r = 0")
    case True
    then have e: "y - 1 = (k - 1) + k * (q - 1)" using y by (simp add: algebra_simps)
    have "(y - 1) div k = ((k - 1) + k * (q - 1)) div k" by (simp only: e)
    also have "\<dots> = (q - 1) + (k - 1) div k" using assms by (rule div_mult_self2 [OF less_imp_neq [symmetric]])
    also have "(k - 1) div k = 0" using assms by (simp add: div_pos_pos_trivial)
    finally show ?thesis using True by (simp add: q_def r_def)
  next
    case False
    then have e: "y - 1 = (r - 1) + k * q" using y by (simp add: algebra_simps)
    have "(y - 1) div k = ((r - 1) + k * q) div k" by (simp only: e)
    also have "\<dots> = q + (r - 1) div k" using assms by (rule div_mult_self2 [OF less_imp_neq [symmetric]])
    also have "(r - 1) div k = 0" using r False by (simp add: div_pos_pos_trivial)
    finally show ?thesis using False by (simp add: q_def r_def)
  qed
qed
lemma mod_400_100: "(y::int) mod 400 = 0 \<Longrightarrow> y mod 100 = 0"
  using dvd_trans [of "100::int" 400 y] by (simp add: mod_eq_0_iff_dvd)
lemma mod_100_4: "(y::int) mod 100 = 0 \<Longrightarrow> y mod 4 = 0"
  using dvd_trans [of "4::int" 100 y] by (simp add: mod_eq_0_iff_dvd)
lemma days_before_year_succ:
  "days_before_year (y + 1) = days_before_year y + (if isLeap y then 366 else 365)"
proof -
  have d: "days_before_year (y + 1) - days_before_year y
        = 365 + (y div 4 - (y - 1) div 4) - (y div 100 - (y - 1) div 100)
          + (y div 400 - (y - 1) div 400)"
    unfolding days_before_year_def by simp
  have s: "y div 4 - (y - 1) div 4 = (if y mod 4 = 0 then 1 else 0)"
          "y div 100 - (y - 1) div 100 = (if y mod 100 = 0 then 1 else 0)"
          "y div 400 - (y - 1) div 400 = (if y mod 400 = 0 then 1 else 0)"
    by (rule div_pred_step; simp)+
  have "days_before_year (y + 1) = days_before_year y + 365 + (if y mod 4 = 0 then 1 else 0)
          - (if y mod 100 = 0 then 1 else 0) + (if y mod 400 = 0 then 1 else 0)"
    using d s by linarith
  then show ?thesis
    using mod_400_100 [of y] mod_100_4 [of y] unfolding isLeap_def
    by (cases "y mod 4 = 0"; cases "y mod 100 = 0"; cases "y mod 400 = 0") simp_all
qed

lemma days_before_year_strict_mono:
  assumes "y1 < y2"
  shows "days_before_year y1 < days_before_year y2"
proof -
  have "146097 * y2 \<ge> 146097 * y1 + 146097" using assms by simp
  then show ?thesis
    using days_before_year_upper [of y1] days_before_year_lower [of y2] by linarith
qed

lemma days_before_year_mono:
  "y1 \<le> y2 \<Longrightarrow> days_before_year y1 \<le> days_before_year y2"
  by (cases "y1 = y2") (simp_all add: days_before_year_strict_mono less_imp_le)

lemma year_of_days_bounds:
  "days_before_year (year_of_days n) \<le> n \<and> n < days_before_year (year_of_days n + 1)"
proof -
  define e where "e = (400 * n + 699) div 146097"
  have e: "146097 * e \<le> 400 * n + 699" "400 * n + 699 < 146097 * e + 146097"
    unfolding e_def by (simp_all add: int_div_mod_bounds)
  show ?thesis
  proof (cases "days_before_year (e + 1) \<le> n")
    case True
    have "n < days_before_year (e + 1 + 1)"
      using days_before_year_lower [of "e + 1 + 1"] e by simp
    with True show ?thesis by (simp add: year_of_days_def Let_def e_def [symmetric])
  next
    case False
    have "days_before_year e \<le> n"
      using days_before_year_upper [of e] e by simp
    with False show ?thesis by (simp add: year_of_days_def Let_def e_def [symmetric])
  qed
qed

lemma year_of_days_unique:
  assumes "days_before_year y \<le> n" and "n < days_before_year (y + 1)"
  shows "year_of_days n = y"
proof (rule ccontr)
  let ?z = "year_of_days n"
  assume "?z \<noteq> y"
  then consider "?z + 1 \<le> y" | "y + 1 \<le> ?z" by linarith
  then show False
  proof cases
    case 1
    then have "days_before_year (?z + 1) \<le> days_before_year y" by (rule days_before_year_mono)
    with assms year_of_days_bounds [of n] show False by linarith
  next
    case 2
    then have "days_before_year (y + 1) \<le> days_before_year ?z" by (rule days_before_year_mono)
    with assms year_of_days_bounds [of n] show False by linarith
  qed
qed

subsection \<open>Months\<close>

lemma sum_months_13:
  "sum_list (map (\<lambda>k. daysIn k y) [1..<13]) = (if isLeap y then 366 else 365)"
  by (simp add: daysIn_def month_lengths_def upt_rec)

lemma month_day_step:
  "m < 12 \<Longrightarrow> daysIn m year \<le> doy \<Longrightarrow>
   month_day year doy m = month_day year (doy - daysIn m year) (Suc m)"
  by (subst month_day.simps) simp

lemma month_day_stop:
  assumes "\<not> (m < 12 \<and> daysIn m year \<le> doy)"
  shows "month_day year doy m = (m, Suc doy)"
  by (subst month_day.simps) (simp only: assms if_False)

lemmas month_day_eval = month_day_step month_day_stop

lemma month_day_skip:
  assumes "m \<le> m'" and "m' \<le> 12"
  shows "month_day y (sum_list (map (\<lambda>k. daysIn k y) [m..<m']) + doy) m = month_day y doy m'"
  using assms(1)
proof (induction m arbitrary: doy rule: inc_induct)
  case base
  then show ?case by simp
next
  case (step n)
  have "n < 12" using step.hyps(2) assms(2) by simp
  have "[n..<m'] = n # [Suc n..<m']" using step.hyps(2) by (simp add: upt_conv_Cons)
  then have "month_day y (sum_list (map (\<lambda>k. daysIn k y) [n..<m']) + doy) n
        = month_day y (sum_list (map (\<lambda>k. daysIn k y) [Suc n..<m']) + doy) (Suc n)"
    using \<open>n < 12\<close> by (simp add: month_day.simps [of y _ n] add.assoc)
  then show ?case using step.IH by simp
qed

lemma month_day_last:
  assumes "1 \<le> d" and "d \<le> daysIn m y"
  shows "month_day y (d - 1) m = (m, d)"
proof -
  have "\<not> daysIn m y \<le> d - 1" using assms by simp
  then show ?thesis using assms by (subst month_day.simps) simp
qed

lemma month_day_civil:
  assumes "valid_date y m d"
  shows "month_day y (days_before_month y m + d - 1) 1 = (m, d)"
proof -
  have v: "1 \<le> m" "m \<le> 12" "1 \<le> d" "d \<le> daysIn m y"
    using assms by (simp_all add: valid_date_def)
  have "days_before_month y m + d - 1 = sum_list (map (\<lambda>k. daysIn k y) [1..<m]) + (d - 1)"
    using v by (simp add: days_before_month_def)
  then have "month_day y (days_before_month y m + d - 1) 1
             = month_day y (sum_list (map (\<lambda>k. daysIn k y) [1..<m]) + (d - 1)) 1"
    by (simp only:)
  also have "\<dots> = month_day y (d - 1) m"
    using v by (intro month_day_skip)
  also have "\<dots> = (m, d)"
    using v by (intro month_day_last)
  finally show ?thesis .
qed

lemma month_day_inv:
  assumes "month_day y doy m0 = (m, d)" and "1 \<le> m0" and "m0 \<le> 12"
    and "doy < sum_list (map (\<lambda>k. daysIn k y) [m0..<13])"
  shows "m0 \<le> m \<and> m \<le> 12 \<and> 1 \<le> d \<and> d \<le> daysIn m y
         \<and> sum_list (map (\<lambda>k. daysIn k y) [m0..<m]) + d = Suc doy"
  using assms
proof (induction y doy m0 rule: month_day.induct)
  case (1 y doy m0)
  show ?case
  proof (cases "m0 < 12 \<and> daysIn m0 y \<le> doy")
    case True
    have split: "[m0..<13] = m0 # [Suc m0..<13]" using True by (simp add: upt_conv_Cons)
    have rec: "month_day y (doy - daysIn m0 y) (Suc m0) = (m, d)"
      using "1.prems"(1) True by (simp add: month_day.simps [of y doy m0])
    have "doy - daysIn m0 y < sum_list (map (\<lambda>k. daysIn k y) [Suc m0..<13])"
      using "1.prems"(4) True split by (simp add: less_diff_conv2)
    then have IH: "Suc m0 \<le> m \<and> m \<le> 12 \<and> 1 \<le> d \<and> d \<le> daysIn m y
         \<and> sum_list (map (\<lambda>k. daysIn k y) [Suc m0..<m]) + d = Suc (doy - daysIn m0 y)"
      using "1.IH" [OF True rec] True by simp
    then have "sum_list (map (\<lambda>k. daysIn k y) [m0..<m])
               = daysIn m0 y + sum_list (map (\<lambda>k. daysIn k y) [Suc m0..<m])"
      by (simp add: upt_conv_Cons)
    with IH True show ?thesis by auto
  next
    case False
    then have "month_day y doy m0 = (m0, Suc doy)"
      by (subst month_day.simps) (simp only: if_False)
    then have md: "m = m0" "d = Suc doy"
      using "1.prems"(1) by simp_all
    have "doy < daysIn m0 y"
    proof (cases "m0 < 12")
      case True
      with False show ?thesis by simp
    next
      case False
      then have "m0 = 12" using "1.prems"(3) by simp
      with "1.prems"(4) show ?thesis by simp
    qed
    with md "1.prems"(2,3) show ?thesis by simp
  qed
qed

lemma upt_split_at:
  assumes "i \<le> j" and "j \<le> k"
  shows "[i..<k] = [i..<j] @ [j..<k]"
  using upt_add_eq_append [OF assms(1), of "k - j"] assms(2) by simp

lemma days_before_month_Suc:
  "1 \<le> m \<Longrightarrow> days_before_month y (Suc m) = days_before_month y m + daysIn m y"
  by (simp add: days_before_month_def)

lemma days_before_month_le_year:
  assumes "valid_date y m d"
  shows "days_before_month y m + d \<le> sum_list (map (\<lambda>k. daysIn k y) [1..<13])"
proof -
  have v: "1 \<le> m" "m \<le> 12" "d \<le> daysIn m y"
    using assms by (simp_all add: valid_date_def)
  have "[1..<13] = [1..<Suc m] @ [Suc m..<13]"
    using v by (intro upt_split_at) simp_all
  then have "sum_list (map (\<lambda>k. daysIn k y) [1..<13])
             = days_before_month y (Suc m) + sum_list (map (\<lambda>k. daysIn k y) [Suc m..<13])"
    by (simp add: days_before_month_def)
  with v show ?thesis by (simp add: days_before_month_Suc)
qed

subsection \<open>Round trips between day numbers and civil dates\<close>

text \<open>Converting a valid proleptic Gregorian date to its day number and back gives the
  same date: the day counting of Go's \<open>time.Date\<close> and the date recovery of
  \<open>Time.Format\<close> (\<open>absDate\<close>) are inverse on valid dates.\<close>
theorem civil_from_days_from_civil:
  assumes "valid_date y m d"
  shows "civil_from_days (days_from_civil y m d) = (y, m, d)"
proof -
  let ?n = "days_from_civil y m d"
  have d1: "1 \<le> d" using assms by (simp add: valid_date_def)
  have off: "?n - days_before_year y = int (days_before_month y m + d - 1)"
    using d1 by (simp add: days_from_civil_def of_nat_diff)
  have "days_before_month y m + d \<le> (if isLeap y then 366 else 365)"
    using days_before_month_le_year [OF assms] unfolding sum_months_13 .
  then have "?n < days_before_year (y + 1)"
    using d1 by (simp add: days_from_civil_def days_before_year_succ split: if_splits)
  moreover have "days_before_year y \<le> ?n"
    using d1 by (simp add: days_from_civil_def)
  ultimately have "year_of_days ?n = y" by (intro year_of_days_unique)
  then show ?thesis
    using off month_day_civil [OF assms] by (simp add: civil_from_days_def)
qed

theorem days_from_civil_from_days:
  assumes "civil_from_days n = (y, m, d)"
  shows "valid_date y m d \<and> days_from_civil y m d = n"
proof -
  have y: "y = year_of_days n"
    using assms by (simp add: civil_from_days_def Let_def split: prod.splits)
  let ?doy = "nat (n - days_before_year y)"
  have md: "month_day y ?doy 1 = (m, d)"
    using assms y by (simp add: civil_from_days_def Let_def split: prod.splits)
  have b: "days_before_year y \<le> n" "n < days_before_year (y + 1)"
    using year_of_days_bounds [of n] y by simp_all
  then have "?doy < (if isLeap y then 366 else 365)"
    by (simp add: days_before_year_succ split: if_splits)
  then have "?doy < sum_list (map (\<lambda>k. daysIn k y) [1..<13])"
    unfolding sum_months_13 .
  from month_day_inv [OF md _ _ this]
  have inv: "1 \<le> m" "m \<le> 12" "1 \<le> d" "d \<le> daysIn m y"
    "days_before_month y m + d = Suc ?doy"
    by (simp_all add: days_before_month_def)
  then have "valid_date y m d" by (simp add: valid_date_def)
  moreover have "days_from_civil y m d = n"
    using inv(5) b(1) by (simp add: days_from_civil_def)
  ultimately show ?thesis ..
qed

end
