(* ===== verification/Time_Format.thy ===== *)
theory Time_Format
  imports Calendar
begin

text \<open>
  The part of Go's \<open>time\<close> package that \<open>Time.String\<close> and \<open>Time.MarshalJSON\<close>
  call: the \<open>time.Time\<close> value, the layout chunks of the two layouts the program
  uses, \<open>Time.Format\<close> (\<open>appendFormat\<close> with its helpers \<open>appendInt\<close> and
  \<open>appendNano\<close>) and \<open>strconv.Quote\<close>, which \<open>fmt.Sprintf("%q", ...)\<close>
  applies. A \<open>time.Time\<close> is an instant, counted in seconds from
  0001-01-01T00:00:00 UTC with a nanosecond part, together with the offset of the zone
  it carries; Go's zero \<open>Time{}\<close> is instant 0 in UTC. A layout string is modelled by
  the list of chunks Go's \<open>nextStdChunk\<close> splits it into; \<open>layout_string\<close>
  prints the chunks back, so that the chunk lists can be checked against the source's
  layout strings.
\<close>

record GoTime =
  sec_abs :: int
  nsec :: nat
  zone_offset :: int

definition zero_time :: GoTime where
  "zero_time = \<lparr>sec_abs = 0, nsec = 0, zone_offset = 0\<rparr>"

datatype layout_chunk =
  StdLongYear | StdZeroMonth | StdZeroDay | StdHour | StdZeroMinute | StdZeroSecond
  | StdFracSecond0 nat | StdISO8601ColonTZ | LayoutLit string

fun std_text :: "layout_chunk \<Rightarrow> string" where
  "std_text StdLongYear = ''2006''"
| "std_text StdZeroMonth = ''01''"
| "std_text StdZeroDay = ''02''"
| "std_text StdHour = ''15''"
| "std_text StdZeroMinute = ''04''"
| "std_text StdZeroSecond = ''05''"
| "std_text (StdFracSecond0 n) = CHR ''.'' # replicate n (CHR ''0'')"
| "std_text StdISO8601ColonTZ = ''Z07:00''"
| "std_text (LayoutLit s) = s"

definition layout_string :: "layout_chunk list \<Rightarrow> string" where
  "layout_string cs = concat (map std_text cs)"

definition timeLayout_chunks :: "layout_chunk list" where
  "timeLayout_chunks =
     [StdLongYear, LayoutLit ''-'', StdZeroMonth, LayoutLit ''-'', StdZeroDay, LayoutLit ''T'',
      StdHour, LayoutLit '':'', StdZeroMinute, LayoutLit '':'', StdZeroSecond, StdFracSecond0 6]"

definition RFC3339 :: string where
  "RFC3339 = ''2006-01-02T15:04:05Z07:00''"

definition RFC3339_chunks :: "layout_chunk list" where
  "RFC3339_chunks =
     [StdLongYear, LayoutLit ''-'', StdZeroMonth, LayoutLit ''-'', StdZeroDay, LayoutLit ''T'',
      StdHour, LayoutLit '':'', StdZeroMinute, LayoutLit '':'', StdZeroSecond, StdISO8601ColonTZ]"

record clock =
  cl_year :: int
  cl_month :: nat
  cl_day :: nat
  cl_hour :: nat
  cl_min :: nat
  cl_sec :: nat
  cl_nsec :: nat

definition wall_clock :: "GoTime \<Rightarrow> clock" where
  "wall_clock t =
     (let w = sec_abs t + zone_offset t;
          s = nat (w mod 86400)
      in case civil_from_days (w div 86400) of (y, m, d) \<Rightarrow>
           \<lparr>cl_year = y, cl_month = m, cl_day = d, cl_hour = s div 3600,
            cl_min = s mod 3600 div 60, cl_sec = s mod 60, cl_nsec = nsec t\<rparr>)"

definition digit_char :: "nat \<Rightarrow> char" where
  "digit_char d = char_of (48 + d)"

fun dec_digits :: "nat \<Rightarrow> string" where
  "dec_digits u = (if u < 10 then [digit_char u] else dec_digits (u div 10) @ [digit_char (u mod 10)])"

declare dec_digits.simps [simp del]

definition appendInt :: "int \<Rightarrow> nat \<Rightarrow> string" where
  "appendInt x width =
     (let ds = dec_digits (nat \<bar>x\<bar>)
      in (if x < 0 then ''-'' else []) @ replicate (width - length ds) (CHR ''0'') @ ds)"

definition appendNano :: "nat \<Rightarrow> nat \<Rightarrow> string" where
  "appendNano nanosec n = CHR ''.'' # take n (appendInt (int nanosec) 9)"

definition zone_minutes :: "int \<Rightarrow> int" where
  "zone_minutes offset = (if offset < 0 then - ((- offset) div 60) else offset div 60)"

fun format_chunk :: "clock \<Rightarrow> int \<Rightarrow> layout_chunk \<Rightarrow> string" where
  "format_chunk c off StdLongYear = appendInt (cl_year c) 4"
| "format_chunk c off StdZeroMonth = appendInt (int (cl_month c)) 2"
| "format_chunk c off StdZeroDay = appendInt (int (cl_day c)) 2"
| "format_chunk c off StdHour = appendInt (int (cl_hour c)) 2"
| "format_chunk c off StdZeroMinute = appendInt (int (cl_min c)) 2"
| "format_chunk c off StdZeroSecond = appendInt (int (cl_sec c)) 2"
| "format_chunk c off (StdFracSecond0 n) = appendNano (cl_nsec c) n"
| "format_chunk c off StdISO8601ColonTZ =
     (if off = 0 then ''Z''
      else let zone = zone_minutes off
           in (if zone < 0 then ''-'' else ''+'') @ appendInt (\<bar>zone\<bar> div 60) 2 @ '':''
              @ appendInt (\<bar>zone\<bar> mod 60) 2)"
| "format_chunk c off (LayoutLit s) = s"

definition Format :: "GoTime \<Rightarrow> layout_chunk list \<Rightarrow> string" where
  "Format t cs = concat (map (format_chunk (wall_clock t) (zone_offset t)) cs)"

definition hex_digit :: "nat \<Rightarrow> char" where
  "hex_digit d = (if d < 10 then digit_char d else char_of (87 + d))"

definition quote_char :: "char \<Rightarrow> string" where
  "quote_char c =
     (let b = of_char c :: nat in
      if c = CHR 0x22 \<or> c = CHR 0x5C then [CHR 0x5C, c]
      else if 32 \<le> b \<and> b < 127 then [c]
      else if c = CHR 0x07 then [CHR 0x5C, CHR ''a'']
      else if c = CHR 0x08 then [CHR 0x5C, CHR ''b'']
      else if c = CHR 0x0C then [CHR 0x5C, CHR ''f'']
      else if c = CHR 0x0A then [CHR 0x5C, CHR ''n'']
      else if c = CHR 0x0D then [CHR 0x5C, CHR ''r'']
      else if c = CHR 0x09 then [CHR 0x5C, CHR ''t'']
      else if c = CHR 0x0B then [CHR 0x5C, CHR ''v'']
      else [CHR 0x5C, CHR ''x'', hex_digit (b div 16), hex_digit (b mod 16)])"

definition go_Quote :: "string \<Rightarrow> string" where
  "go_Quote s = CHR 0x22 # concat (map quote_char s) @ [CHR 0x22]"

definition plain_char :: "char \<Rightarrow> bool" where
  "plain_char c \<longleftrightarrow> 32 \<le> (of_char c :: nat) \<and> (of_char c :: nat) < 127
                    \<and> c \<noteq> CHR 0x22 \<and> c \<noteq> CHR 0x5C"

subsection \<open>Digits and integers\<close>

lemma digit_char_simps [simp, digit_simps]:
  "digit_char 0 = CHR ''0''" "digit_char 1 = CHR ''1''" "digit_char 2 = CHR ''2''"
  "digit_char 3 = CHR ''3''" "digit_char 4 = CHR ''4''" "digit_char 5 = CHR ''5''"
  "digit_char 6 = CHR ''6''" "digit_char 7 = CHR ''7''" "digit_char 8 = CHR ''8''"
  "digit_char 9 = CHR ''9''" "digit_char (Suc 0) = CHR ''1''"
  by (simp_all add: digit_char_def char_of_eq_iff)

lemma of_char_digit_char [digit_simps]: "d < 10 \<Longrightarrow> of_char (digit_char d) = 48 + d"
  by (simp add: digit_char_def take_bit_eq_mod)

lemma plain_digit_char:
  assumes "d < 10"
  shows "plain_char (digit_char d)"
proof -
  have o: "of_char (digit_char d) = (48 + d :: nat)" using assms by (rule of_char_digit_char)
  have "digit_char d \<noteq> CHR 0x22 \<and> digit_char d \<noteq> CHR 0x5C"
  proof (intro conjI notI)
    assume "digit_char d = CHR 0x22"
    then have "of_char (digit_char d) = (34 :: nat)" by simp
    with o show False by simp
  next
    assume "digit_char d = CHR 0x5C"
    then have "of_char (digit_char d) = (92 :: nat)" by simp
    with o assms show False by simp
  qed
  with o assms show ?thesis by (simp add: plain_char_def)
qed

lemma dec_digits_small: "u < 10 \<Longrightarrow> dec_digits u = [digit_char u]"
  by (subst dec_digits.simps) simp

lemma dec_digits_large: "\<not> u < 10 \<Longrightarrow> dec_digits u = dec_digits (u div 10) @ [digit_char (u mod 10)]"
  by (subst dec_digits.simps) simp

lemmas dec_digits_eval = dec_digits_small dec_digits_large

lemma dec_digits_nonempty: "dec_digits u \<noteq> []"
  by (subst dec_digits.simps) simp

lemma length_dec_digits:
  "u < 10 ^ k \<Longrightarrow> 0 < k \<Longrightarrow> length (dec_digits u) \<le> k"
proof (induction u arbitrary: k rule: dec_digits.induct)
  case (1 u)
  show ?case
  proof (cases "u < 10")
    case True
    with "1.prems" show ?thesis by (subst dec_digits.simps) simp
  next
    case False
    then obtain k' where k: "k = Suc k'" using "1.prems" by (cases k) auto
    with False "1.prems"(1) have "u div 10 < 10 ^ k'" "0 < k'"
      by (auto simp: less_mult_imp_div_less mult.commute intro: Nat.gr0I)
    with "1.IH" False k show ?thesis by (subst dec_digits.simps) simp
  qed
qed

lemma length_appendInt:
  assumes "0 \<le> x" and "x < 10 ^ w" and "0 < w"
  shows "length (appendInt x w) = w"
proof -
  have "nat x < 10 ^ w" using assms by (simp add: nat_less_iff)
  then have "length (dec_digits (nat x)) \<le> w" using assms(3) by (rule length_dec_digits)
  then show ?thesis using assms(1) by (simp add: appendInt_def Let_def)
qed

lemma dec_digits_set: "set (dec_digits u) \<subseteq> digit_char ` {..<10}"
proof (induction u rule: dec_digits.induct)
  case (1 u)
  then show ?case by (subst dec_digits.simps) auto
qed

lemma appendInt_set: "set (appendInt x w) \<subseteq> insert (CHR ''-'') (digit_char ` {..<10})"
proof -
  have "CHR ''0'' \<in> digit_char ` {..<10}" using digit_char_simps(1) by (metis imageI lessThan_iff zero_less_numeral)
  then show ?thesis using dec_digits_set [of "nat \<bar>x\<bar>"] by (auto simp: appendInt_def Let_def)
qed

lemma appendNano_set:
  "set (appendNano ns n) \<subseteq> insert (CHR ''.'') (insert (CHR ''-'') (digit_char ` {..<10}))"
  using appendInt_set [of "int ns" 9] set_take_subset [of n "appendInt (int ns) 9"]
  by (auto simp: appendNano_def)

lemma Format_timeLayout_set:
  "set (Format t timeLayout_chunks) \<subseteq> set ''-T:.'' \<union> digit_char ` {..<10}"
  using appendInt_set appendNano_set
  by (simp add: Format_def timeLayout_chunks_def) blast

lemma quote_char_plain: "plain_char c \<Longrightarrow> quote_char c = [c]"
  by (simp add: quote_char_def plain_char_def)

lemma go_Quote_plain: "\<forall>c \<in> set s. plain_char c \<Longrightarrow> go_Quote s = CHR 0x22 # s @ [CHR 0x22]"
proof -
  assume "\<forall>c \<in> set s. plain_char c"
  then have "concat (map quote_char s) = s" by (induction s) (simp_all add: quote_char_plain)
  then show ?thesis by (simp add: go_Quote_def)
qed

lemma digit_char_not_Z: "d < 10 \<Longrightarrow> digit_char d \<noteq> CHR ''Z''"
proof
  assume d: "d < 10" and z: "digit_char d = CHR ''Z''"
  have "of_char (digit_char d) = (90 :: nat)" using z by simp
  moreover have "of_char (digit_char d) = (48 + d :: nat)" using d by (rule of_char_digit_char)
  ultimately show False using d by simp
qed

lemma Format_timeLayout_plain:
  "\<forall>c \<in> set (Format t timeLayout_chunks). plain_char c \<and> c \<noteq> CHR ''Z''"
proof
  fix c assume "c \<in> set (Format t timeLayout_chunks)"
  then have "c \<in> set ''-T:.'' \<or> c \<in> digit_char ` {..<10}" using Format_timeLayout_set by blast
  then show "plain_char c \<and> c \<noteq> CHR ''Z''"
    using plain_digit_char digit_char_not_Z by (auto simp: plain_char_def)
qed

end
