(* ===== verification/Time_Parse.thy ===== *)
theory Time_Parse
  imports Time_Format
begin

text \<open>
  Go's \<open>time.Parse\<close> for the two layouts the program uses, following the loop of
  \<open>time.parse\<close>: each layout chunk consumes a prefix of the value (\<open>parse_std\<close>,
  with the helpers \<open>getnum\<close>, \<open>atoi\<close>, \<open>leadingInt\<close>, \<open>parseNanoseconds\<close> and
  \<open>skip\<close>), the fields read so far are kept in a \<open>pstate\<close> as Go keeps them in local
  variables, and \<open>parse_finish\<close> rejects left-over text, validates the day of the
  month and builds the instant as \<open>time.Date\<close> does. Every error of Go's parser
  becomes \<open>None\<close> here and the value \<open>ParseError layout value\<close> at the top: the
  model keeps the layout and the offending string, which is what the specification's
  error taxonomy names, and drops Go's element and message strings.

  This is the general parser \<open>time.parse\<close>. For \<open>time.RFC3339\<close>, \<open>time.Parse\<close>
  first tries a strict fast path and falls back to the general parser; \<open>Time_RFC3339\<close>
  models the fast path and \<open>time.Parse\<close> and proves that every value the fast path
  accepts is accepted by the general parser with the same result. A zone offset that
  matches the process's local zone makes Go attach the local zone instead of a fixed one;
  either way the value carries the same offset, which is what the model records.
\<close>

datatype parse_error = ParseError string string

record pstate =
  ps_year :: int
  ps_month :: int
  ps_day :: int
  ps_hour :: int
  ps_min :: int
  ps_sec :: int
  ps_nsec :: int
  ps_utc :: bool
  ps_zone :: int

definition parse_init :: pstate where
  "parse_init = \<lparr>ps_year = 0, ps_month = -1, ps_day = -1, ps_hour = 0, ps_min = 0, ps_sec = 0,
                  ps_nsec = 0, ps_utc = False, ps_zone = -1\<rparr>"

definition is_digit :: "char \<Rightarrow> bool" where
  "is_digit c \<longleftrightarrow> 48 \<le> (of_char c :: nat) \<and> (of_char c :: nat) \<le> 57"

definition digit_val :: "char \<Rightarrow> nat" where
  "digit_val c = of_char c - 48"

definition is_digit_at :: "string \<Rightarrow> nat \<Rightarrow> bool" where
  "is_digit_at s i \<longleftrightarrow> i < length s \<and> is_digit (s ! i)"

definition commaOrPeriod :: "char \<Rightarrow> bool" where
  "commaOrPeriod c \<longleftrightarrow> c = CHR ''.'' \<or> c = CHR '',''"

definition getnum :: "string \<Rightarrow> bool \<Rightarrow> (nat \<times> string) option" where
  "getnum s fixed =
     (if \<not> is_digit_at s 0 then None
      else if \<not> is_digit_at s 1 then (if fixed then None else Some (digit_val (s ! 0), drop 1 s))
      else Some (digit_val (s ! 0) * 10 + digit_val (s ! 1), drop 2 s))"

fun leadingInt_loop :: "nat \<Rightarrow> string \<Rightarrow> (nat \<times> string) option" where
  "leadingInt_loop x [] = Some (x, [])"
| "leadingInt_loop x (c # cs) =
     (if \<not> is_digit c then Some (x, c # cs)
      else if x > 2 ^ 63 div 10 then None
      else let x' = x * 10 + digit_val c in
           if x' > 2 ^ 63 then None else leadingInt_loop x' cs)"

definition atoi :: "string \<Rightarrow> int option" where
  "atoi s =
     (let neg = (s \<noteq> [] \<and> hd s = CHR ''-'');
          s' = (if s \<noteq> [] \<and> (hd s = CHR ''-'' \<or> hd s = CHR ''+'') then tl s else s)
      in case leadingInt_loop 0 s' of
           None \<Rightarrow> None
         | Some (q, rem) \<Rightarrow> if rem \<noteq> [] then None else Some (if neg then - int q else int q))"

definition parseNanoseconds :: "string \<Rightarrow> nat \<Rightarrow> int option" where
  "parseNanoseconds value nbytes =
     (if value = [] \<or> \<not> commaOrPeriod (hd value) then None
      else let nb = min nbytes 10 in
        case atoi (take (nb - 1) (drop 1 value)) of
          None \<Rightarrow> None
        | Some ns \<Rightarrow> if ns < 0 then None else Some (ns * 10 ^ (10 - nb)))"

function skip :: "string \<Rightarrow> string \<Rightarrow> string option" where
  "skip value [] = Some value"
| "skip value (p # ps) =
     (if p = CHR '' '' then
        (if value \<noteq> [] \<and> hd value \<noteq> CHR '' '' then None
         else skip (dropWhile (\<lambda>c. c = CHR '' '') value) (dropWhile (\<lambda>c. c = CHR '' '') ps))
      else case value of
             [] \<Rightarrow> None
           | v # vs \<Rightarrow> if v = p then skip vs ps else None)"
  by pat_completeness auto
termination
  by (relation "measure (\<lambda>(value, prefix). length prefix)") (auto simp: le_imp_less_Suc length_dropWhile_le)

fun is_std :: "layout_chunk \<Rightarrow> bool" where
  "is_std (LayoutLit _) = False"
| "is_std _ = True"

definition frac_next :: "layout_chunk list \<Rightarrow> bool" where
  "frac_next cs = (case find is_std cs of Some (StdFracSecond0 _) \<Rightarrow> True | _ \<Rightarrow> False)"

fun parse_std :: "layout_chunk \<Rightarrow> layout_chunk list \<Rightarrow> pstate \<Rightarrow> string \<Rightarrow> (pstate \<times> string) option" where
  "parse_std StdLongYear cs st v =
     (if length v < 4 \<or> \<not> is_digit_at v 0 then None
      else case atoi (take 4 v) of
             None \<Rightarrow> None
           | Some y \<Rightarrow> Some (st\<lparr>ps_year := y\<rparr>, drop 4 v))"
| "parse_std StdZeroMonth cs st v =
     (case getnum v True of
        None \<Rightarrow> None
      | Some (m, v') \<Rightarrow> if m \<le> 0 \<or> 12 < m then None else Some (st\<lparr>ps_month := int m\<rparr>, v'))"
| "parse_std StdZeroDay cs st v =
     (case getnum v True of
        None \<Rightarrow> None
      | Some (d, v') \<Rightarrow> Some (st\<lparr>ps_day := int d\<rparr>, v'))"
| "parse_std StdHour cs st v =
     (case getnum v False of
        None \<Rightarrow> None
      | Some (h, v') \<Rightarrow> if 24 \<le> h then None else Some (st\<lparr>ps_hour := int h\<rparr>, v'))"
| "parse_std StdZeroMinute cs st v =
     (case getnum v True of
        None \<Rightarrow> None
      | Some (mi, v') \<Rightarrow> if 60 \<le> mi then None else Some (st\<lparr>ps_min := int mi\<rparr>, v'))"
| "parse_std StdZeroSecond cs st v =
     (case getnum v True of
        None \<Rightarrow> None
      | Some (s, v') \<Rightarrow>
          if 60 \<le> s then None
          else if 2 \<le> length v' \<and> commaOrPeriod (v' ! 0) \<and> is_digit_at v' 1 \<and> \<not> frac_next cs then
            (let n = 2 + length (takeWhile is_digit (drop 2 v')) in
             case parseNanoseconds v' n of
               None \<Rightarrow> None
             | Some ns \<Rightarrow> Some (st\<lparr>ps_sec := int s, ps_nsec := ns\<rparr>, drop n v'))
          else Some (st\<lparr>ps_sec := int s\<rparr>, v'))"
| "parse_std (StdFracSecond0 k) cs st v =
     (if length v < Suc k then None
      else case parseNanoseconds v (Suc k) of
             None \<Rightarrow> None
           | Some ns \<Rightarrow> Some (st\<lparr>ps_nsec := ns\<rparr>, drop (Suc k) v))"
| "parse_std StdISO8601ColonTZ cs st v =
     (if v \<noteq> [] \<and> hd v = CHR ''Z'' then Some (st\<lparr>ps_utc := True\<rparr>, tl v)
      else if length v < 6 then None
      else if v ! 3 \<noteq> CHR '':'' then None
      else case (getnum (take 2 (drop 1 v)) True, getnum (take 2 (drop 4 v)) True) of
             (Some (hr, _), Some (mm, _)) \<Rightarrow>
               if 24 < hr \<or> 60 < mm then None
               else if v ! 0 = CHR ''+'' then Some (st\<lparr>ps_zone := int ((hr * 60 + mm) * 60)\<rparr>, drop 6 v)
               else if v ! 0 = CHR ''-'' then Some (st\<lparr>ps_zone := - int ((hr * 60 + mm) * 60)\<rparr>, drop 6 v)
               else None
           | _ \<Rightarrow> None)"
| "parse_std (LayoutLit p) cs st v = map_option (Pair st) (skip v p)"

fun parse_chunks :: "layout_chunk list \<Rightarrow> pstate \<Rightarrow> string \<Rightarrow> (pstate \<times> string) option" where
  "parse_chunks [] st v = Some (st, v)"
| "parse_chunks (c # cs) st v =
     (case parse_std c cs st v of None \<Rightarrow> None | Some (st', v') \<Rightarrow> parse_chunks cs st' v')"

definition go_Date :: "int \<Rightarrow> nat \<Rightarrow> nat \<Rightarrow> nat \<Rightarrow> nat \<Rightarrow> nat \<Rightarrow> nat \<Rightarrow> int \<Rightarrow> GoTime" where
  "go_Date year month day hour minute second nanosec offset =
     \<lparr>sec_abs = days_from_civil year month day * 86400 + int hour * 3600 + int minute * 60
                + int second - offset,
      nsec = nanosec, zone_offset = offset\<rparr>"

definition parse_finish :: "pstate \<Rightarrow> string \<Rightarrow> GoTime option" where
  "parse_finish st rest =
     (if rest \<noteq> [] then None
      else let month = (if ps_month st < 0 then 1 else ps_month st);
               day = (if ps_day st < 0 then 1 else ps_day st)
      in if day < 1 \<or> int (daysIn (nat month) (ps_year st)) < day then None
         else Some (go_Date (ps_year st) (nat month) (nat day) (nat (ps_hour st)) (nat (ps_min st))
                      (nat (ps_sec st)) (nat (ps_nsec st))
                      (if ps_utc st then 0 else if ps_zone st \<noteq> -1 then ps_zone st else 0)))"

definition time_Parse :: "layout_chunk list \<Rightarrow> string \<Rightarrow> string \<Rightarrow> parse_error + GoTime" where
  "time_Parse chunks layout value =
     (case parse_chunks chunks parse_init value of
        None \<Rightarrow> Inl (ParseError layout value)
      | Some (st, rest) \<Rightarrow>
          (case parse_finish st rest of
             None \<Rightarrow> Inl (ParseError layout value)
           | Some t \<Rightarrow> Inr t))"

definition valid_clock :: "clock \<Rightarrow> bool" where
  "valid_clock c \<longleftrightarrow> 0 \<le> cl_year c \<and> cl_year c \<le> 9999
     \<and> valid_date (cl_year c) (cl_month c) (cl_day c)
     \<and> cl_hour c < 24 \<and> cl_min c < 60 \<and> cl_sec c < 60 \<and> cl_nsec c < 10 ^ 9"

text \<open>The bounds the fields read so far keep, whatever the layout: the invariant of the
  parser state.\<close>

definition ps_ok :: "pstate \<Rightarrow> bool" where
  "ps_ok st \<longleftrightarrow> 0 \<le> ps_year st \<and> ps_year st \<le> 9999
     \<and> (ps_month st = -1 \<or> 1 \<le> ps_month st \<and> ps_month st \<le> 12) \<and> -1 \<le> ps_day st
     \<and> 0 \<le> ps_hour st \<and> ps_hour st < 24 \<and> 0 \<le> ps_min st \<and> ps_min st < 60
     \<and> 0 \<le> ps_sec st \<and> ps_sec st < 60 \<and> 0 \<le> ps_nsec st \<and> ps_nsec st < 10 ^ 9"

subsection \<open>Digits\<close>

definition digits_from :: "nat \<Rightarrow> string \<Rightarrow> nat" where
  "digits_from x s = foldl (\<lambda>acc c. acc * 10 + digit_val c) x s"

lemma is_digit_digit_char [digit_simps]: "d < 10 \<Longrightarrow> is_digit (digit_char d)"
  by (simp add: is_digit_def of_char_digit_char)

lemma digit_val_digit_char [digit_simps]: "d < 10 \<Longrightarrow> digit_val (digit_char d) = d"
  by (simp add: digit_val_def of_char_digit_char)

lemma digit_val_less: "digit_val c < 10 \<or> \<not> is_digit c"
  by (auto simp: digit_val_def is_digit_def)

lemma digit_val_inj:
  assumes "is_digit c" and "is_digit c'" and "digit_val c = digit_val c'"
  shows "c = c'"
proof -
  have "48 \<le> (of_char c :: nat)" "48 \<le> (of_char c' :: nat)"
       "(of_char c :: nat) - 48 = of_char c' - 48"
    using assms by (simp_all add: is_digit_def digit_val_def)
  then have "(of_char c :: nat) = of_char c'" by linarith
  then have "char_of (of_char c :: nat) = char_of (of_char c' :: nat)" by (rule arg_cong)
  then show ?thesis by simp
qed

lemma digits_from_Nil [simp]: "digits_from x [] = x"
  by (simp add: digits_from_def)

lemma digits_from_Cons [simp]: "digits_from x (c # s) = digits_from (x * 10 + digit_val c) s"
  by (simp add: digits_from_def)

lemma digits_from_append: "digits_from x (s @ t) = digits_from (digits_from x s) t"
  by (simp add: digits_from_def)

lemma digits_from_shift: "digits_from x s = x * 10 ^ length s + digits_from 0 s"
proof (induction s arbitrary: x)
  case Nil
  then show ?case by simp
next
  case (Cons c s)
  have "digits_from x (c # s) = digits_from (x * 10 + digit_val c) s" by simp
  also have "\<dots> = (x * 10 + digit_val c) * 10 ^ length s + digits_from 0 s" by (rule Cons.IH)
  also have "\<dots> = x * 10 ^ length (c # s) + (digit_val c * 10 ^ length s + digits_from 0 s)"
    by (simp add: algebra_simps)
  also have "digit_val c * 10 ^ length s + digits_from 0 s = digits_from 0 (c # s)"
    using Cons.IH [of "digit_val c"] by simp
  finally show ?case .
qed

lemma digits_from_mono: "x \<le> digits_from x s"
proof (induction s arbitrary: x)
  case Nil
  then show ?case by simp
next
  case (Cons c s)
  have "x \<le> x * 10 + digit_val c" by simp
  also have "\<dots> \<le> digits_from (x * 10 + digit_val c) s" by (rule Cons.IH)
  finally show ?case by simp
qed

lemma digits_from_bound:
  "list_all is_digit s \<Longrightarrow> digits_from 0 s < 10 ^ length s"
proof (induction s rule: rev_induct)
  case Nil
  then show ?case by simp
next
  case (snoc c s)
  then have "digits_from 0 s < 10 ^ length s" and "digit_val c < 10"
    using digit_val_less [of c] by auto
  then have "digits_from 0 s * 10 + digit_val c < 10 ^ length s * 10" by linarith
  then show ?case by (simp add: digits_from_append)
qed

lemma digits_from_snoc: "digits_from 0 (s @ [c]) = digits_from 0 s * 10 + digit_val c"
  by (simp add: digits_from_append)

lemma digits_inj:
  assumes "list_all is_digit s" and "list_all is_digit s'" and "length s = length s'"
    and "digits_from 0 s = digits_from 0 s'"
  shows "s = s'"
  using assms
proof (induction s arbitrary: s' rule: rev_induct)
  case Nil
  then show ?case by simp
next
  case (snoc c s)
  obtain t c' where s': "s' = t @ [c']"
    using snoc.prems(3) by (cases s' rule: rev_cases) auto
  have dc: "is_digit c" "is_digit c'" "list_all is_digit s" "list_all is_digit t"
    using snoc.prems(1,2) s' by simp_all
  have lt: "digit_val c < 10" "digit_val c' < 10"
    using dc digit_val_less by blast+
  have eq: "digits_from 0 s * 10 + digit_val c = digits_from 0 t * 10 + digit_val c'"
    using snoc.prems(4) s' by (simp add: digits_from_snoc)
  then have "digit_val c = digit_val c'" using lt by (metis mod_mult_self3 mod_less)
  then have "c = c'" using dc by (intro digit_val_inj)
  moreover have "digits_from 0 s = digits_from 0 t" using eq \<open>digit_val c = digit_val c'\<close> by simp
  then have "s = t" using snoc.IH [of t] dc snoc.prems(3) s' by simp
  ultimately show ?case using s' by simp
qed

lemma digits_from_dec_digits: "digits_from 0 (dec_digits u) = u"
proof (induction u rule: dec_digits.induct)
  case (1 u)
  show ?case
  proof (cases "u < 10")
    case True
    then show ?thesis by (subst dec_digits.simps) (simp add: digit_val_digit_char)
  next
    case False
    then have "digits_from 0 (dec_digits u) = digits_from 0 (dec_digits (u div 10)) * 10 + u mod 10"
      by (subst dec_digits.simps) (simp add: digits_from_snoc digit_val_digit_char)
    with "1.IH" False show ?thesis by simp
  qed
qed

lemma dec_digits_all_digits: "list_all is_digit (dec_digits u)"
proof (induction u rule: dec_digits.induct)
  case (1 u)
  then show ?case by (subst dec_digits.simps) (simp add: is_digit_digit_char)
qed

lemma digits_from_zeros: "digits_from x (replicate k (CHR ''0'')) = x * 10 ^ k"
  by (induction k arbitrary: x) (simp_all add: digit_val_def)

lemma appendInt_nonneg:
  "0 \<le> x \<Longrightarrow> appendInt x w = replicate (w - length (dec_digits (nat x))) (CHR ''0'') @ dec_digits (nat x)"
  by (simp add: appendInt_def Let_def)

lemma is_digit_zero [digit_simps]: "is_digit (CHR ''0'')"
  by (simp add: is_digit_def)

lemma appendInt_all_digits: "list_all is_digit (appendInt (int n) w)"
  using dec_digits_all_digits [of n] is_digit_zero
  by (auto simp: appendInt_nonneg list_all_iff dest: in_set_replicate [THEN iffD1])

lemma appendInt_value: "digits_from 0 (appendInt (int n) w) = n"
  by (simp add: appendInt_nonneg digits_from_append digits_from_zeros digits_from_dec_digits)

lemma length_appendInt_nat: "n < 10 ^ w \<Longrightarrow> 0 < w \<Longrightarrow> length (appendInt (int n) w) = w"
  by (rule length_appendInt) simp_all

lemma appendInt_two:
  assumes "n < 100"
  obtains a b where "appendInt (int n) 2 = [a, b]" "is_digit a" "is_digit b"
    "digit_val a * 10 + digit_val b = n"
proof -
  have l: "length (appendInt (int n) 2) = 2" using assms by (intro length_appendInt_nat) simp_all
  then obtain a b where ab: "appendInt (int n) 2 = [a, b]"
    by (auto simp: length_Suc_conv numeral_2_eq_2)
  moreover have "is_digit a" "is_digit b" using appendInt_all_digits [of n 2] ab by simp_all
  moreover have "digit_val a * 10 + digit_val b = n" using appendInt_value [of n 2] ab by simp
  ultimately show ?thesis by (rule that)
qed

subsection \<open>The integer readers on digit strings\<close>

lemma leadingInt_loop_digits:
  assumes "list_all is_digit s" and "digits_from x s \<le> 2 ^ 63 div 10"
  shows "leadingInt_loop x (s @ r) = leadingInt_loop (digits_from x s) r"
  using assms
proof (induction s arbitrary: x)
  case Nil
  then show ?case by simp
next
  case (Cons c s)
  let ?x' = "x * 10 + digit_val c"
  have le: "x \<le> ?x'" "?x' \<le> digits_from ?x' s"
    using digits_from_mono [of ?x' s] by simp_all
  then have "\<not> x > 2 ^ 63 div 10" "\<not> ?x' > 2 ^ 63"
    using Cons.prems(2) by simp_all
  then have "leadingInt_loop x ((c # s) @ r) = leadingInt_loop ?x' (s @ r)"
    using Cons.prems(1) by (simp add: Let_def)
  also have "\<dots> = leadingInt_loop (digits_from ?x' s) r"
    using Cons.prems by (intro Cons.IH) simp_all
  finally show ?case by simp
qed

lemma digits_from_small:
  assumes "list_all is_digit s" and "length s \<le> 9"
  shows "digits_from 0 s \<le> 2 ^ 63 div 10"
proof -
  have "digits_from 0 s < 10 ^ length s" using assms(1) by (rule digits_from_bound)
  also have "(10::nat) ^ length s \<le> 10 ^ 9" using assms(2) by (intro power_increasing) simp_all
  finally show ?thesis by simp
qed

lemma atoi_digits:
  assumes "list_all is_digit s" and "s \<noteq> []" and "length s \<le> 9"
  shows "atoi s = Some (int (digits_from 0 s))"
proof -
  have "\<not> (hd s = CHR ''-'' \<or> hd s = CHR ''+'')"
    using assms(1,2) by (cases s) (auto simp: is_digit_def)
  moreover have "leadingInt_loop 0 (s @ []) = Some (digits_from 0 s, [])"
    using leadingInt_loop_digits [where r = "[]", OF assms(1) digits_from_small [OF assms(1,3)]]
    by simp
  ultimately show ?thesis by (simp add: atoi_def)
qed

lemma getnum_two_digits:
  "is_digit a \<Longrightarrow> is_digit b \<Longrightarrow> getnum (a # b # r) fixed = Some (digit_val a * 10 + digit_val b, r)"
  by (simp add: getnum_def is_digit_at_def)

lemma digits_from_take:
  assumes "list_all is_digit s" and "k \<le> length s"
  shows "digits_from 0 (take k s) = digits_from 0 s div 10 ^ (length s - k)"
proof -
  have "digits_from 0 s = digits_from 0 (take k s) * 10 ^ (length s - k) + digits_from 0 (drop k s)"
    using assms(2) digits_from_shift [of "digits_from 0 (take k s)" "drop k s"]
    by (metis append_take_drop_id digits_from_append length_drop)
  moreover have "digits_from 0 (drop k s) < 10 ^ (length s - k)"
    using digits_from_bound [of "drop k s"] assms(1) by (auto simp: list_all_iff dest: in_set_dropD)
  ultimately show ?thesis by simp
qed

lemma appendNano_digits:
  assumes "ns < 10 ^ 9"
  shows "list_all is_digit (take 6 (appendInt (int ns) 9))"
    and "length (take 6 (appendInt (int ns) 9)) = 6"
    and "digits_from 0 (take 6 (appendInt (int ns) 9)) = ns div 1000"
proof -
  have l: "length (appendInt (int ns) 9) = 9" using assms by (intro length_appendInt_nat) simp_all
  show "list_all is_digit (take 6 (appendInt (int ns) 9))"
    using appendInt_all_digits [of ns 9] by (auto simp: list_all_iff dest: in_set_takeD)
  show "length (take 6 (appendInt (int ns) 9)) = 6" using l by simp
  show "digits_from 0 (take 6 (appendInt (int ns) 9)) = ns div 1000"
    using digits_from_take [OF appendInt_all_digits, of 6 ns 9] l by (simp add: appendInt_value)
qed

lemma appendNano_truncate:
  assumes "ns < 10 ^ 9"
  shows "appendNano (ns div 1000 * 1000) 6 = appendNano ns 6"
proof -
  have b: "ns div 1000 * 1000 < 10 ^ 9" using assms by linarith
  have "take 6 (appendInt (int (ns div 1000 * 1000)) 9) = take 6 (appendInt (int ns) 9)"
    using appendNano_digits [OF assms] appendNano_digits [OF b] by (intro digits_inj) simp_all
  then show ?thesis by (simp add: appendNano_def)
qed

subsection \<open>Parsing the text that Format prints\<close>

lemma parse_year:
  assumes "0 \<le> y" and "y \<le> 9999"
  shows "parse_std StdLongYear cs st (appendInt y 4 @ r) = Some (st\<lparr>ps_year := y\<rparr>, r)"
proof -
  obtain n where y: "y = int n" using assms(1) nonneg_int_cases by blast
  let ?P = "appendInt (int n) 4"
  have l: "length ?P = 4" using assms y by (intro length_appendInt_nat) simp_all
  have d: "list_all is_digit ?P" by (rule appendInt_all_digits)
  have ne: "?P \<noteq> []" using l by auto
  have "is_digit_at (?P @ r) 0" using l d by (cases ?P) (simp_all add: is_digit_at_def)
  moreover have "atoi ?P = Some (int n)"
    using atoi_digits [OF d ne] l by (simp add: appendInt_value)
  ultimately show ?thesis using l y by simp
qed

lemma parse_two_digits:
  assumes "n < 100"
  shows "getnum (appendInt (int n) 2 @ r) fixed = Some (n, r)"
proof -
  obtain a b where "appendInt (int n) 2 = [a, b]" "is_digit a" "is_digit b"
      "digit_val a * 10 + digit_val b = n"
    using assms by (rule appendInt_two)
  then show ?thesis by (simp add: getnum_two_digits)
qed

lemma parse_month:
  "1 \<le> m \<Longrightarrow> m \<le> 12 \<Longrightarrow>
   parse_std StdZeroMonth cs st (appendInt (int m) 2 @ r) = Some (st\<lparr>ps_month := int m\<rparr>, r)"
  by (simp add: parse_two_digits)

lemma parse_day:
  "d < 100 \<Longrightarrow> parse_std StdZeroDay cs st (appendInt (int d) 2 @ r) = Some (st\<lparr>ps_day := int d\<rparr>, r)"
  by (simp add: parse_two_digits)

lemma parse_hour:
  "h < 24 \<Longrightarrow> parse_std StdHour cs st (appendInt (int h) 2 @ r) = Some (st\<lparr>ps_hour := int h\<rparr>, r)"
  by (simp add: parse_two_digits)

lemma parse_minute:
  "mi < 60 \<Longrightarrow> parse_std StdZeroMinute cs st (appendInt (int mi) 2 @ r) = Some (st\<lparr>ps_min := int mi\<rparr>, r)"
  by (simp add: parse_two_digits)

lemma parse_second:
  assumes "sc < 60" and "frac_next cs \<or> r = [] \<or> \<not> commaOrPeriod (hd r)"
  shows "parse_std StdZeroSecond cs st (appendInt (int sc) 2 @ r) = Some (st\<lparr>ps_sec := int sc\<rparr>, r)"
proof -
  have g: "getnum (appendInt (int sc) 2 @ r) True = Some (sc, r)"
    using assms(1) by (intro parse_two_digits) simp
  show ?thesis using g assms by (cases r) auto
qed

lemma parseNanoseconds_six:
  assumes "length D = 6" and "atoi D = Some x" and "0 \<le> x"
  shows "parseNanoseconds (CHR ''.'' # D @ r) 7 = Some (x * 1000)"
  using assms by (simp add: parseNanoseconds_def commaOrPeriod_def)

lemma parse_fraction6:
  assumes "ns < 10 ^ 9"
  shows "parse_std (StdFracSecond0 6) cs st (appendNano ns 6 @ r)
         = Some (st\<lparr>ps_nsec := int (ns div 1000 * 1000)\<rparr>, r)"
proof -
  define D where "D = take 6 (appendInt (int ns) 9)"
  have D: "list_all is_digit D" "length D = 6" "digits_from 0 D = ns div 1000"
    using appendNano_digits [OF assms] by (simp_all add: D_def)
  have ne: "D \<noteq> []" using D(2) by auto
  have a: "atoi D = Some (int (ns div 1000))"
    unfolding D(3) [symmetric] by (rule atoi_digits [OF D(1) ne]) (simp only: D(2))
  have v: "appendNano ns 6 @ r = CHR ''.'' # D @ r" by (simp add: appendNano_def D_def)
  have p: "parseNanoseconds (CHR ''.'' # D @ r) 7 = Some (int (ns div 1000 * 1000))"
    using parseNanoseconds_six [OF D(2) a] by simp
  show ?thesis unfolding v using p D(2) by simp
qed

lemma parse_literal:
  "c \<noteq> CHR '' '' \<Longrightarrow> parse_std (LayoutLit [c]) cs st (c # r) = Some (st, r)"
  by simp

lemma parse_zone_Z:
  "parse_std StdISO8601ColonTZ cs st (CHR ''Z'' # r) = Some (st\<lparr>ps_utc := True\<rparr>, r)"
  by simp

lemmas parse_chunk_lemmas =
  parse_year parse_month parse_day parse_hour parse_minute parse_second parse_fraction6
  parse_literal parse_zone_Z

lemma daysIn_le_31: "1 \<le> m \<Longrightarrow> m \<le> 12 \<Longrightarrow> daysIn m y \<le> 31"
proof -
  assume m: "1 \<le> m" "m \<le> 12"
  have "list_all (\<lambda>x. x \<le> 31) month_lengths" by (simp add: month_lengths_def)
  then have "\<forall>i < length month_lengths. month_lengths ! i \<le> 31" by (simp add: list_all_length)
  moreover have "m - 1 < length month_lengths" using m by (simp add: month_lengths_def)
  ultimately show ?thesis by (simp add: daysIn_def)
qed

lemma valid_clock_bounds:
  assumes "valid_clock c"
  shows "0 \<le> cl_year c" "cl_year c \<le> 9999" "1 \<le> cl_month c" "cl_month c \<le> 12"
    "cl_day c < 100" "cl_hour c < 24" "cl_min c < 60" "cl_sec c < 60" "cl_nsec c < 10 ^ 9"
  using assms daysIn_le_31 [of "cl_month c" "cl_year c"]
  by (simp_all add: valid_clock_def valid_date_def)

lemma frac_next_timeLayout: "frac_next [StdFracSecond0 6]"
  by (simp add: frac_next_def)

lemma parse_timeLayout_text:
  assumes "valid_clock c"
  shows "parse_chunks timeLayout_chunks st (concat (map (format_chunk c off) timeLayout_chunks))
         = Some (st\<lparr>ps_year := cl_year c, ps_month := int (cl_month c), ps_day := int (cl_day c),
                    ps_hour := int (cl_hour c), ps_min := int (cl_min c), ps_sec := int (cl_sec c),
                    ps_nsec := int (cl_nsec c div 1000 * 1000)\<rparr>, [])"
  using valid_clock_bounds [OF assms]
  by (simp del: parse_std.simps add: timeLayout_chunks_def parse_literal parse_year parse_month parse_day parse_hour parse_minute
      parse_second frac_next_timeLayout parse_fraction6 [where r = "[]", simplified])

lemma parse_RFC3339_Z_text:
  assumes "valid_clock c"
  shows "parse_chunks RFC3339_chunks st (concat (map (format_chunk c 0) RFC3339_chunks))
         = Some (st\<lparr>ps_year := cl_year c, ps_month := int (cl_month c), ps_day := int (cl_day c),
                    ps_hour := int (cl_hour c), ps_min := int (cl_min c), ps_sec := int (cl_sec c),
                    ps_utc := True\<rparr>, [])"
  using valid_clock_bounds [OF assms]
  by (simp del: parse_std.simps add: RFC3339_chunks_def parse_literal parse_zone_Z parse_year parse_month parse_day parse_hour parse_minute
      parse_second commaOrPeriod_def)

subsection \<open>Whole layouts\<close>

lemma parse_finish_clock:
  assumes "valid_clock c"
  shows "parse_finish (parse_init\<lparr>ps_year := cl_year c, ps_month := int (cl_month c),
            ps_day := int (cl_day c), ps_hour := int (cl_hour c), ps_min := int (cl_min c),
            ps_sec := int (cl_sec c), ps_nsec := int ns, ps_utc := u\<rparr>) []
         = Some (go_Date (cl_year c) (cl_month c) (cl_day c) (cl_hour c) (cl_min c) (cl_sec c)
                   ns 0)"
  using assms by (simp add: parse_finish_def parse_init_def valid_clock_def valid_date_def Let_def)

lemma time_Parse_timeLayout_text:
  assumes "valid_clock c"
  shows "time_Parse timeLayout_chunks l (concat (map (format_chunk c off) timeLayout_chunks))
         = Inr (go_Date (cl_year c) (cl_month c) (cl_day c) (cl_hour c) (cl_min c) (cl_sec c)
                  (cl_nsec c div 1000 * 1000) 0)"
  using parse_finish_clock [OF assms, where ns = "cl_nsec c div 1000 * 1000" and u = False]
  by (simp add: time_Parse_def parse_timeLayout_text [OF assms] parse_init_def)

lemma time_Parse_RFC3339_Z_text:
  assumes "valid_clock c"
  shows "time_Parse RFC3339_chunks l (concat (map (format_chunk c 0) RFC3339_chunks))
         = Inr (go_Date (cl_year c) (cl_month c) (cl_day c) (cl_hour c) (cl_min c) (cl_sec c) 0 0)"
  using parse_finish_clock [OF assms, where ns = 0 and u = True]
  by (simp add: time_Parse_def parse_RFC3339_Z_text [OF assms] parse_init_def)

subsection \<open>Wall clock\<close>

lemma hms_decompose: "(s div 3600) * 3600 + (s mod 3600 div 60) * 60 + s mod 60 = (s :: nat)"
proof -
  have "s mod 3600 mod 60 = s mod 60" by (simp add: mod_mod_cancel)
  moreover have "s mod 3600 div 60 * 60 + s mod 3600 mod 60 = s mod 3600" by (rule div_mult_mod_eq)
  moreover have "s div 3600 * 3600 + s mod 3600 = s" by (rule div_mult_mod_eq)
  ultimately show ?thesis by linarith
qed

lemma wall_clock_split:
  obtains y m d s where
    "civil_from_days ((sec_abs t + zone_offset t) div 86400) = (y, m, d)"
    "int s = (sec_abs t + zone_offset t) mod 86400" "s < 86400"
    "wall_clock t = \<lparr>cl_year = y, cl_month = m, cl_day = d, cl_hour = s div 3600,
                      cl_min = s mod 3600 div 60, cl_sec = s mod 60, cl_nsec = nsec t\<rparr>"
proof -
  obtain y m d where cd: "civil_from_days ((sec_abs t + zone_offset t) div 86400) = (y, m, d)"
    by (metis prod_cases3)
  define s where "s = nat ((sec_abs t + zone_offset t) mod 86400)"
  have "int s = (sec_abs t + zone_offset t) mod 86400" by (simp add: s_def)
  moreover have "s < 86400" by (simp add: s_def nat_less_iff)
  moreover have "wall_clock t = \<lparr>cl_year = y, cl_month = m, cl_day = d, cl_hour = s div 3600,
                      cl_min = s mod 3600 div 60, cl_sec = s mod 60, cl_nsec = nsec t\<rparr>"
    by (simp add: wall_clock_def cd s_def Let_def)
  ultimately show ?thesis using cd that by blast
qed

lemma wall_clock_valid:
  assumes "0 \<le> cl_year (wall_clock t)" and "cl_year (wall_clock t) \<le> 9999" and "nsec t < 10 ^ 9"
  shows "valid_clock (wall_clock t)"
proof -
  obtain y m d s where cd: "civil_from_days ((sec_abs t + zone_offset t) div 86400) = (y, m, d)"
    and s: "s < 86400"
    and wc: "wall_clock t = \<lparr>cl_year = y, cl_month = m, cl_day = d, cl_hour = s div 3600,
                      cl_min = s mod 3600 div 60, cl_sec = s mod 60, cl_nsec = nsec t\<rparr>"
    by (rule wall_clock_split)
  have "valid_date y m d" using days_from_civil_from_days [OF cd] by simp
  moreover have "s div 3600 < 24" using s by (simp add: div_less_iff_less_mult)
  ultimately show ?thesis using assms unfolding wc by (simp add: valid_clock_def)
qed

lemma go_Date_wall_clock:
  "go_Date (cl_year (wall_clock t)) (cl_month (wall_clock t)) (cl_day (wall_clock t))
     (cl_hour (wall_clock t)) (cl_min (wall_clock t)) (cl_sec (wall_clock t)) ns 0
   = \<lparr>sec_abs = sec_abs t + zone_offset t, nsec = ns, zone_offset = 0\<rparr>"
proof -
  obtain y m d s where cd: "civil_from_days ((sec_abs t + zone_offset t) div 86400) = (y, m, d)"
    and si: "int s = (sec_abs t + zone_offset t) mod 86400"
    and wc: "wall_clock t = \<lparr>cl_year = y, cl_month = m, cl_day = d, cl_hour = s div 3600,
                      cl_min = s mod 3600 div 60, cl_sec = s mod 60, cl_nsec = nsec t\<rparr>"
    by (rule wall_clock_split)
  have days: "days_from_civil y m d = (sec_abs t + zone_offset t) div 86400"
    using days_from_civil_from_days [OF cd] by simp
  have "int (s div 3600) * 3600 + int (s mod 3600 div 60) * 60 + int (s mod 60) = int s"
    using arg_cong [OF hms_decompose [of s], of int] by simp
  then have "days_from_civil y m d * 86400 + int (s div 3600) * 3600 + int (s mod 3600 div 60) * 60
             + int (s mod 60) = sec_abs t + zone_offset t"
    unfolding days using si div_mult_mod_eq [of "sec_abs t + zone_offset t" 86400] by linarith
  then show ?thesis unfolding wc by (simp add: go_Date_def)
qed

subsection \<open>Consumed input and the zone of the result\<close>

text \<open>Each layout element of the two layouts consumes a prefix of the input; a Z can
  only be consumed by the zone element, which then records UTC, or by a literal that
  contains one. Neither layout has such a literal, so a successful RFC 3339 parse of a
  text containing Z yields UTC, and the fixed layout, which has no zone element, always
  does.\<close>

lemma is_digit_not_Z: "is_digit c \<Longrightarrow> c \<noteq> CHR ''Z''"
  by (auto simp: is_digit_def)

lemma leadingInt_loop_all_digits:
  "leadingInt_loop x s = Some (q, []) \<Longrightarrow> list_all is_digit s"
proof (induction s arbitrary: x)
  case Nil
  then show ?case by simp
next
  case (Cons c s)
  then show ?case by (auto simp: Let_def split: if_splits)
qed

lemma atoi_no_Z: "atoi s = Some y \<Longrightarrow> CHR ''Z'' \<notin> set s"
proof -
  assume a: "atoi s = Some y"
  define s' where "s' = (if s \<noteq> [] \<and> (hd s = CHR ''+'' \<or> hd s = CHR ''-'') then tl s else s)"
  obtain q where "leadingInt_loop 0 s' = Some (q, [])"
    using a by (auto simp: atoi_def s'_def Let_def split: option.splits prod.splits if_splits)
  then have "list_all is_digit s'" by (rule leadingInt_loop_all_digits)
  then have "CHR ''Z'' \<notin> set s'" using is_digit_not_Z by (auto simp: list_all_iff)
  then show ?thesis by (cases s) (auto simp: s'_def split: if_splits)
qed

lemma getnum_consumes:
  "getnum v fixed = Some (n, v') \<Longrightarrow> \<exists>p. v = p @ v' \<and> CHR ''Z'' \<notin> set p"
proof -
  assume g: "getnum v fixed = Some (n, v')"
  then have d0: "is_digit_at v 0" by (auto simp: getnum_def split: if_splits)
  show ?thesis
  proof (cases "is_digit_at v 1")
    case True
    then have "v' = drop 2 v" using g d0 by (simp add: getnum_def)
    moreover have "CHR ''Z'' \<notin> set (take 2 v)"
      using True d0 is_digit_not_Z
      by (cases v rule: list.exhaust [case_product list.exhaust [of "tl v"]])
         (auto simp: is_digit_at_def)
    ultimately show ?thesis by (metis append_take_drop_id)
  next
    case False
    then have "v' = drop 1 v" using g d0 by (simp add: getnum_def split: if_splits)
    moreover have "CHR ''Z'' \<notin> set (take 1 v)"
      using d0 is_digit_not_Z by (cases v) (auto simp: is_digit_at_def)
    ultimately show ?thesis by (metis append_take_drop_id)
  qed
qed

lemma skip_consumes:
  "skip v l = Some v' \<Longrightarrow> \<exists>p. v = p @ v' \<and> set p \<subseteq> insert (CHR '' '') (set l)"
proof (induction v l arbitrary: v' rule: skip.induct)
  case (1 w)
  then show ?case by simp
next
  case (2 w p ps)
  show ?case
  proof (cases "p = CHR '' ''")
    case True
    let ?sp = "\<lambda>c. c = CHR '' ''"
    have g: "\<not> (w \<noteq> [] \<and> hd w \<noteq> CHR '' '')" and
      s: "skip (dropWhile ?sp w) (dropWhile ?sp ps) = Some v'"
      using "2.prems" True by (simp_all split: if_splits)
    obtain q where q: "dropWhile ?sp w = q @ v'"
        "set q \<subseteq> insert (CHR '' '') (set (dropWhile ?sp ps))"
      using "2.IH"(1) [OF True g s] by blast
    have "w = takeWhile ?sp w @ q @ v'" using q(1) by (metis takeWhile_dropWhile_id)
    moreover have "set (takeWhile ?sp w) \<subseteq> {CHR '' ''}" by (auto dest: set_takeWhileD)
    moreover have "set (dropWhile ?sp ps) \<subseteq> set ps" by (auto dest: set_dropWhileD)
    ultimately show ?thesis using q(2) True
      by (intro exI [of _ "takeWhile ?sp w @ q"]) (simp, blast)
  next
    case False
    then have s: "(case w of [] \<Rightarrow> None | c # cs \<Rightarrow> if c = p then skip cs ps else None) = Some v'"
      using "2.prems" by simp
    then obtain c cs where v: "w = c # cs" by (cases w) simp_all
    with s have c: "c = p" and s': "skip cs ps = Some v'" by (simp_all split: if_splits)
    obtain q where "cs = q @ v'" "set q \<subseteq> insert (CHR '' '') (set ps)"
      using "2.IH"(2) [OF False v c s'] by blast
    then show ?thesis using v c by (intro exI [of _ "c # q"]) auto
  qed
qed

lemma fraction_prefix_no_Z:
  assumes "2 \<le> length w" and "commaOrPeriod (w ! 0)" and "is_digit_at w 1"
  shows "CHR ''Z'' \<notin> set (take (2 + length (takeWhile is_digit (drop 2 w))) w)"
proof -
  obtain a b rest where w: "w = a # b # rest"
    using assms(1) by (cases w rule: list.exhaust [case_product list.exhaust [of "tl w"]]) auto
  have "take (length (takeWhile is_digit rest)) rest = takeWhile is_digit rest"
    by (metis takeWhile_eq_take)
  moreover have "CHR ''Z'' \<notin> set (takeWhile is_digit rest)"
    using is_digit_not_Z by (auto dest: set_takeWhileD)
  ultimately show ?thesis
    using assms(2,3) w is_digit_not_Z by (auto simp: commaOrPeriod_def is_digit_at_def)
qed

lemma zone_prefix_no_Z:
  assumes "parse_std StdISO8601ColonTZ cs st v = Some (st', v')" and "\<not> (v \<noteq> [] \<and> hd v = CHR ''Z'')"
  shows "\<exists>p. v = p @ v' \<and> CHR ''Z'' \<notin> set p \<and> ps_utc st' = ps_utc st"
proof -
  have l: "6 \<le> length v" using assms by (auto split: if_splits)
  obtain a b c d e f rest where v: "v = a # b # c # d # e # f # rest"
    using l by (auto simp: numeral_eq_Suc Suc_le_length_iff)
  have "v' = rest \<and> CHR ''Z'' \<notin> set [a, b, c, d, e, f] \<and> ps_utc st' = ps_utc st"
    using assms is_digit_not_Z
    by (auto simp: v getnum_def is_digit_at_def split: if_splits option.splits prod.splits)
  then show ?thesis using v by (intro exI [of _ "[a, b, c, d, e, f]"]) simp
qed

lemma parse_std_getnum:
  assumes "parse_std c cs st v = Some (st', v')"
    and "c \<in> {StdZeroMonth, StdZeroDay, StdHour, StdZeroMinute}"
  shows "\<exists>n fixed. getnum v fixed = Some (n, v') \<and> ps_utc st' = ps_utc st"
  using assms by (auto split: option.splits prod.splits if_splits) (intro exI, assumption)+

lemma parse_year_consumes:
  assumes "parse_std StdLongYear cs st v = Some (st', v')"
  shows "\<exists>p. v = p @ v' \<and> CHR ''Z'' \<notin> set p \<and> ps_utc st' = ps_utc st"
proof -
  obtain y where "atoi (take 4 v) = Some y" "v' = drop 4 v" "st' = st\<lparr>ps_year := y\<rparr>"
    using assms by (auto split: if_splits option.splits)
  then show ?thesis using atoi_no_Z by (intro exI [of _ "take 4 v"]) auto
qed

lemma parse_second_consumes:
  assumes "parse_std StdZeroSecond cs st v = Some (st', v')"
  shows "\<exists>p. v = p @ v' \<and> CHR ''Z'' \<notin> set p \<and> ps_utc st' = ps_utc st"
proof -
  obtain sc v1 where g: "getnum v True = Some (sc, v1)"
    using assms by (auto split: option.splits)
  have u: "ps_utc st' = ps_utc st"
    and r: "v' = v1 \<or> (2 \<le> length v1 \<and> commaOrPeriod (v1 ! 0) \<and> is_digit_at v1 1
                 \<and> v' = drop (2 + length (takeWhile is_digit (drop 2 v1))) v1)"
    using assms g by (auto simp: Let_def split: option.splits if_splits)
  obtain p1 where p1: "v = p1 @ v1" "CHR ''Z'' \<notin> set p1" using getnum_consumes [OF g] by blast
  from r show ?thesis
  proof
    assume "v' = v1"
    then show ?thesis using p1 u by auto
  next
    assume f: "2 \<le> length v1 \<and> commaOrPeriod (v1 ! 0) \<and> is_digit_at v1 1
               \<and> v' = drop (2 + length (takeWhile is_digit (drop 2 v1))) v1"
    let ?n = "2 + length (takeWhile is_digit (drop 2 v1))"
    have "CHR ''Z'' \<notin> set (take ?n v1)" using f by (intro fraction_prefix_no_Z) simp_all
    then show ?thesis using p1 u f by (intro exI [of _ "p1 @ take ?n v1"]) auto
  qed
qed

lemma parse_zone_consumes:
  assumes "parse_std StdISO8601ColonTZ cs st v = Some (st', v')"
  shows "\<exists>p. v = p @ v' \<and> (CHR ''Z'' \<in> set p \<longrightarrow> ps_utc st') \<and> (ps_utc st \<longrightarrow> ps_utc st')"
proof (cases "v \<noteq> [] \<and> hd v = CHR ''Z''")
  case True
  then have "v' = tl v" "ps_utc st'" using assms by auto
  then show ?thesis using True by (intro exI [of _ "[hd v]"]) (cases v, auto)
next
  case False
  then obtain p where "v = p @ v'" "CHR ''Z'' \<notin> set p" "ps_utc st' = ps_utc st"
    using zone_prefix_no_Z [OF assms] by blast
  then show ?thesis by blast
qed

lemma parse_literal_consumes:
  assumes "parse_std (LayoutLit l) cs st v = Some (st', v')"
  shows "\<exists>p. v = p @ v' \<and> (CHR ''Z'' \<in> set p \<longrightarrow> CHR ''Z'' \<in> set l) \<and> st' = st"
proof -
  have s: "skip v l = Some v'" and "st' = st" using assms by auto
  obtain p where "v = p @ v'" "set p \<subseteq> insert (CHR '' '') (set l)" using skip_consumes [OF s] by blast
  then show ?thesis using \<open>st' = st\<close> by (intro exI [of _ p]) auto
qed

lemma parse_std_consumes:
  assumes "parse_std c cs st v = Some (st', v')" and "\<forall>k. c \<noteq> StdFracSecond0 k"
  shows "\<exists>p. v = p @ v' \<and> (CHR ''Z'' \<in> set p \<longrightarrow> ps_utc st' \<or> (\<exists>l. c = LayoutLit l \<and> CHR ''Z'' \<in> set l))
           \<and> (ps_utc st \<longrightarrow> ps_utc st')"
proof (cases c)
  case StdLongYear
  then show ?thesis using parse_year_consumes assms(1) by fastforce
next
  case StdZeroSecond
  then show ?thesis using parse_second_consumes assms(1) by fastforce
next
  case StdISO8601ColonTZ
  then show ?thesis using parse_zone_consumes assms(1) by blast
next
  case (LayoutLit l)
  then show ?thesis using parse_literal_consumes assms(1) by blast
next
  case (StdFracSecond0 k)
  then show ?thesis using assms(2) by blast
qed (use parse_std_getnum [OF assms(1)] getnum_consumes in fastforce)+

lemma parse_chunks_consumes:
  assumes "parse_chunks cs st v = Some (st', v')" and "\<forall>c \<in> set cs. \<forall>k. c \<noteq> StdFracSecond0 k"
  shows "\<exists>p. v = p @ v' \<and> (CHR ''Z'' \<in> set p \<longrightarrow> ps_utc st' \<or> (\<exists>l. LayoutLit l \<in> set cs \<and> CHR ''Z'' \<in> set l))
           \<and> (ps_utc st \<longrightarrow> ps_utc st')"
  using assms
proof (induction cs arbitrary: st v)
  case Nil
  then show ?case by simp
next
  case (Cons c cs)
  obtain st1 v1 where s1: "parse_std c cs st v = Some (st1, v1)" and s2: "parse_chunks cs st1 v1 = Some (st', v')"
    using Cons.prems(1) by (auto split: option.splits)
  obtain p1 where p1: "v = p1 @ v1" "CHR ''Z'' \<in> set p1 \<longrightarrow> ps_utc st1 \<or> (\<exists>l. c = LayoutLit l \<and> CHR ''Z'' \<in> set l)"
      "ps_utc st \<longrightarrow> ps_utc st1"
    using parse_std_consumes [OF s1] Cons.prems(2) by auto
  obtain p2 where p2: "v1 = p2 @ v'" "CHR ''Z'' \<in> set p2 \<longrightarrow> ps_utc st' \<or> (\<exists>l. LayoutLit l \<in> set cs \<and> CHR ''Z'' \<in> set l)"
      "ps_utc st1 \<longrightarrow> ps_utc st'"
    using Cons.IH [OF s2] Cons.prems(2) by auto
  show ?case using p1 p2 by (intro exI [of _ "p1 @ p2"]) auto
qed

lemma parse_std_keeps_zone:
  "parse_std c cs st v = Some (st', v') \<Longrightarrow> c \<noteq> StdISO8601ColonTZ \<Longrightarrow>
   ps_utc st' = ps_utc st \<and> ps_zone st' = ps_zone st"
  by (cases c) (auto simp: Let_def split: if_splits option.splits prod.splits)

lemma parse_chunks_keeps_zone:
  "parse_chunks cs st v = Some (st', v') \<Longrightarrow> StdISO8601ColonTZ \<notin> set cs \<Longrightarrow>
   ps_utc st' = ps_utc st \<and> ps_zone st' = ps_zone st"
proof (induction cs arbitrary: st v)
  case Nil
  then show ?case by simp
next
  case (Cons c cs)
  then obtain st1 v1 where "parse_std c cs st v = Some (st1, v1)" "parse_chunks cs st1 v1 = Some (st', v')"
    by (auto split: option.splits)
  then show ?case using Cons parse_std_keeps_zone by fastforce
qed

lemma parse_finish_zone:
  "parse_finish st rest = Some t \<Longrightarrow>
   rest = [] \<and> zone_offset t = (if ps_utc st then 0 else if ps_zone st \<noteq> -1 then ps_zone st else 0)"
  by (auto simp: parse_finish_def go_Date_def Let_def split: if_splits)

lemma time_Parse_timeLayout_utc:
  "time_Parse timeLayout_chunks l s = Inr t \<Longrightarrow> zone_offset t = 0"
  using parse_chunks_keeps_zone [of timeLayout_chunks parse_init s] parse_finish_zone
  by (auto simp: time_Parse_def timeLayout_chunks_def parse_init_def split: option.splits prod.splits)

lemma time_Parse_RFC3339_utc:
  assumes "CHR ''Z'' \<in> set s" and "time_Parse RFC3339_chunks l s = Inr t"
  shows "zone_offset t = 0"
proof -
  obtain st rest where pc: "parse_chunks RFC3339_chunks parse_init s = Some (st, rest)"
    and pf: "parse_finish st rest = Some t"
    using assms(2) by (auto simp: time_Parse_def split: option.splits prod.splits)
  have "rest = []" using parse_finish_zone [OF pf] by simp
  then obtain p where "s = p @ []"
    and z: "CHR ''Z'' \<in> set p \<longrightarrow> ps_utc st \<or> (\<exists>l. LayoutLit l \<in> set RFC3339_chunks \<and> CHR ''Z'' \<in> set l)"
    using parse_chunks_consumes [OF pc] by (auto simp: RFC3339_chunks_def)
  then have "ps_utc st" using assms(1) by (auto simp: RFC3339_chunks_def)
  then show ?thesis using parse_finish_zone [OF pf] by simp
qed

subsection \<open>Bounds of a parsed time\<close>

text \<open>Every element keeps the parser state within the bounds \<open>ps_ok\<close> (the
  invariant holds of \<open>parse_init\<close> and each \<open>parse_std\<close> step preserves it), so the
  time \<open>parse_finish\<close> builds is \<open>time.Date\<close> of a valid clock reading: a year in
  0..9999, a valid date, an hour, minute and second in range and nanoseconds below
  \<open>10^9\<close>. At offset 0 its wall clock is that reading.\<close>

lemma leadingInt_loop_value:
  "leadingInt_loop x s = Some (q, []) \<Longrightarrow> q = digits_from x s"
  by (induction s arbitrary: x) (auto simp: Let_def split: if_splits)

lemma atoi_bound:
  assumes "atoi s = Some x" and "0 \<le> x"
  shows "x < 10 ^ length s"
proof -
  let ?s' = "if s \<noteq> [] \<and> (hd s = CHR ''-'' \<or> hd s = CHR ''+'') then tl s else s"
  obtain q where l: "leadingInt_loop 0 ?s' = Some (q, [])" and x: "x = int q"
    using assms by (auto simp: atoi_def Let_def split: option.splits prod.splits if_splits)
  have "q = digits_from 0 ?s'" by (rule leadingInt_loop_value [OF l])
  moreover have "digits_from 0 ?s' < 10 ^ length ?s'"
    by (rule digits_from_bound [OF leadingInt_loop_all_digits [OF l]])
  moreover have "(10::nat) ^ length ?s' \<le> 10 ^ length s" by (intro power_increasing) auto
  ultimately have "q < 10 ^ length s" by linarith
  then show ?thesis using x by (metis of_nat_less_iff of_nat_numeral of_nat_power)
qed

lemma parseNanoseconds_bound:
  assumes "parseNanoseconds v n = Some ns"
  shows "0 \<le> ns \<and> ns < 10 ^ 9"
proof -
  let ?nb = "min n 10"
  obtain x where a: "atoi (take (?nb - 1) (drop 1 v)) = Some x" and x: "0 \<le> x"
    and ns: "ns = x * 10 ^ (10 - ?nb)"
    using assms by (auto simp: parseNanoseconds_def Let_def split: if_splits option.splits)
  have "x < 10 ^ length (take (?nb - 1) (drop 1 v))" by (rule atoi_bound [OF a x])
  moreover have "(10::int) ^ length (take (?nb - 1) (drop 1 v)) \<le> 10 ^ (?nb - 1)"
    by (intro power_increasing) auto
  ultimately have xb: "x < 10 ^ (?nb - 1)" by linarith
  show ?thesis
  proof (cases "?nb = 0")
    case True
    then show ?thesis using xb x ns by simp
  next
    case False
    then have e: "?nb - 1 + (10 - ?nb) = 9" by simp
    have "x * 10 ^ (10 - ?nb) < 10 ^ (?nb - 1) * 10 ^ (10 - ?nb)"
      using xb by (intro mult_strict_right_mono) simp_all
    also have "\<dots> = 10 ^ 9" by (simp only: power_add [symmetric] e)
    finally show ?thesis using ns x by simp
  qed
qed

lemma atoi_nonneg: "atoi s = Some y \<Longrightarrow> s \<noteq> [] \<Longrightarrow> is_digit (hd s) \<Longrightarrow> 0 \<le> y"
  by (auto simp: atoi_def Let_def is_digit_def split: option.splits prod.splits if_splits)

lemma parse_year_bound:
  assumes "atoi (take 4 v) = Some y" and "\<not> length v < 4" and "is_digit_at v 0"
  shows "0 \<le> y \<and> y \<le> 9999"
proof -
  have ne: "take 4 v \<noteq> []" and hd: "is_digit (hd (take 4 v))"
    using assms(2,3) by (cases v; simp add: is_digit_at_def)+
  have y: "0 \<le> y" by (rule atoi_nonneg [OF assms(1) ne hd])
  have "y < 10 ^ length (take 4 v)" by (rule atoi_bound [OF assms(1) y])
  then show ?thesis using y assms(2) by simp
qed

lemma ps_ok_init: "ps_ok parse_init"
  by (simp add: ps_ok_def parse_init_def)

lemma parse_std_ps_ok:
  assumes "parse_std c cs st v = Some (st', v')" and "ps_ok st"
  shows "ps_ok st'"
  using assms
proof (cases c)
  case StdLongYear
  then show ?thesis using assms
    by (auto simp: ps_ok_def split: if_splits option.splits dest: parse_year_bound)
next
  case StdZeroSecond
  then show ?thesis using assms
    by (auto simp: ps_ok_def Let_def split: if_splits option.splits prod.splits dest: parseNanoseconds_bound)
next
  case (StdFracSecond0 k)
  then show ?thesis using assms
    by (auto simp: ps_ok_def split: if_splits option.splits dest: parseNanoseconds_bound)
qed (auto simp: ps_ok_def split: if_splits option.splits prod.splits)

lemma parse_chunks_ps_ok:
  "parse_chunks cs st v = Some (st', v') \<Longrightarrow> ps_ok st \<Longrightarrow> ps_ok st'"
  by (induction cs arbitrary: st v) (auto split: option.splits dest: parse_std_ps_ok)

lemma hms_parts:
  assumes "h < 24" and "mi < 60" and "sc < (60::nat)"
  shows "(h * 3600 + mi * 60 + sc) div 3600 = h" "(h * 3600 + mi * 60 + sc) mod 3600 div 60 = mi"
    "(h * 3600 + mi * 60 + sc) mod 60 = sc" "h * 3600 + mi * 60 + sc < 86400"
proof -
  have r: "mi * 60 + sc < 3600" using assms(2,3) by linarith
  show "(h * 3600 + mi * 60 + sc) div 3600 = h" using r by simp
  have e: "h * 3600 + mi * 60 + sc = (mi * 60 + sc) + h * 3600" by simp
  have "(h * 3600 + mi * 60 + sc) mod 3600 = mi * 60 + sc"
    unfolding e using r by (simp only: mod_mult_self1 mod_less)
  then show "(h * 3600 + mi * 60 + sc) mod 3600 div 60 = mi" using assms(3) by simp
  have e2: "h * 3600 + mi * 60 + sc = sc + (h * 60 + mi) * 60" by simp
  show "(h * 3600 + mi * 60 + sc) mod 60 = sc"
    unfolding e2 using assms(3) by (simp only: mod_mult_self1 mod_less)
  show "h * 3600 + mi * 60 + sc < 86400" using assms(1) r by linarith
qed

lemma wall_clock_go_Date:
  assumes "valid_clock c"
  shows "wall_clock (go_Date (cl_year c) (cl_month c) (cl_day c) (cl_hour c) (cl_min c) (cl_sec c) ns 0)
         = c\<lparr>cl_nsec := ns\<rparr>"
proof -
  let ?x = "cl_hour c * 3600 + cl_min c * 60 + cl_sec c"
  let ?D = "days_from_civil (cl_year c) (cl_month c) (cl_day c)"
  have b: "cl_hour c < 24" "cl_min c < 60" "cl_sec c < 60" and vd: "valid_date (cl_year c) (cl_month c) (cl_day c)"
    using assms by (simp_all add: valid_clock_def)
  note hms = hms_parts [OF b]
  have w: "sec_abs (go_Date (cl_year c) (cl_month c) (cl_day c) (cl_hour c) (cl_min c) (cl_sec c) ns 0)
           = ?D * 86400 + int ?x"
    by (simp add: go_Date_def)
  have n: "nsec (go_Date (cl_year c) (cl_month c) (cl_day c) (cl_hour c) (cl_min c) (cl_sec c) ns 0) = ns"
    "zone_offset (go_Date (cl_year c) (cl_month c) (cl_day c) (cl_hour c) (cl_min c) (cl_sec c) ns 0) = 0"
    by (simp_all add: go_Date_def)
  have dm: "(?D * 86400 + int ?x) div 86400 = ?D" "nat ((?D * 86400 + int ?x) mod 86400) = ?x"
    using hms(4) by simp_all
  show ?thesis
    unfolding wall_clock_def Let_def w n
    using civil_from_days_from_civil [OF vd] hms dm by (cases c) simp
qed

lemma parse_finish_valid:
  assumes "parse_finish st rest = Some t" and "ps_ok st"
  shows "\<exists>c. valid_clock c \<and>
           t = go_Date (cl_year c) (cl_month c) (cl_day c) (cl_hour c) (cl_min c) (cl_sec c) (cl_nsec c)
                 (zone_offset t)"
proof -
  let ?m = "if ps_month st < 0 then 1 else ps_month st"
  let ?d = "if ps_day st < 0 then 1 else ps_day st"
  let ?c = "\<lparr>cl_year = ps_year st, cl_month = nat ?m, cl_day = nat ?d, cl_hour = nat (ps_hour st),
             cl_min = nat (ps_min st), cl_sec = nat (ps_sec st), cl_nsec = nat (ps_nsec st)\<rparr>"
  have d: "1 \<le> ?d" "?d \<le> int (daysIn (nat ?m) (ps_year st))"
    and t: "t = go_Date (ps_year st) (nat ?m) (nat ?d) (nat (ps_hour st)) (nat (ps_min st))
                 (nat (ps_sec st)) (nat (ps_nsec st)) (zone_offset t)"
    using assms(1) by (auto simp: parse_finish_def Let_def go_Date_def split: if_splits)
  have "valid_clock ?c"
    using assms(2) d by (auto simp: ps_ok_def valid_clock_def valid_date_def nat_less_iff)
  then show ?thesis using t by (intro exI [of _ ?c]) simp
qed

lemma time_Parse_valid:
  assumes "time_Parse cs l s = Inr t" and "zone_offset t = 0"
  shows "valid_clock (wall_clock t)"
proof -
  obtain st rest where pc: "parse_chunks cs parse_init s = Some (st, rest)"
    and pf: "parse_finish st rest = Some t"
    using assms(1) by (auto simp: time_Parse_def split: option.splits prod.splits)
  have "ps_ok st" by (rule parse_chunks_ps_ok [OF pc ps_ok_init])
  then obtain c where c: "valid_clock c"
    and t: "t = go_Date (cl_year c) (cl_month c) (cl_day c) (cl_hour c) (cl_min c) (cl_sec c) (cl_nsec c) 0"
    using parse_finish_valid [OF pf] assms(2) by auto
  have "wall_clock t = c" unfolding t wall_clock_go_Date [OF c] by simp
  then show ?thesis using c by simp
qed

end
