(* ===== verification/Time_RFC3339.thy ===== *)
theory Time_RFC3339
  imports Time_Parse "HOL-Library.Monad_Syntax"
begin

text \<open>
  The strict fast path Go's \<open>time.Parse\<close> tries first for the layouts \<open>time.RFC3339\<close>
  and \<open>time.RFC3339Nano\<close> (\<open>parseRFC3339\<close> in \<open>format_rfc3339.go\<close>), and
  \<open>time.Parse\<close> itself: the fast path's result when it succeeds, the general parser
  \<open>time_Parse\<close> otherwise. The fast path reads the fixed positions of
  \<open>2006-01-02T15:04:05\<close> with \<open>parseUint\<close>, which checks the digits and a range (Go
  records a failure in a flag and returns false at the end; here the first failure is
  \<open>None\<close>, which gives the same result), then an optional \<open>.\<close> fraction and the zone,
  \<open>Z\<close> or \<open>\<plusminus>hh:mm\<close>. The theorem of this theory is that whatever the fast path
  accepts, the general parser accepts with the same result, so that \<open>time.Parse\<close>
  equals the general parser on the layouts the program uses.
\<close>

definition parseUint :: "string \<Rightarrow> nat \<Rightarrow> nat \<Rightarrow> nat option" where
  "parseUint s lo hi =
     (if \<not> list_all is_digit s then None
      else let x = digits_from 0 s in if x < lo \<or> hi < x then None else Some x)"

definition rfc3339_frac :: "string \<Rightarrow> nat \<times> string" where
  "rfc3339_frac s =
     (if 2 \<le> length s \<and> s ! 0 = CHR ''.'' \<and> is_digit_at s 1 then
        let n = 2 + length (takeWhile is_digit (drop 2 s))
        in ((case parseNanoseconds s n of Some ns \<Rightarrow> nat ns | None \<Rightarrow> 0), drop n s)
      else (0, s))"

definition rfc3339_zone :: "string \<Rightarrow> int option" where
  "rfc3339_zone s =
     (if s = ''Z'' then Some 0
      else if length s \<noteq> 6 then None
      else do {
        hr \<leftarrow> parseUint (take 2 (drop 1 s)) 0 23;
        mm \<leftarrow> parseUint (take 2 (drop 4 s)) 0 59;
        if (s ! 0 = CHR ''-'' \<or> s ! 0 = CHR ''+'') \<and> s ! 3 = CHR '':'' then
          Some (if s ! 0 = CHR ''-'' then - int ((hr * 60 + mm) * 60) else int ((hr * 60 + mm) * 60))
        else None
      })"

definition parseRFC3339 :: "string \<Rightarrow> GoTime option" where
  "parseRFC3339 s =
     (if length s < 19 then None
      else do {
        year \<leftarrow> parseUint (take 4 s) 0 9999;
        month \<leftarrow> parseUint (take 2 (drop 5 s)) 1 12;
        day \<leftarrow> parseUint (take 2 (drop 8 s)) 1 (daysIn month (int year));
        hour \<leftarrow> parseUint (take 2 (drop 11 s)) 0 23;
        minute \<leftarrow> parseUint (take 2 (drop 14 s)) 0 59;
        sec \<leftarrow> parseUint (take 2 (drop 17 s)) 0 59;
        if s ! 4 = CHR ''-'' \<and> s ! 7 = CHR ''-'' \<and> s ! 10 = CHR ''T'' \<and> s ! 13 = CHR '':''
           \<and> s ! 16 = CHR '':'' then
          (case rfc3339_frac (drop 19 s) of (ns, z) \<Rightarrow>
             map_option (go_Date (int year) month day hour minute sec ns) (rfc3339_zone z))
        else None
      })"

definition RFC3339Nano :: string where
  "RFC3339Nano = ''2006-01-02T15:04:05.999999999Z07:00''"

definition go_time_Parse :: "layout_chunk list \<Rightarrow> string \<Rightarrow> string \<Rightarrow> parse_error + GoTime" where
  "go_time_Parse chunks layout value =
     (if layout = RFC3339 \<or> layout = RFC3339Nano then
        (case parseRFC3339 value of Some t \<Rightarrow> Inr t | None \<Rightarrow> time_Parse chunks layout value)
      else time_Parse chunks layout value)"

subsection \<open>What the fast path accepts, the general parser accepts alike\<close>


lemma parseUint_Some:
  "parseUint s lo hi = Some x \<Longrightarrow> list_all is_digit s \<and> digits_from 0 s = x \<and> lo \<le> x \<and> x \<le> hi"
  by (auto simp: parseUint_def Let_def split: if_splits)

lemma getnum_parseUint:
  assumes "parseUint [a, b] lo hi = Some x"
  shows "getnum (a # b # r) fixed = Some (x, r)"
  using parseUint_Some [OF assms] by (simp add: getnum_two_digits)

lemma parseNanoseconds_digits:
  assumes "2 \<le> length r" and "commaOrPeriod (r ! 0)" and "is_digit_at r 1"
    and "n = 2 + length (takeWhile is_digit (drop 2 r))"
  shows "\<exists>v. parseNanoseconds r n = Some (int v)"
proof -
  obtain c r' where r: "r = c # r'" using assms(1) by (cases r) auto
  let ?nb = "min n 10"
  let ?D = "take (?nb - 1) r'"
  have nb: "2 \<le> ?nb" "?nb \<le> 10" using assms(4) by simp_all
  have "take (n - 1) r' = takeWhile is_digit r'"
  proof -
    obtain d r'' where r': "r' = d # r''" using assms(1) r by (cases r') auto
    have "is_digit d" using assms(3) r r' by (simp add: is_digit_at_def)
    moreover have "take (length (takeWhile is_digit r'')) r'' = takeWhile is_digit r''"
      by (rule takeWhile_eq_take [symmetric])
    ultimately show ?thesis using assms(4) r r' by simp
  qed
  then have all: "list_all is_digit (take (n - 1) r')"
    by (simp add: list_all_iff) (meson set_takeWhileD)
  have D: "?D = take (?nb - 1) (take (n - 1) r')" by (auto simp: min_def)
  have d: "list_all is_digit ?D"
    using all unfolding D list_all_iff by (blast dest: in_set_takeD)
  have ne: "?D \<noteq> []" using assms(1,3) r nb by (cases r') (auto simp: is_digit_at_def)
  have l: "length ?D \<le> 9" using nb by simp
  have "atoi ?D = Some (int (digits_from 0 ?D))" by (rule atoi_digits [OF d ne l])
  then show ?thesis using assms(2) r
    by (auto simp: parseNanoseconds_def Let_def of_nat_mult of_nat_power intro: exI [of _ "digits_from 0 ?D * 10 ^ (10 - ?nb)"])
qed

lemma rfc3339_zone_general:
  assumes "rfc3339_zone z = Some off"
  shows "(parse_std StdISO8601ColonTZ cs st z = Some (st\<lparr>ps_utc := True\<rparr>, []) \<and> off = 0)
       \<or> (parse_std StdISO8601ColonTZ cs st z = Some (st\<lparr>ps_zone := off\<rparr>, []) \<and> off \<noteq> -1)"
proof (cases "z = ''Z''")
  case True
  then show ?thesis using assms by (simp add: rfc3339_zone_def)
next
  case False
  then have l: "length z = 6" using assms by (simp add: rfc3339_zone_def split: if_splits)
  then obtain c0 c1 c2 c3 c4 c5 where z: "z = [c0, c1, c2, c3, c4, c5]"
    by (auto simp: length_Suc_conv numeral_eq_Suc)
  obtain hr mm where hr: "parseUint [c1, c2] 0 23 = Some hr" and mm: "parseUint [c4, c5] 0 59 = Some mm"
    and sep: "c0 = CHR ''-'' \<or> c0 = CHR ''+''" "c3 = CHR '':''"
    and off: "off = (if c0 = CHR ''-'' then - int ((hr * 60 + mm) * 60) else int ((hr * 60 + mm) * 60))"
    using assms False z by (auto simp: rfc3339_zone_def bind_eq_Some_conv split: if_splits)
  have g: "getnum [c1, c2] True = Some (hr, [])" "getnum [c4, c5] True = Some (mm, [])"
    using getnum_parseUint [OF hr, of "[]"] getnum_parseUint [OF mm, of "[]"] by simp_all
  have b: "hr \<le> 23" "mm \<le> 59" using parseUint_Some [OF hr] parseUint_Some [OF mm] by simp_all
  have "(hr * 60 + mm) * 60 \<noteq> 1"
  proof
    assume "(hr * 60 + mm) * 60 = 1"
    then have "(hr * 60 + mm) * 60 mod 60 = 1 mod (60 :: nat)" by simp
    then show False by simp
  qed
  then have "off \<noteq> -1" using off by auto
  then show ?thesis using z sep g b off by auto
qed

lemma rfc3339_second_general:
  assumes "rfc3339_frac r = (ns, z)" and "rfc3339_zone z = Some off" and "parseUint [a, b] 0 59 = Some sc"
  shows "\<exists>nv. parse_std StdZeroSecond [StdISO8601ColonTZ] st (a # b # r) = Some (st\<lparr>ps_sec := int sc, ps_nsec := nv\<rparr>, z)
             \<and> (nv = int ns \<or> (nv = ps_nsec st \<and> ns = 0))"
proof -
  have g: "getnum (a # b # r) True = Some (sc, r)" by (rule getnum_parseUint [OF assms(3)])
  have sc: "\<not> 60 \<le> sc" using parseUint_Some [OF assms(3)] by simp
  have nf: "\<not> frac_next [StdISO8601ColonTZ]" by (simp add: frac_next_def)
  show ?thesis
  proof (cases "2 \<le> length r \<and> r ! 0 = CHR ''.'' \<and> is_digit_at r 1")
    case True
    let ?n = "2 + length (takeWhile is_digit (drop 2 r))"
    obtain v where v: "parseNanoseconds r ?n = Some (int v)"
      using parseNanoseconds_digits [of r ?n] True by (auto simp: commaOrPeriod_def)
    have "ns = v" "z = drop ?n r" using assms(1) True v by (simp_all add: rfc3339_frac_def)
    then show ?thesis using True g sc nf v by (intro exI [of _ "int ns"]) (simp add: commaOrPeriod_def)
  next
    case False
    have "rfc3339_frac r = (0, r)" unfolding rfc3339_frac_def using False by (rule if_not_P)
    then have f: "ns = 0" "z = r" using assms(1) by simp_all
    have "\<not> (2 \<le> length r \<and> commaOrPeriod (r ! 0) \<and> is_digit_at r 1)"
    proof
      assume c: "2 \<le> length r \<and> commaOrPeriod (r ! 0) \<and> is_digit_at r 1"
      then have "r ! 0 = CHR '',''" using False by (auto simp: commaOrPeriod_def)
      then show False using assms(2) f c by (auto simp: rfc3339_zone_def bind_eq_Some_conv split: if_splits)
    qed
    then have "parse_std StdZeroSecond [StdISO8601ColonTZ] st (a # b # r) = Some (st\<lparr>ps_sec := int sc\<rparr>, r)"
      using g sc by auto
    then show ?thesis using f by (intro exI [of _ "ps_nsec st"]) simp
  qed
qed

lemma length_19_cases:
  assumes "19 \<le> length s"
  obtains x0 x1 x2 x3 x4 x5 x6 x7 x8 x9 x10 x11 x12 x13 x14 x15 x16 x17 x18 r where "s = x0 # x1 # x2 # x3 # x4 # x5 # x6 # x7 # x8 # x9 # x10 # x11 # x12 # x13 # x14 # x15 # x16 # x17 # x18 # r"
proof -
  have "\<exists>x0 x1 x2 x3 x4 x5 x6 x7 x8 x9 x10 x11 x12 x13 x14 x15 x16 x17 x18 r. s = x0 # x1 # x2 # x3 # x4 # x5 # x6 # x7 # x8 # x9 # x10 # x11 # x12 # x13 # x14 # x15 # x16 # x17 # x18 # r"
    using assms by (auto simp: Suc_le_length_iff numeral_eq_Suc)
  then show thesis using that by blast
qed

lemma parseRFC3339_general:
  assumes "parseRFC3339 s = Some t"
  shows "time_Parse RFC3339_chunks l s = Inr t"
proof -
  have "19 \<le> length s" using assms by (simp add: parseRFC3339_def split: if_splits)
  then obtain x0 x1 x2 x3 x4 x5 x6 x7 x8 x9 x10 x11 x12 x13 x14 x15 x16 x17 x18 r where s: "s = x0 # x1 # x2 # x3 # x4 # x5 # x6 # x7 # x8 # x9 # x10 # x11 # x12 # x13 # x14 # x15 # x16 # x17 # x18 # r" by (rule length_19_cases)
  obtain y mo d h mi sc ns z off where
    py: "parseUint [x0, x1, x2, x3] 0 9999 = Some y" and pmo: "parseUint [x5, x6] 1 12 = Some mo"
    and pd: "parseUint [x8, x9] 1 (daysIn mo (int y)) = Some d" and ph: "parseUint [x11, x12] 0 23 = Some h"
    and pmi: "parseUint [x14, x15] 0 59 = Some mi" and psc: "parseUint [x17, x18] 0 59 = Some sc"
    and sep: "x4 = CHR ''-''" "x7 = CHR ''-''" "x10 = CHR ''T''" "x13 = CHR '':''" "x16 = CHR '':''"
    and fr: "rfc3339_frac r = (ns, z)" and zo: "rfc3339_zone z = Some off"
    and t: "t = go_Date (int y) mo d h mi sc ns off"
    using assms s by (auto simp: parseRFC3339_def bind_eq_Some_conv split: if_splits prod.splits)
  have yd: "list_all is_digit [x0, x1, x2, x3]" "digits_from 0 [x0, x1, x2, x3] = y"
    using parseUint_Some [OF py] by simp_all
  have atoi: "atoi [x0, x1, x2, x3] = Some (int y)"
    using atoi_digits [OF yd(1)] yd(2) by simp
  have g: "getnum (x5 # x6 # rest) f = Some (mo, rest)" "getnum (x8 # x9 # rest) f = Some (d, rest)"
    "getnum (x11 # x12 # rest) f = Some (h, rest)" "getnum (x14 # x15 # rest) f = Some (mi, rest)"
    for rest f
    by (rule getnum_parseUint [OF pmo], rule getnum_parseUint [OF pd], rule getnum_parseUint [OF ph],
        rule getnum_parseUint [OF pmi])
  have b: "1 \<le> mo" "mo \<le> 12" "1 \<le> d" "d \<le> daysIn mo (int y)" "h \<le> 23" "mi \<le> 59"
    using parseUint_Some [OF pmo] parseUint_Some [OF pd] parseUint_Some [OF ph] parseUint_Some [OF pmi]
    by simp_all
  let ?st5 = "parse_init\<lparr>ps_year := int y, ps_month := int mo, ps_day := int d, ps_hour := int h,
                ps_min := int mi\<rparr>"
  have pre: "parse_chunks RFC3339_chunks parse_init s
             = parse_chunks [StdZeroSecond, StdISO8601ColonTZ] ?st5 (x17 # x18 # r)"
    using yd(1) b by (simp add: RFC3339_chunks_def s sep atoi g is_digit_at_def del: parse_std.simps(6))
  obtain nv where sec: "parse_std StdZeroSecond [StdISO8601ColonTZ] ?st5 (x17 # x18 # r)
                        = Some (?st5\<lparr>ps_sec := int sc, ps_nsec := nv\<rparr>, z)" and nv: "nv = int ns"
    using rfc3339_second_general [OF fr zo psc, of ?st5] by (auto simp: parse_init_def)
  let ?st6 = "?st5\<lparr>ps_sec := int sc, ps_nsec := nv\<rparr>"
  have fin1: "parse_finish (?st6\<lparr>ps_utc := True\<rparr>) [] = Some (go_Date (int y) mo d h mi sc ns 0)"
    using b nv by (simp add: parse_finish_def parse_init_def Let_def)
  have fin2: "off \<noteq> -1 \<Longrightarrow> parse_finish (?st6\<lparr>ps_zone := off\<rparr>) [] = Some (go_Date (int y) mo d h mi sc ns off)"
    using b nv by (simp add: parse_finish_def parse_init_def Let_def)
  have tp: "time_Parse RFC3339_chunks l s =
              (case parse_std StdISO8601ColonTZ [] ?st6 z of
                 None \<Rightarrow> Inl (ParseError l s)
               | Some (st, rest) \<Rightarrow>
                   (case parse_finish st rest of None \<Rightarrow> Inl (ParseError l s) | Some t \<Rightarrow> Inr t))"
    by (simp add: time_Parse_def pre sec del: parse_std.simps split: option.split)
  from rfc3339_zone_general [OF zo, of "[]" ?st6] show ?thesis
  proof
    assume "parse_std StdISO8601ColonTZ [] ?st6 z = Some (?st6\<lparr>ps_utc := True\<rparr>, []) \<and> off = 0"
    then show ?thesis using fin1 by (simp add: tp t del: parse_std.simps)
  next
    assume "parse_std StdISO8601ColonTZ [] ?st6 z = Some (?st6\<lparr>ps_zone := off\<rparr>, []) \<and> off \<noteq> -1"
    then show ?thesis using fin2 by (simp add: tp t del: parse_std.simps)
  qed
qed

lemma go_time_Parse_RFC3339:
  "go_time_Parse RFC3339_chunks RFC3339 s = time_Parse RFC3339_chunks RFC3339 s"
  by (simp add: go_time_Parse_def parseRFC3339_general split: option.split)

lemma go_time_Parse_general:
  "layout \<noteq> RFC3339 \<Longrightarrow> layout \<noteq> RFC3339Nano \<Longrightarrow> go_time_Parse cs layout s = time_Parse cs layout s"
  by (simp add: go_time_Parse_def)

end
