(* ===== verification/Time_Codec.thy ===== *)
theory Time_Codec
  imports Time_RFC3339
begin

text \<open>
  The \<open>Time\<close> wrapper of \<open>src/pkg/types/response.go\<close>: the layout constant
  \<open>timeLayout\<close>, \<open>Time.UnmarshalJSON\<close>, \<open>Time.MarshalJSON\<close> and \<open>Time.String\<close>,
  with the two helpers of Go's \<open>strings\<close> package they call (\<open>strings.Trim\<close> and
  \<open>strings.Contains\<close>). \<open>UnmarshalJSON\<close> takes the receiver and the raw JSON bytes and
  returns the new receiver with the returned error; \<open>MarshalJSON\<close> returns the bytes
  with its error, which is always \<open>nil\<close>. \<open>UnmarshalJSON\<close> calls \<open>time.Parse\<close>
  (\<open>go_time_Parse\<close>, with its RFC 3339 fast path); on the two layouts
  \<open>time.Parse\<close> is the general parser (\<open>go_time_Parse_layouts\<close>), and the proofs
  below unfold \<open>UnmarshalJSON\<close> together with that fact (\<open>UnmarshalJSON_unfold\<close>).
\<close>

type_synonym Time = GoTime

definition timeLayout :: string where
  "timeLayout = ''2006-01-02T15:04:05.000000''"

definition go_Trim :: "string \<Rightarrow> string \<Rightarrow> string" where
  "go_Trim s cutset =
     rev (dropWhile (\<lambda>c. c \<in> set cutset) (rev (dropWhile (\<lambda>c. c \<in> set cutset) s)))"

fun go_Contains :: "string \<Rightarrow> string \<Rightarrow> bool" where
  "go_Contains [] substr = (substr = [])"
| "go_Contains (c # cs) substr = (take (length substr) (c # cs) = substr \<or> go_Contains cs substr)"

definition UnmarshalJSON :: "Time \<Rightarrow> go_bytes \<Rightarrow> Time \<times> parse_error option" where
  "UnmarshalJSON t b =
     (let s = go_Trim b [CHR 0x22] in
      if s = ''null'' then (zero_time, None)
      else let r = (if go_Contains s ''Z'' then go_time_Parse RFC3339_chunks RFC3339 s
                    else go_time_Parse timeLayout_chunks timeLayout s)
           in case r of Inl err \<Rightarrow> (zero_time, Some err) | Inr nt \<Rightarrow> (nt, None))"

definition String :: "Time \<Rightarrow> string" where
  "String t = go_Quote (Format t timeLayout_chunks)"

definition MarshalJSON :: "Time \<Rightarrow> go_bytes \<times> parse_error option" where
  "MarshalJSON t = (String t, None)"

text \<open>The invariant every decoded time keeps: a UTC instant whose wall clock is a valid
  reading with a four-digit year.\<close>
definition Time_ok :: "Time \<Rightarrow> bool" where
  "Time_ok t \<longleftrightarrow> valid_clock (wall_clock t) \<and> zone_offset t = 0"

subsection \<open>The library helpers\<close>

lemma go_time_Parse_layouts:
  "go_time_Parse RFC3339_chunks RFC3339 s = time_Parse RFC3339_chunks RFC3339 s"
  "go_time_Parse timeLayout_chunks timeLayout s = time_Parse timeLayout_chunks timeLayout s"
proof -
  have "timeLayout \<noteq> RFC3339" "timeLayout \<noteq> RFC3339Nano"
    by (simp_all add: timeLayout_def RFC3339_def RFC3339Nano_def)
  then show "go_time_Parse RFC3339_chunks RFC3339 s = time_Parse RFC3339_chunks RFC3339 s"
    "go_time_Parse timeLayout_chunks timeLayout s = time_Parse timeLayout_chunks timeLayout s"
    by (simp_all add: go_time_Parse_RFC3339 go_time_Parse_general)
qed

lemmas UnmarshalJSON_unfold = UnmarshalJSON_def go_time_Parse_layouts

lemma timeLayout_chunks_layout: "layout_string timeLayout_chunks = timeLayout"
  by (simp add: layout_string_def timeLayout_chunks_def timeLayout_def eval_nat_numeral)

lemma RFC3339_chunks_layout: "layout_string RFC3339_chunks = RFC3339"
  by (simp add: layout_string_def RFC3339_chunks_def RFC3339_def)

lemma go_Contains_char: "go_Contains s [c] \<longleftrightarrow> c \<in> set s"
  by (induction s) auto

lemma go_Trim_quoted:
  assumes "CHR 0x22 \<notin> set s"
  shows "go_Trim (CHR 0x22 # s @ [CHR 0x22]) [CHR 0x22] = s"
proof (cases s rule: rev_cases)
  case Nil
  then show ?thesis by (simp add: go_Trim_def)
next
  case (snoc xs x)
  have "dropWhile (\<lambda>c. c \<in> set [CHR 0x22]) (s @ [CHR 0x22]) = s @ [CHR 0x22]"
    using assms snoc by (cases xs) auto
  moreover have "dropWhile (\<lambda>c. c \<in> set [CHR 0x22]) (rev (s @ [CHR 0x22])) = rev s"
    using assms snoc by auto
  ultimately show ?thesis by (simp add: go_Trim_def)
qed

lemma UnmarshalJSON_quoted:
  assumes "CHR 0x22 \<notin> set s" and "s \<noteq> ''null''"
  shows "UnmarshalJSON t (CHR 0x22 # s @ [CHR 0x22]) =
           (case if CHR ''Z'' \<in> set s then time_Parse RFC3339_chunks RFC3339 s
                 else time_Parse timeLayout_chunks timeLayout s of
              Inl err \<Rightarrow> (zero_time, Some err) | Inr nt \<Rightarrow> (nt, None))"
  using assms by (simp add: UnmarshalJSON_unfold go_Trim_quoted go_Contains_char)

lemma cl_nsec_wall_clock [simp]: "cl_nsec (wall_clock t) = nsec t"
  by (simp add: wall_clock_def Let_def split: prod.split)

lemma String_plain: "String t = CHR 0x22 # Format t timeLayout_chunks @ [CHR 0x22]"
  using Format_timeLayout_plain by (simp add: String_def go_Quote_plain)

lemma Format_timeLayout_T: "CHR ''T'' \<in> set (Format t timeLayout_chunks)"
  by (simp add: Format_def timeLayout_chunks_def)

lemma decode_Format_timeLayout:
  assumes "valid_clock (wall_clock t)"
  shows "UnmarshalJSON t' (String t) =
           (go_Date (cl_year (wall_clock t)) (cl_month (wall_clock t)) (cl_day (wall_clock t))
              (cl_hour (wall_clock t)) (cl_min (wall_clock t)) (cl_sec (wall_clock t))
              (nsec t div 1000 * 1000) 0, None)"
proof -
  let ?f = "Format t timeLayout_chunks"
  have plain: "CHR 0x22 \<notin> set ?f" "CHR ''Z'' \<notin> set ?f"
    using Format_timeLayout_plain [of t] by (auto simp: plain_char_def)
  have "?f \<noteq> ''null''" using Format_timeLayout_T [of t] by auto
  then show ?thesis
    using plain time_Parse_timeLayout_text [OF assms, of timeLayout "zone_offset t"]
    by (simp add: String_plain UnmarshalJSON_quoted Format_def)
qed

lemma wall_clock_utc_shift:
  "wall_clock \<lparr>sec_abs = sec_abs t + zone_offset t, nsec = n, zone_offset = 0\<rparr>
   = (wall_clock t)\<lparr>cl_nsec := n\<rparr>"
  by (simp add: wall_clock_def Let_def split: prod.split)

lemma String_truncate_utc:
  "nsec t < 10 ^ 9 \<Longrightarrow> String \<lparr>sec_abs = sec_abs t + zone_offset t, nsec = nsec t div 1000 * 1000, zone_offset = 0\<rparr>
   = String t"
  by (simp add: String_def Format_def wall_clock_utc_shift timeLayout_chunks_def appendNano_truncate)

lemma dropWhile_replicate_append: "P c \<Longrightarrow> dropWhile P (replicate i c @ xs) = dropWhile P xs"
  by (induction i) auto

lemma go_Trim_null:
  "go_Trim (replicate i (CHR 0x22) @ ''null'' @ replicate j (CHR 0x22)) [CHR 0x22] = ''null''"
  by (simp add: go_Trim_def dropWhile_replicate_append)

lemma parse_fraction_fail:
  "v = [] \<or> \<not> commaOrPeriod (hd v) \<Longrightarrow> parse_std (StdFracSecond0 k) cs st v = None"
  by (auto simp: parseNanoseconds_def)

lemma appendInt_set_mono:
  "digit_char ` {..<10} \<subseteq> B \<Longrightarrow> CHR ''-'' \<in> B \<Longrightarrow> set (appendInt x w) \<subseteq> B"
  using appendInt_set by blast

lemma RFC3339_offset_text_set:
  "off \<noteq> 0 \<Longrightarrow> set (concat (map (format_chunk c off) RFC3339_chunks)) \<subseteq> set ''-T:+'' \<union> digit_char ` {..<10}"
  by (simp add: RFC3339_chunks_def Let_def appendInt_set_mono subset_insertI2)

lemma RFC3339_Z_text_set:
  "set (concat (map (format_chunk c 0) RFC3339_chunks)) \<subseteq> set ''-T:Z'' \<union> digit_char ` {..<10}"
  by (simp add: RFC3339_chunks_def appendInt_set_mono subset_insertI2)

lemma digit_char_not_quote: "d < 10 \<Longrightarrow> digit_char d \<noteq> CHR 0x22"
  using plain_digit_char by (auto simp: plain_char_def)

lemma char_not_in_text:
  "set s \<subseteq> set L \<union> digit_char ` {..<10} \<Longrightarrow> c \<notin> set L \<Longrightarrow>
   (\<And>d. d < 10 \<Longrightarrow> digit_char d \<noteq> c) \<Longrightarrow> c \<notin> set s"
  by blast

lemma parse_timeLayout_offset_text:
  assumes "valid_clock c" and "off \<noteq> 0"
  shows "parse_chunks timeLayout_chunks st (concat (map (format_chunk c off) RFC3339_chunks)) = None"
  using valid_clock_bounds [OF assms(1)] assms(2)
  by (simp del: parse_std.simps add: timeLayout_chunks_def RFC3339_chunks_def parse_literal parse_year
      parse_month parse_day parse_hour parse_minute parse_second frac_next_timeLayout Let_def
      parse_fraction_fail commaOrPeriod_def)

lemmas wall_clock_eval = wall_clock_def Let_def days_before_year_def month_day_eval daysIn_def
  isLeap_def month_lengths_def

lemmas format_eval = Format_def appendInt_def appendNano_def dec_digits_eval replicate_numeral
  zone_minutes_def

lemma civil_from_days_year:
  "year_of_days n = y \<Longrightarrow> civil_from_days n = (case month_day y (nat (n - days_before_year y)) 1 of (m, d) \<Rightarrow> (y, m, d))"
  by (simp add: civil_from_days_def)

lemma wall_clock_zero_time:
  "wall_clock zero_time =
     \<lparr>cl_year = 1, cl_month = 1, cl_day = 1, cl_hour = 0, cl_min = 0, cl_sec = 0, cl_nsec = 0\<rparr>"
proof -
  have "year_of_days 0 = 1" by (simp add: year_of_days_def days_before_year_def)
  then show ?thesis
    by (simp add: zero_time_def wall_clock_def civil_from_days_def Let_def days_before_year_def
        month_day_eval daysIn_def isLeap_def month_lengths_def)
qed

lemma UnmarshalJSON_valid_utc: "Time_ok (fst (UnmarshalJSON t b))"
proof -
  have z: "valid_clock (wall_clock zero_time)" "zone_offset zero_time = 0"
    unfolding wall_clock_zero_time
    by (simp_all add: valid_clock_def valid_date_def daysIn_def month_lengths_def zero_time_def)
  have p: "valid_clock (wall_clock nt) \<and> zone_offset nt = 0"
    if "time_Parse cs l s = Inr nt" and "zone_offset nt = 0" for cs l s nt
    using time_Parse_valid [OF that] that(2) by simp
  show ?thesis
    using z p time_Parse_RFC3339_utc time_Parse_timeLayout_utc
    by (auto simp: Time_ok_def UnmarshalJSON_unfold Let_def go_Contains_char split: sum.splits)
qed

subsection \<open>Properties of the codec\<close>

text \<open>C1: Decoding what MarshalJSON emits gives back the wall-clock reading of the
  encoded time as a UTC instant, truncated to microseconds, with no error: the encoder
  prints the time in its own zone without the offset, so the instant moves by the zone
  offset, and the six-digit layout drops the last three digits of the nanoseconds.\<close>
theorem UnmarshalJSON_MarshalJSON:
  assumes "0 \<le> cl_year (wall_clock t)" and "cl_year (wall_clock t) \<le> 9999" and "nsec t < 10 ^ 9"
  shows "UnmarshalJSON t' (fst (MarshalJSON t)) =
           (\<lparr>sec_abs = sec_abs t + zone_offset t, nsec = nsec t div 1000 * 1000, zone_offset = 0\<rparr>,
            None)"
  using decode_Format_timeLayout [OF wall_clock_valid [OF assms]]
  by (simp add: MarshalJSON_def go_Date_wall_clock)

text \<open>C2: Re-encoding a decoded canonical value reproduces it exactly: encoding,
  decoding and encoding again gives the bytes of the first encoding.\<close>
theorem MarshalJSON_canonical_fixpoint:
  assumes "0 \<le> cl_year (wall_clock t)" and "cl_year (wall_clock t) \<le> 9999" and "nsec t < 10 ^ 9"
  shows "MarshalJSON (fst (UnmarshalJSON t' (fst (MarshalJSON t)))) = MarshalJSON t"
  using decode_Format_timeLayout [OF wall_clock_valid [OF assms]] String_truncate_utc [OF assms(3)]
  by (simp add: MarshalJSON_def go_Date_wall_clock)

text \<open>C3: A UTC time printed in the RFC 3339 layout with the Z suffix, as the API sends
  it, is routed to the RFC 3339 parser and decodes to the same instant, without error; the
  fractional second is absent from that text and comes back as zero.\<close>
theorem UnmarshalJSON_RFC3339_Z:
  assumes "zone_offset t = 0" and "0 \<le> cl_year (wall_clock t)" and "cl_year (wall_clock t) \<le> 9999"
    and "nsec t < 10 ^ 9"
  shows "UnmarshalJSON t' (CHR 0x22 # Format t RFC3339_chunks @ [CHR 0x22]) =
           (\<lparr>sec_abs = sec_abs t, nsec = 0, zone_offset = 0\<rparr>, None)"
proof -
  have v: "valid_clock (wall_clock t)" using assms(2-4) by (rule wall_clock_valid)
  let ?f = "Format t RFC3339_chunks"
  have "set ?f \<subseteq> set ''-T:Z'' \<union> digit_char ` {..<10}"
    unfolding Format_def assms(1) by (rule RFC3339_Z_text_set)
  then have "CHR 0x22 \<notin> set ?f" by (rule char_not_in_text [OF _ _ digit_char_not_quote]) simp
  moreover have "CHR ''Z'' \<in> set ?f" "CHR ''T'' \<in> set ?f"
    using assms(1) by (simp_all add: Format_def RFC3339_chunks_def)
  moreover have "?f \<noteq> ''null''" using calculation(3) by auto
  ultimately show ?thesis
    using time_Parse_RFC3339_Z_text [OF v, of RFC3339] go_Date_wall_clock [of t 0] assms(1)
    by (simp add: UnmarshalJSON_quoted Format_def)
qed

text \<open>C4: A time with a non-zero zone offset printed in the RFC 3339 layout (for
  example \<open>2024-01-17T00:40:53+01:00\<close>) contains no Z, so it is routed to the fixed
  layout, which fails on the offset: the decode reports an error against that layout and
  the receiver becomes the zero time. The offset branch that the RFC 3339 layout would
  accept is never reached.\<close>
theorem UnmarshalJSON_rejects_offset:
  assumes "zone_offset t \<noteq> 0" and "0 \<le> cl_year (wall_clock t)" and "cl_year (wall_clock t) \<le> 9999"
    and "nsec t < 10 ^ 9"
  shows "UnmarshalJSON t' (CHR 0x22 # Format t RFC3339_chunks @ [CHR 0x22]) =
           (zero_time, Some (ParseError timeLayout (Format t RFC3339_chunks)))"
proof -
  have v: "valid_clock (wall_clock t)" using assms(2-4) by (rule wall_clock_valid)
  let ?f = "Format t RFC3339_chunks"
  have sub: "set ?f \<subseteq> set ''-T:+'' \<union> digit_char ` {..<10}"
    unfolding Format_def using assms(1) by (rule RFC3339_offset_text_set)
  have "CHR 0x22 \<notin> set ?f" by (rule char_not_in_text [OF sub _ digit_char_not_quote]) simp
  moreover have "CHR ''Z'' \<notin> set ?f" by (rule char_not_in_text [OF sub _ digit_char_not_Z]) simp
  moreover have "CHR ''T'' \<in> set ?f" by (simp add: Format_def RFC3339_chunks_def)
  moreover have "?f \<noteq> ''null''" using calculation(3) by auto
  ultimately show ?thesis
    using parse_timeLayout_offset_text [OF v assms(1), of parse_init]
    by (simp add: UnmarshalJSON_quoted Format_def time_Parse_def)
qed

text \<open>C9: The JSON literal null, and the string "null" in any number of surrounding
  quote characters (strings.Trim removes them all), decode to the zero time without
  error.\<close>
theorem UnmarshalJSON_null:
  "UnmarshalJSON t (replicate i (CHR 0x22) @ ''null'' @ replicate j (CHR 0x22)) = (zero_time, None)"
  unfolding UnmarshalJSON_unfold go_Trim_null by simp

text \<open>C8: When decoding fails, the receiver is overwritten with the zero time and the
  error is a parse error carrying the trimmed input and the layout the Z test chose.\<close>
theorem UnmarshalJSON_error:
  assumes "UnmarshalJSON t b = (t', Some e)"
  shows "t' = zero_time \<and>
         e = ParseError (if CHR ''Z'' \<in> set (go_Trim b [CHR 0x22]) then RFC3339 else timeLayout)
               (go_Trim b [CHR 0x22])"
  using assms
  by (auto simp: UnmarshalJSON_unfold time_Parse_def go_Contains_char Let_def
      split: if_splits option.splits sum.splits prod.splits)

text \<open>C5: Every time UnmarshalJSON stores in its receiver is in UTC, whatever the input:
  the null and error cases store the zero time, the fixed layout has no zone element, and
  in the RFC 3339 branch the Z that sent the text there can only have been read by the
  zone element, which then records UTC.\<close>
theorem UnmarshalJSON_utc: "zone_offset (fst (UnmarshalJSON t b)) = 0"
  by (auto simp: UnmarshalJSON_unfold Let_def zero_time_def go_Contains_char split: sum.splits
      dest: time_Parse_RFC3339_utc time_Parse_timeLayout_utc)

text \<open>C6: Every time UnmarshalJSON stores, for any input, is the UTC instant of a valid
  calendar reading: a year in 0..9999, a valid month and day, hour, minute and second in
  range and nanoseconds below \<open>10^9\<close>. The invariant of \<open>time.Time\<close> holds of the
  decoded value, and the hypotheses of the round-trip theorems hold of it.\<close>
theorem UnmarshalJSON_valid:
  "\<exists>c. valid_clock c \<and>
     fst (UnmarshalJSON t b) = go_Date (cl_year c) (cl_month c) (cl_day c) (cl_hour c) (cl_min c) (cl_sec c)
                                 (cl_nsec c) 0"
proof -
  let ?u = "fst (UnmarshalJSON t b)"
  have v: "valid_clock (wall_clock ?u)" and z: "zone_offset ?u = 0"
    using UnmarshalJSON_valid_utc unfolding Time_ok_def by blast+
  have "go_Date (cl_year (wall_clock ?u)) (cl_month (wall_clock ?u)) (cl_day (wall_clock ?u))
          (cl_hour (wall_clock ?u)) (cl_min (wall_clock ?u)) (cl_sec (wall_clock ?u)) (cl_nsec (wall_clock ?u)) 0
        = ?u"
    using z by (simp add: go_Date_wall_clock)
  then show ?thesis using v by metis
qed

text \<open>C7: Decode-then-encode is idempotent on every input: whatever bytes UnmarshalJSON
  is given, encoding its result, decoding that and encoding again reproduces the first
  encoding exactly.\<close>
theorem MarshalJSON_UnmarshalJSON_idempotent:
  "MarshalJSON (fst (UnmarshalJSON t' (fst (MarshalJSON (fst (UnmarshalJSON t b))))))
   = MarshalJSON (fst (UnmarshalJSON t b))"
proof -
  let ?u = "fst (UnmarshalJSON t b)"
  have v: "valid_clock (wall_clock ?u)" using UnmarshalJSON_valid_utc unfolding Time_ok_def by blast
  then have n: "nsec ?u < 10 ^ 9" using valid_clock_bounds(9) [OF v] by simp
  show ?thesis
    using decode_Format_timeLayout [OF v] String_truncate_utc [OF n]
    by (simp add: MarshalJSON_def go_Date_wall_clock)
qed

subsection \<open>The properties at concrete inputs\<close>

lemma wall_clock_2024_01_16:
  "wall_clock \<lparr>sec_abs = 63841045253, nsec = 0, zone_offset = 0\<rparr>
   = \<lparr>cl_year = 2024, cl_month = 1, cl_day = 16, cl_hour = 23, cl_min = 40, cl_sec = 53, cl_nsec = 0\<rparr>"
proof -
  have "year_of_days 738900 = 2024" by (simp add: year_of_days_def days_before_year_def)
  then show ?thesis by (simp add: civil_from_days_year wall_clock_eval)
qed

lemma wall_clock_2024_01_17:
  "wall_clock \<lparr>sec_abs = 63841045253, nsec = 123456789, zone_offset = 3600\<rparr>
   = \<lparr>cl_year = 2024, cl_month = 1, cl_day = 17, cl_hour = 0, cl_min = 40, cl_sec = 53,
      cl_nsec = 123456789\<rparr>"
proof -
  have "year_of_days 738901 = 2024" by (simp add: year_of_days_def days_before_year_def)
  then show ?thesis by (simp add: civil_from_days_year wall_clock_eval)
qed

theorem UnmarshalJSON_MarshalJSON_witness:
  "UnmarshalJSON zero_time (fst (MarshalJSON \<lparr>sec_abs = 63841045253, nsec = 123456789, zone_offset = 3600\<rparr>))
   = (\<lparr>sec_abs = 63841048853, nsec = 123456000, zone_offset = 0\<rparr>, None)"
  using UnmarshalJSON_MarshalJSON [of "\<lparr>sec_abs = 63841045253, nsec = 123456789, zone_offset = 3600\<rparr>" zero_time]
  by (simp add: wall_clock_2024_01_17)

theorem MarshalJSON_canonical_fixpoint_witness:
  "MarshalJSON (fst (UnmarshalJSON zero_time (CHR 0x22 # ''2024-01-17T00:40:53.123456'' @ [CHR 0x22])))
   = (CHR 0x22 # ''2024-01-17T00:40:53.123456'' @ [CHR 0x22], None)"
proof -
  have m: "MarshalJSON \<lparr>sec_abs = 63841045253, nsec = 123456789, zone_offset = 3600\<rparr>
           = (CHR 0x22 # ''2024-01-17T00:40:53.123456'' @ [CHR 0x22], None)"
    by (simp add: MarshalJSON_def String_plain wall_clock_2024_01_17 timeLayout_chunks_def format_eval)
  show ?thesis
    using MarshalJSON_canonical_fixpoint [of "\<lparr>sec_abs = 63841045253, nsec = 123456789, zone_offset = 3600\<rparr>" zero_time]
    unfolding m by (simp add: wall_clock_2024_01_17)
qed

theorem UnmarshalJSON_RFC3339_Z_witness:
  "UnmarshalJSON zero_time (CHR 0x22 # ''2024-01-16T23:40:53Z'' @ [CHR 0x22])
     = (\<lparr>sec_abs = 63841045253, nsec = 0, zone_offset = 0\<rparr>, None)
   \<and> MarshalJSON \<lparr>sec_abs = 63841045253, nsec = 0, zone_offset = 0\<rparr>
     = (CHR 0x22 # ''2024-01-16T23:40:53.000000'' @ [CHR 0x22], None)"
proof
  have f: "Format \<lparr>sec_abs = 63841045253, nsec = 0, zone_offset = 0\<rparr> RFC3339_chunks = ''2024-01-16T23:40:53Z''"
    by (simp add: wall_clock_2024_01_16 RFC3339_chunks_def format_eval)
  show "UnmarshalJSON zero_time (CHR 0x22 # ''2024-01-16T23:40:53Z'' @ [CHR 0x22])
     = (\<lparr>sec_abs = 63841045253, nsec = 0, zone_offset = 0\<rparr>, None)"
    using UnmarshalJSON_RFC3339_Z [of "\<lparr>sec_abs = 63841045253, nsec = 0, zone_offset = 0\<rparr>" zero_time]
    unfolding f by (simp add: wall_clock_2024_01_16)
  show "MarshalJSON \<lparr>sec_abs = 63841045253, nsec = 0, zone_offset = 0\<rparr>
     = (CHR 0x22 # ''2024-01-16T23:40:53.000000'' @ [CHR 0x22], None)"
    by (simp add: MarshalJSON_def String_plain wall_clock_2024_01_16 timeLayout_chunks_def format_eval)
qed

theorem UnmarshalJSON_rejects_offset_witness:
  "UnmarshalJSON zero_time (CHR 0x22 # ''2024-01-17T00:40:53+01:00'' @ [CHR 0x22])
   = (zero_time, Some (ParseError timeLayout ''2024-01-17T00:40:53+01:00''))"
proof -
  have f: "Format \<lparr>sec_abs = 63841045253, nsec = 123456789, zone_offset = 3600\<rparr> RFC3339_chunks
           = ''2024-01-17T00:40:53+01:00''"
    by (simp add: wall_clock_2024_01_17 RFC3339_chunks_def format_eval)
  show ?thesis
    using UnmarshalJSON_rejects_offset [of "\<lparr>sec_abs = 63841045253, nsec = 123456789, zone_offset = 3600\<rparr>" zero_time]
    unfolding f by (simp add: wall_clock_2024_01_17)
qed

theorem UnmarshalJSON_error_witness:
  "UnmarshalJSON zero_time (CHR 0x22 # ''not-a-date'' @ [CHR 0x22])
   = (zero_time, Some (ParseError timeLayout ''not-a-date''))"
proof -
  have "snd (UnmarshalJSON zero_time (CHR 0x22 # ''not-a-date'' @ [CHR 0x22])) \<noteq> None"
    by (subst UnmarshalJSON_quoted)
      (simp_all add: time_Parse_def timeLayout_chunks_def is_digit_at_def is_digit_def)
  then obtain t' e where r: "UnmarshalJSON zero_time (CHR 0x22 # ''not-a-date'' @ [CHR 0x22]) = (t', Some e)"
    by (metis not_None_eq prod.collapse)
  show ?thesis
    using UnmarshalJSON_error [OF r] unfolding r by (simp add: go_Trim_def)
qed

end
