(* ===== verification/Json_Decode.thy ===== *)
theory Json_Decode
  imports Complex_Main Time_Codec
begin

text \<open>
  Go's \<open>encoding/json\<close> decoder, as far as the response types of
  \<open>src/pkg/types/response.go\<close> use it: a JSON value, the decoders of the Go kinds those
  types contain (string, bool, int, float64, pointer, slice, \<open>map[string]any\<close>, struct
  and the \<open>Time\<close> wrapper with its \<open>UnmarshalJSON\<close> hook), and the struct decoder that
  looks up each key of an object among the struct's JSON names, exact match first and
  then case-insensitively (\<open>foldName\<close>). A decoder takes the current value and a JSON
  value and returns either a fatal error, which aborts the whole decode (the error of an
  \<open>UnmarshalJSON\<close> hook), or the new value with the first type mismatch met on the way,
  which Go records (\<open>saveError\<close>) while it goes on decoding.

  A JSON string is written here by its content, taken to be written in the input without
  escape sequences, so that the raw bytes Go hands to \<open>UnmarshalJSON\<close> are the content
  in quotes; a JSON number is kept as its literal text. A float64 field receives the exact
  decimal value of the literal (rounding to binary64 is not modelled; no code computes on
  these fields), an int field Go's \<open>strconv.ParseInt\<close> of the literal. The generic
  lemmas at the end say when an invariant of the decoded value survives a struct,
  pointer or slice decode, that a key whose value is a type mismatch is skipped, and
  that \<open>ParseInt\<close> reads the literal of an integer back exactly when it fits in 64 bits.
\<close>

datatype json =
  JNull | JBool bool | JNumber string | JString string
  | JArray "json list" | JObject "(string \<times> json) list"

datatype json_error = UnmarshalTypeError string string | TimeError parse_error

type_synonym 'a decoded = "json_error + ('a \<times> json_error option)"

type_synonym float64 = real

type_synonym go_int = int

type_synonym any_map = "string \<rightharpoonup> json"

definition comma_join :: "string list \<Rightarrow> string" where
  "comma_join ss = (case ss of [] \<Rightarrow> [] | s # ss' \<Rightarrow> s @ concat (map (Cons (CHR '','')) ss'))"

fun json_raw :: "json \<Rightarrow> string" where
  "json_raw JNull = ''null''"
| "json_raw (JBool b) = (if b then ''true'' else ''false'')"
| "json_raw (JNumber n) = n"
| "json_raw (JString s) = CHR 0x22 # s @ [CHR 0x22]"
| "json_raw (JArray js) = CHR ''['' # comma_join (map json_raw js) @ '']''"
| "json_raw (JObject kvs) =
     CHR ''{'' # comma_join
       (map (\<lambda>kv. CHR 0x22 # fst kv @ CHR 0x22 # CHR '':'' # json_raw (snd kv)) kvs) @ ''}''"

fun json_kind :: "json \<Rightarrow> string" where
  "json_kind JNull = ''null''"
| "json_kind (JBool _) = ''bool''"
| "json_kind (JNumber _) = ''number''"
| "json_kind (JString _) = ''string''"
| "json_kind (JArray _) = ''array''"
| "json_kind (JObject _) = ''object''"

definition save_error :: "json_error option \<Rightarrow> json_error option \<Rightarrow> json_error option" where
  "save_error e1 e2 = (case e1 of None \<Rightarrow> e2 | Some _ \<Rightarrow> e1)"

definition map_decoded :: "('a \<Rightarrow> 'b) \<Rightarrow> 'a decoded \<Rightarrow> 'b decoded" where
  "map_decoded f r = (case r of Inl e \<Rightarrow> Inl e | Inr (v, e) \<Rightarrow> Inr (f v, e))"

definition go_ParseInt :: "string \<Rightarrow> int option" where
  "go_ParseInt s =
     (let neg = (s \<noteq> [] \<and> hd s = CHR ''-'');
          ds = (if s \<noteq> [] \<and> (hd s = CHR ''+'' \<or> hd s = CHR ''-'') then tl s else s)
      in if ds = [] \<or> \<not> list_all is_digit ds then None
         else let n = digits_from 0 ds
              in if neg then (if n \<le> 2 ^ 63 then Some (- int n) else None)
                 else (if n < 2 ^ 63 then Some (int n) else None))"

text \<open>The JSON literal of an integer as \<open>strconv\<close> prints it: an optional minus sign
  and the decimal digits, without leading zeros.\<close>
definition int_literal :: "int \<Rightarrow> string" where
  "int_literal i = (if i < 0 then CHR ''-'' # dec_digits (nat (- i)) else dec_digits (nat i))"

definition json_number_value :: "string \<Rightarrow> real option" where
  "json_number_value s =
     (let neg = (s \<noteq> [] \<and> hd s = CHR ''-'');
          s1 = (if neg then tl s else s);
          ip = takeWhile is_digit s1; r1 = dropWhile is_digit s1;
          frac = (r1 \<noteq> [] \<and> hd r1 = CHR ''.'');
          fp = (if frac then takeWhile is_digit (tl r1) else []);
          r2 = (if frac then dropWhile is_digit (tl r1) else r1);
          ex = (r2 \<noteq> [] \<and> (hd r2 = CHR ''e'' \<or> hd r2 = CHR ''E''));
          r3 = (if ex then tl r2 else []);
          eneg = (r3 \<noteq> [] \<and> hd r3 = CHR ''-'');
          ed = (if r3 \<noteq> [] \<and> (hd r3 = CHR ''+'' \<or> hd r3 = CHR ''-'') then tl r3 else r3);
          e = (if eneg then - int (digits_from 0 ed) else int (digits_from 0 ed)) - int (length fp);
          m = (if neg then - 1 else 1) * real (digits_from 0 (ip @ fp))
      in if ip = [] \<or> (frac \<and> fp = []) \<or> (ex \<and> (ed = [] \<or> \<not> list_all is_digit ed))
            \<or> (\<not> ex \<and> r2 \<noteq> []) then None
         else Some (if 0 \<le> e then m * 10 ^ nat e else m / 10 ^ nat (- e)))"

definition dec_string :: "string \<Rightarrow> json \<Rightarrow> string decoded" where
  "dec_string cur j =
     (case j of JString s \<Rightarrow> Inr (s, None) | JNull \<Rightarrow> Inr (cur, None)
      | _ \<Rightarrow> Inr (cur, Some (UnmarshalTypeError (json_kind j) ''string'')))"

definition dec_bool :: "bool \<Rightarrow> json \<Rightarrow> bool decoded" where
  "dec_bool cur j =
     (case j of JBool b \<Rightarrow> Inr (b, None) | JNull \<Rightarrow> Inr (cur, None)
      | _ \<Rightarrow> Inr (cur, Some (UnmarshalTypeError (json_kind j) ''bool'')))"

definition dec_int :: "go_int \<Rightarrow> json \<Rightarrow> go_int decoded" where
  "dec_int cur j =
     (case j of
        JNumber n \<Rightarrow> (case go_ParseInt n of
                       Some i \<Rightarrow> Inr (i, None)
                     | None \<Rightarrow> Inr (cur, Some (UnmarshalTypeError (''number '' @ n) ''int'')))
      | JNull \<Rightarrow> Inr (cur, None)
      | _ \<Rightarrow> Inr (cur, Some (UnmarshalTypeError (json_kind j) ''int'')))"

definition dec_float64 :: "float64 \<Rightarrow> json \<Rightarrow> float64 decoded" where
  "dec_float64 cur j =
     (case j of
        JNumber n \<Rightarrow> (case json_number_value n of
                       Some r \<Rightarrow> Inr (r, None)
                     | None \<Rightarrow> Inr (cur, Some (UnmarshalTypeError (''number '' @ n) ''float64'')))
      | JNull \<Rightarrow> Inr (cur, None)
      | _ \<Rightarrow> Inr (cur, Some (UnmarshalTypeError (json_kind j) ''float64'')))"

definition dec_ptr :: "'a \<Rightarrow> ('a \<Rightarrow> json \<Rightarrow> 'a decoded) \<Rightarrow> 'a option \<Rightarrow> json \<Rightarrow> 'a option decoded" where
  "dec_ptr z dec cur j =
     (case j of JNull \<Rightarrow> Inr (None, None)
      | _ \<Rightarrow> map_decoded Some (dec (case cur of None \<Rightarrow> z | Some v \<Rightarrow> v) j))"

definition dec_Time :: "Time \<Rightarrow> json \<Rightarrow> Time decoded" where
  "dec_Time cur j =
     (case UnmarshalJSON cur (json_raw j) of
        (t, None) \<Rightarrow> Inr (t, None)
      | (_, Some e) \<Rightarrow> Inl (TimeError e))"

fun dec_elems :: "'a \<Rightarrow> ('a \<Rightarrow> json \<Rightarrow> 'a decoded) \<Rightarrow> 'a list \<Rightarrow> json list \<Rightarrow> 'a list decoded" where
  "dec_elems z dec cur [] = Inr ([], None)"
| "dec_elems z dec cur (j # js) =
     (case dec (case cur of [] \<Rightarrow> z | c # _ \<Rightarrow> c) j of
        Inl e \<Rightarrow> Inl e
      | Inr (v, e1) \<Rightarrow> (case dec_elems z dec (tl cur) js of
                         Inl e \<Rightarrow> Inl e
                       | Inr (vs, e2) \<Rightarrow> Inr (v # vs, save_error e1 e2)))"

definition dec_slice :: "'a \<Rightarrow> ('a \<Rightarrow> json \<Rightarrow> 'a decoded) \<Rightarrow> 'a list \<Rightarrow> json \<Rightarrow> 'a list decoded" where
  "dec_slice z dec cur j =
     (case j of JArray js \<Rightarrow> dec_elems z dec cur js | JNull \<Rightarrow> Inr ([], None)
      | _ \<Rightarrow> Inr (cur, Some (UnmarshalTypeError (json_kind j) ''slice'')))"

definition dec_any_map :: "any_map \<Rightarrow> json \<Rightarrow> any_map decoded" where
  "dec_any_map cur j =
     (case j of JObject kvs \<Rightarrow> Inr (foldl (\<lambda>m kv. m(fst kv \<mapsto> snd kv)) cur kvs, None)
      | JNull \<Rightarrow> Inr (Map.empty, None)
      | _ \<Rightarrow> Inr (cur, Some (UnmarshalTypeError (json_kind j) ''map[string]interface {}'')))"

definition fold_char :: "char \<Rightarrow> char" where
  "fold_char c = (let b = (of_char c :: nat) in if 97 \<le> b \<and> b \<le> 122 then char_of (b - 32) else c)"

definition fold_name :: "string \<Rightarrow> string" where
  "fold_name s = map fold_char s"

definition field_lookup :: "(string \<times> 'f) list \<Rightarrow> string \<Rightarrow> (string \<times> 'f) option" where
  "field_lookup F k =
     (case find (\<lambda>nf. fst nf = k) F of
        Some nf \<Rightarrow> Some nf
      | None \<Rightarrow> find (\<lambda>nf. fold_name (fst nf) = fold_name k) F)"

fun decode_fields :: "(string \<times> ('r \<Rightarrow> json \<Rightarrow> 'r decoded)) list \<Rightarrow> (string \<times> json) list \<Rightarrow> 'r \<Rightarrow> 'r decoded" where
  "decode_fields F [] r = Inr (r, None)"
| "decode_fields F (kv # kvs) r =
     (case field_lookup F (fst kv) of
        None \<Rightarrow> decode_fields F kvs r
      | Some (_, f) \<Rightarrow>
          (case f r (snd kv) of
             Inl e \<Rightarrow> Inl e
           | Inr (r', e1) \<Rightarrow> (case decode_fields F kvs r' of
                               Inl e \<Rightarrow> Inl e
                             | Inr (r'', e2) \<Rightarrow> Inr (r'', save_error e1 e2))))"

definition dec_struct :: "string \<Rightarrow> (string \<times> ('r \<Rightarrow> json \<Rightarrow> 'r decoded)) list \<Rightarrow> 'r \<Rightarrow> json \<Rightarrow> 'r decoded" where
  "dec_struct ty F cur j =
     (case j of JObject kvs \<Rightarrow> decode_fields F kvs cur | JNull \<Rightarrow> Inr (cur, None)
      | _ \<Rightarrow> Inr (cur, Some (UnmarshalTypeError (json_kind j) ty)))"

definition fld :: "('r \<Rightarrow> 'v) \<Rightarrow> (('v \<Rightarrow> 'v) \<Rightarrow> 'r \<Rightarrow> 'r) \<Rightarrow> ('v \<Rightarrow> json \<Rightarrow> 'v decoded) \<Rightarrow> 'r \<Rightarrow> json \<Rightarrow> 'r decoded" where
  "fld get upd dec r j = map_decoded (\<lambda>v. upd (\<lambda>_. v) r) (dec (get r) j)"

definition json_Unmarshal :: "('a \<Rightarrow> json \<Rightarrow> 'a decoded) \<Rightarrow> 'a \<Rightarrow> json \<Rightarrow> json_error + 'a" where
  "json_Unmarshal dec v j =
     (case dec v j of Inl e \<Rightarrow> Inl e | Inr (v', None) \<Rightarrow> Inr v' | Inr (_, Some e) \<Rightarrow> Inl e)"

fun is_time_error :: "json_error \<Rightarrow> bool" where
  "is_time_error (TimeError _) = True"
| "is_time_error (UnmarshalTypeError _ _) = False"

subsection \<open>Key lookup\<close>

lemma field_lookup_in: "field_lookup F k = Some nf \<Longrightarrow> nf \<in> set F"
  by (auto simp: field_lookup_def split: option.splits dest: find_Some_mem)

lemma fold_char_idem: "fold_char (fold_char c) = fold_char c"
proof (cases "97 \<le> (of_char c :: nat) \<and> (of_char c :: nat) \<le> 122")
  case True
  then have "of_char c - 32 < (256 :: nat)" by linarith
  then have "of_char (char_of (of_char c - 32 :: nat) :: char) = (of_char c - 32 :: nat)"
    by (simp add: of_char_of)
  moreover have "\<not> 97 \<le> (of_char c :: nat) - 32" using True by linarith
  ultimately show ?thesis using True by (simp add: fold_char_def Let_def)
next
  case False
  then have "fold_char c = c" unfolding fold_char_def Let_def by (rule if_not_P)
  then show ?thesis by simp
qed

lemma fold_name_idem [simp]: "fold_name (fold_name s) = fold_name s"
  by (simp add: fold_name_def fold_char_idem comp_def)

lemma field_lookup_fold:
  "field_lookup F k = Some (n, f) \<Longrightarrow> fold_name n = fold_name k"
  by (auto simp: field_lookup_def split: option.splits dest!: find_Some_mem)

lemma find_distinct_key:
  assumes "distinct (map (\<lambda>nf. fold_name (fst nf)) F)" and "nf \<in> set F" and "fold_name (fst nf) = fold_name k"
  shows "find (\<lambda>nf. fold_name (fst nf) = fold_name k) F = Some nf"
  using assms by (induction F) (auto simp: rev_image_eqI)

text \<open>When no two names of a struct fold to the same string, Go's lookup (exact name
  first, then case-insensitive) is the case-insensitive lookup, so a key and its folded
  form select the same field.\<close>

lemma field_lookup_fold_name:
  assumes "distinct (map (\<lambda>nf. fold_name (fst nf)) F)"
  shows "field_lookup F (fold_name k) = field_lookup F k"
proof (cases "find (\<lambda>nf. fold_name (fst nf) = fold_name k) F")
  case None
  then have "\<forall>nf \<in> set F. fold_name (fst nf) \<noteq> fold_name k" by (fastforce simp: find_None_iff)
  then have "\<forall>nf \<in> set F. fst nf \<noteq> fold_name k \<and> fst nf \<noteq> k" by auto
  then have "find (\<lambda>nf. fst nf = fold_name k) F = None" "find (\<lambda>nf. fst nf = k) F = None"
    by (auto simp: find_None_iff)
  then show ?thesis using None by (simp add: field_lookup_def)
next
  case (Some nf)
  note found = this
  have key: "field_lookup F k' = Some nf" if "fold_name k' = fold_name k" for k'
  proof (cases "find (\<lambda>nf. fst nf = k') F")
    case None
    then show ?thesis using found that by (simp add: field_lookup_def)
  next
    case (Some nf')
    then have "nf' \<in> set F" "fold_name (fst nf') = fold_name k" using that by (auto dest: find_Some_mem)
    then have "find (\<lambda>nf. fold_name (fst nf) = fold_name k) F = Some nf'"
      by (rule find_distinct_key [OF assms])
    then have "nf' = nf" using found by simp
    then show ?thesis using Some by (simp add: field_lookup_def)
  qed
  show ?thesis using key [of k] key [of "fold_name k"] by simp
qed

subsection \<open>Fatal errors\<close>

lemma decode_fields_fatal:
  assumes "decode_fields F kvs r = Inl e"
    and "\<And>n f r v e. (n, f) \<in> set F \<Longrightarrow> f r v = Inl e \<Longrightarrow> is_time_error e"
  shows "is_time_error e"
  using assms(1)
proof (induction kvs arbitrary: r)
  case Nil
  then show ?case by simp
next
  case (Cons kv kvs)
  show ?case
  proof (cases "field_lookup F (fst kv)")
    case None
    with Cons show ?thesis by simp
  next
    case (Some nf)
    obtain n f where nf: "nf = (n, f)" by (cases nf)
    have mem: "(n, f) \<in> set F" using Some nf by (simp add: field_lookup_in)
    from Cons.prems Some nf show ?thesis
      using assms(2) [OF mem] Cons.IH by (auto split: sum.splits prod.splits)
  qed
qed

lemma dec_struct_fatal:
  "dec_struct ty F c j = Inl e \<Longrightarrow>
   (\<And>n f r v e. (n, f) \<in> set F \<Longrightarrow> f r v = Inl e \<Longrightarrow> is_time_error e) \<Longrightarrow> is_time_error e"
  by (auto simp: dec_struct_def split: json.splits intro: decode_fields_fatal)

lemma fld_Inl: "fld get upd dec r v = Inl e \<Longrightarrow> dec (get r) v = Inl e"
  by (auto simp: fld_def map_decoded_def split: sum.splits)

lemma fld_Inr: "fld get upd dec r v = Inr (r', e) \<Longrightarrow> \<exists>x. r' = upd (\<lambda>_. x) r"
  by (auto simp: fld_def map_decoded_def split: sum.splits)

lemma dec_ptr_Inl: "dec_ptr z dec c j = Inl e \<Longrightarrow> \<exists>c'. dec c' j = Inl e"
  by (auto simp: dec_ptr_def map_decoded_def split: json.splits sum.splits)

lemma dec_elems_Inl: "dec_elems z dec c js = Inl e \<Longrightarrow> \<exists>c' j. dec c' j = Inl e"
  by (induction z dec c js rule: dec_elems.induct) (auto split: sum.splits prod.splits)

lemma dec_slice_Inl: "dec_slice z dec c j = Inl e \<Longrightarrow> \<exists>c' j. dec c' j = Inl e"
  by (auto simp: dec_slice_def split: json.splits dest: dec_elems_Inl)

lemma dec_Time_Inl [decoder_fatal]: "dec_Time c j = Inl e \<Longrightarrow> is_time_error e"
  by (auto simp: dec_Time_def split: prod.splits option.splits)

lemma dec_primitive_not_Inl:
  "dec_string c j \<noteq> Inl e" "dec_bool b j \<noteq> Inl e" "dec_int i j \<noteq> Inl e"
  "dec_float64 x j \<noteq> Inl e" "dec_any_map m j \<noteq> Inl e"
  by (auto simp: dec_string_def dec_bool_def dec_int_def dec_float64_def dec_any_map_def
      split: json.splits option.splits)

lemmas decoder_fatal_dests = fld_Inl dec_ptr_Inl dec_slice_Inl dec_Time_Inl

lemma isl_map_decoded [simp]: "isl (map_decoded f r) = isl r"
  by (simp add: map_decoded_def split: sum.splits prod.splits)

lemma decode_fields_abort:
  assumes "(k, v) \<in> set kvs" and "field_lookup F k = Some (n, f)" and "\<And>r. isl (f r v)"
  shows "isl (decode_fields F kvs r)"
  using assms(1)
proof (induction kvs arbitrary: r)
  case Nil
  then show ?case by simp
next
  case (Cons kv kvs)
  show ?case
  proof (cases "kv = (k, v)")
    case True
    then show ?thesis using assms(2) assms(3) [of r] by (auto split: sum.splits)
  next
    case False
    then have isl: "isl (decode_fields F kvs r')" for r' using Cons by simp
    then have IH: "decode_fields F kvs r' \<noteq> Inr x" for r' x by (metis sum.disc(2))
    show ?thesis
      using IH isl by (auto split: option.splits sum.splits prod.splits)
  qed
qed

text \<open>Go sets a pointer field to nil on a JSON null and leaves it alone when its key is
  absent; while the field is nil, and no other key of the object selects the same field,
  the two inputs decode alike.\<close>

lemma decode_fields_null_absent:
  assumes keep: "\<And>n f r v r' e. (n, f) \<in> set F \<Longrightarrow> n \<noteq> tag \<Longrightarrow> f r v = Inr (r', e) \<Longrightarrow> get r' = get r"
    and lk: "field_lookup F k = Some (tag, fk)"
    and nul: "\<And>r. get r = None \<Longrightarrow> fk r JNull = Inr (r, None)"
    and others: "\<forall>kv \<in> set (kvs1 @ kvs2). map_option fst (field_lookup F (fst kv)) \<noteq> Some tag"
    and none: "get r = None"
  shows "decode_fields F (kvs1 @ (k, JNull) # kvs2) r = decode_fields F (kvs1 @ kvs2) r"
  using others none
proof (induction kvs1 arbitrary: r)
  case Nil
  then show ?case using lk nul [OF Nil.prems(2)] by (simp add: save_error_def split: sum.splits prod.splits)
next
  case (Cons kv kvs1)
  show ?case
  proof (cases "field_lookup F (fst kv)")
    case None
    with Cons show ?thesis by simp
  next
    case (Some nf)
    obtain n f where nf: "nf = (n, f)" by (cases nf)
    have mem: "(n, f) \<in> set F" using Some nf by (simp add: field_lookup_in)
    have ntag: "n \<noteq> tag" using Cons.prems(1) Some nf by auto
    show ?thesis
    proof (cases "f r (snd kv)")
      case (Inl e)
      with Some nf show ?thesis by simp
    next
      case (Inr p)
      obtain r' e1 where p: "p = (r', e1)" by (cases p)
      have "get r' = get r" using keep [OF mem ntag] Inr p by simp
      then have "decode_fields F (kvs1 @ (k, JNull) # kvs2) r' = decode_fields F (kvs1 @ kvs2) r'"
        using Cons by simp
      then show ?thesis using Some nf Inr p by simp
    qed
  qed
qed

lemma UnmarshalJSON_receiver: "UnmarshalJSON t b = UnmarshalJSON t' b"
  by (simp add: UnmarshalJSON_unfold)

lemma dec_Time_bad:
  assumes "snd (UnmarshalJSON zero_time (json_raw v)) \<noteq> None"
  shows "isl (dec_Time c v)"
  using assms UnmarshalJSON_receiver [of c "json_raw v" zero_time]
  by (auto simp: dec_Time_def split: prod.splits option.splits)

lemma isl_fld [simp]: "isl (fld get upd dec r v) = isl (dec (get r) v)"
  by (simp add: fld_def)

lemma isl_dec_ptr: "v \<noteq> JNull \<Longrightarrow> isl (dec_ptr z dec c v) = isl (dec (case c of None \<Rightarrow> z | Some x \<Rightarrow> x) v)"
  by (cases v) (simp_all add: dec_ptr_def)

lemma decode_fields_fold_keys:
  assumes "distinct (map (\<lambda>nf. fold_name (fst nf)) F)"
  shows "decode_fields F (map (\<lambda>kv. (fold_name (fst kv), snd kv)) kvs) r = decode_fields F kvs r"
proof (induction kvs arbitrary: r)
  case Nil
  then show ?case by simp
next
  case (Cons kv kvs)
  have IH: "decode_fields F (map (\<lambda>kv. (fold_name (fst kv), snd kv)) kvs) r' = decode_fields F kvs r'"
    for r' by (rule Cons.IH)
  show ?case
    by (simp only: list.map decode_fields.simps fst_conv snd_conv field_lookup_fold_name [OF assms] IH)
qed

lemma decode_fields_ptr_null_absent:
  assumes keep: "\<And>n f r v r' e. (n, f) \<in> set F \<Longrightarrow> n \<noteq> tag \<Longrightarrow> f r v = Inr (r', e) \<Longrightarrow> get r' = get r"
    and lk: "field_lookup F tag = Some (tag, fld get upd (dec_ptr z dec))"
    and upd: "\<And>r. upd (\<lambda>_. get r) r = r"
    and others: "\<forall>kv \<in> set (kvs1 @ kvs2). fold_name (fst kv) \<noteq> fold_name tag"
    and none: "get r = None"
  shows "decode_fields F (kvs1 @ (tag, JNull) # kvs2) r = decode_fields F (kvs1 @ kvs2) r"
proof -
  have nul: "fld get upd (dec_ptr z dec) r' JNull = Inr (r', None)" if "get r' = None" for r'
    using that upd [of r'] by (simp add: fld_def dec_ptr_def map_decoded_def)
  have oth: "\<forall>kv \<in> set (kvs1 @ kvs2). map_option fst (field_lookup F (fst kv)) \<noteq> Some tag"
  proof
    fix kv assume kv: "kv \<in> set (kvs1 @ kvs2)"
    show "map_option fst (field_lookup F (fst kv)) \<noteq> Some tag"
    proof
      assume "map_option fst (field_lookup F (fst kv)) = Some tag"
      then obtain f where "field_lookup F (fst kv) = Some (tag, f)" by auto
      then have "fold_name tag = fold_name (fst kv)" by (rule field_lookup_fold)
      with others kv show False by auto
    qed
  qed
  show ?thesis
    by (rule decode_fields_null_absent [where F = F and tag = tag and get = get and k = tag
          and fk = "fld get upd (dec_ptr z dec)", OF keep lk nul oth none])
qed

lemma dec_ptr_nonnull:
  "j \<noteq> JNull \<Longrightarrow> dec_ptr z dec c j = map_decoded Some (dec (case c of None \<Rightarrow> z | Some v \<Rightarrow> v) j)"
  by (cases j) (simp_all add: dec_ptr_def)

lemma go_ParseInt_range: "go_ParseInt s = Some i \<Longrightarrow> - (2 ^ 63) \<le> i \<and> i < 2 ^ 63"
  by (auto simp: go_ParseInt_def Let_def split: if_splits)

subsection \<open>Invariants the decoders keep\<close>

text \<open>A property of the decoded value survives a struct decode when every field decoder
  keeps it: the fields the object does not name keep their old values.\<close>

lemma decode_fields_pres:
  assumes "decode_fields F kvs r = Inr (r', e)" and "P r"
    and "\<And>n f r v r' e. (n, f) \<in> set F \<Longrightarrow> P r \<Longrightarrow> f r v = Inr (r', e) \<Longrightarrow> P r'"
  shows "P r'"
  using assms(1,2)
proof (induction kvs arbitrary: r e)
  case Nil
  then show ?case by simp
next
  case (Cons kv kvs)
  show ?case
  proof (cases "field_lookup F (fst kv)")
    case None
    with Cons show ?thesis by simp
  next
    case (Some nf)
    obtain n f where nf: "nf = (n, f)" by (cases nf)
    have mem: "(n, f) \<in> set F" using Some nf by (simp add: field_lookup_in)
    from Cons.prems Some nf show ?thesis
      using assms(3) [OF mem] Cons.IH by (auto split: sum.splits prod.splits)
  qed
qed

lemma dec_struct_pres:
  "dec_struct ty F c j = Inr (c', e) \<Longrightarrow> P c \<Longrightarrow>
   (\<And>n f r v r' e. (n, f) \<in> set F \<Longrightarrow> P r \<Longrightarrow> f r v = Inr (r', e) \<Longrightarrow> P r') \<Longrightarrow> P c'"
  by (auto simp: dec_struct_def split: json.splits intro: decode_fields_pres)

lemma fld_Inr_iff:
  "fld get upd dec r v = Inr (r', e) \<longleftrightarrow> (\<exists>x. dec (get r) v = Inr (x, e) \<and> r' = upd (\<lambda>_. x) r)"
  by (auto simp: fld_def map_decoded_def split: sum.splits)

lemma dec_ptr_pres:
  "dec_ptr z dec c j = Inr (c', e) \<Longrightarrow> pred_option P c \<Longrightarrow> P z \<Longrightarrow>
   (\<And>c c' e. P c \<Longrightarrow> dec c j = Inr (c', e) \<Longrightarrow> P c') \<Longrightarrow> pred_option P c'"
  by (fastforce simp: dec_ptr_def map_decoded_def split: json.splits sum.splits option.splits)

lemma dec_elems_pres:
  "dec_elems z dec c js = Inr (c', e) \<Longrightarrow> list_all P c \<Longrightarrow> P z \<Longrightarrow>
   (\<And>c j c' e. P c \<Longrightarrow> dec c j = Inr (c', e) \<Longrightarrow> P c') \<Longrightarrow> list_all P c'"
proof (induction z dec c js arbitrary: c' e rule: dec_elems.induct)
  case (1 z dec cur)
  then show ?case by simp
next
  case (2 z dec cur j js)
  have hd: "P (case cur of [] \<Rightarrow> z | c # _ \<Rightarrow> c)" and tl: "list_all P (tl cur)"
    using "2.prems"(2,3) by (cases cur; simp)+
  obtain v e1 where d: "dec (case cur of [] \<Rightarrow> z | c # _ \<Rightarrow> c) j = Inr (v, e1)"
    using "2.prems"(1) by (auto split: sum.splits)
  obtain vs e2 where ds: "dec_elems z dec (tl cur) js = Inr (vs, e2)" and c': "c' = v # vs"
    using "2.prems"(1) d by (auto split: sum.splits)
  have "list_all P vs" using "2.IH" [OF d refl ds tl "2.prems"(3,4)] .
  then show ?case using c' "2.prems"(4) [OF hd d] by simp
qed

lemma dec_slice_pres:
  "dec_slice z dec c j = Inr (c', e) \<Longrightarrow> list_all P c \<Longrightarrow> P z \<Longrightarrow>
   (\<And>c j c' e. P c \<Longrightarrow> dec c j = Inr (c', e) \<Longrightarrow> P c') \<Longrightarrow> list_all P c'"
  by (auto simp: dec_slice_def split: json.splits elim: dec_elems_pres)

text \<open>Every time \<open>dec_Time\<close> stores is valid UTC, whatever the receiver held, so a
  \<open>*Time\<close> field of any record keeps \<open>Time_ok\<close>.\<close>

lemma dec_Time_ok: "dec_Time c j = Inr (t, e) \<Longrightarrow> Time_ok t"
  using UnmarshalJSON_valid_utc [of c "json_raw j"]
  by (auto simp: dec_Time_def split: prod.splits option.splits)

lemma dec_ptr_Time_ok:
  "dec_ptr zero_time dec_Time c j = Inr (c', e) \<Longrightarrow> pred_option Time_ok c'"
  by (auto simp: dec_ptr_def map_decoded_def dest: dec_Time_ok split: json.splits sum.splits)

subsection \<open>A type mismatch is skipped\<close>

text \<open>A key whose value the field decoder rejects as a type mismatch, leaving the value
  as it was, is skipped: the object decodes to what it decodes to without that key, and
  a successful decode reports an error.\<close>

lemma decode_fields_skip:
  assumes lk: "field_lookup F k = Some (n, f)" and mis: "\<And>r. f r v = Inr (r, Some e)"
  shows "map_sum id fst (decode_fields F (kvs1 @ (k, v) # kvs2) r) = map_sum id fst (decode_fields F (kvs1 @ kvs2) r)
         \<and> (\<forall>r' eo. decode_fields F (kvs1 @ (k, v) # kvs2) r = Inr (r', eo) \<longrightarrow> eo \<noteq> None)"
proof (induction kvs1 arbitrary: r)
  case Nil
  show ?case
    using lk mis [of r] by (simp add: save_error_def split: sum.splits prod.splits)
next
  case (Cons kv kvs1)
  show ?case
  proof (cases "field_lookup F (fst kv)")
    case None
    then show ?thesis using Cons.IH [of r] by simp
  next
    case (Some nf)
    obtain n' f' where nf: "nf = (n', f')" by (cases nf)
    show ?thesis
    proof (cases "f' r (snd kv)")
      case (Inl e')
      then show ?thesis using Some nf by simp
    next
      case (Inr p)
      obtain r1 e1 where p: "p = (r1, e1)" by (cases p)
      have IH: "map_sum id fst (decode_fields F (kvs1 @ (k, v) # kvs2) r1) = map_sum id fst (decode_fields F (kvs1 @ kvs2) r1)"
        "\<And>r' eo. decode_fields F (kvs1 @ (k, v) # kvs2) r1 = Inr (r', eo) \<Longrightarrow> eo \<noteq> None"
        using Cons.IH [of r1] by blast+
      show ?thesis
        using Some nf Inr p IH
        by (auto simp: save_error_def split: sum.splits prod.splits option.splits)
    qed
  qed
qed

subsection \<open>Integer literals\<close>

lemma is_digit_hd_dec_digits: "is_digit (hd (dec_digits u))"
  using dec_digits_all_digits [of u] dec_digits_nonempty [of u] by (cases "dec_digits u") simp_all

text \<open>\<open>strconv.ParseInt(s, 10, 64)\<close> reads the literal of an integer back exactly when the
  integer fits in 64 bits.\<close>

lemma go_ParseInt_int_literal:
  "go_ParseInt (int_literal i) = (if - (2 ^ 63) \<le> i \<and> i < 2 ^ 63 then Some i else None)"
proof (cases "i < 0")
  case True
  have "nat (- i) \<le> 2 ^ 63 \<longleftrightarrow> - i \<le> 2 ^ 63" by (simp add: nat_le_iff)
  then have "nat (- i) \<le> 2 ^ 63 \<longleftrightarrow> - (2 ^ 63) \<le> i" by linarith
  then show ?thesis
    using True dec_digits_nonempty [of "nat (- i)"] dec_digits_all_digits [of "nat (- i)"]
    by (simp add: go_ParseInt_def int_literal_def digits_from_dec_digits)
next
  case False
  have h: "hd (dec_digits (nat i)) \<noteq> CHR ''-''" "hd (dec_digits (nat i)) \<noteq> CHR ''+''"
    using is_digit_hd_dec_digits [of "nat i"] by (auto simp: is_digit_def)
  have "nat i < 2 ^ 63 \<longleftrightarrow> i < 2 ^ 63" using False by (simp add: nat_less_iff)
  then show ?thesis
    using False h dec_digits_nonempty [of "nat i"] dec_digits_all_digits [of "nat i"]
    by (simp add: go_ParseInt_def int_literal_def digits_from_dec_digits)
qed

end
