(* ===== verification/Response_Schema.thy ===== *)
theory Response_Schema
  imports Json_Decode
begin

text \<open>
  The report types of \<open>src/pkg/types/response.go\<close>: each struct as a record with the
  source's field names (float64 as \<open>real\<close>, int as \<open>int\<close>, a pointer as an option, a
  slice as a list, \<open>map[string]any\<close> as a map to JSON values), its Go zero value, the
  string constants, and for each struct the table of its JSON names (the \<open>json\<close> tags,
  or the field name where there is no tag) with the decoder of each field, from which
  \<open>dec_struct\<close> builds the decoder \<open>encoding/json\<close> uses for the struct. Records are
  declared before the records that contain them. The lemmas show that only timestamp
  errors abort a decode, and that every decoder keeps the timestamps a value reaches valid
  (\<open>Reply_times_ok\<close> and its companions).
\<close>

record SigstoreProvenance =
  Issuer :: string
  Workflow :: string
  SourceRepository :: string
  TokenIssuer :: string
  Transparency :: string

record HistoricalProvenance =
  Tags :: float64
  Common :: float64
  Overlap :: float64
  Versions :: float64
  OverTime :: any_map

record ProvenanceDescription =
  Historical :: HistoricalProvenance
  Sigstore :: SigstoreProvenance

record Provenance =
  Score :: float64
  Description :: ProvenanceDescription
  UpdatedAt :: "Time option"

record ActivityDescription =
  Repository :: float64
  User :: float64

record Activity =
  Score :: float64
  Description :: ActivityDescription
  UpdatedAt :: "Time option"

record TyposquattingDescription =
  TotalSimilarNames :: go_int

record Typosquatting =
  Score :: float64
  Description :: TyposquattingDescription
  UpdatedAt :: "Time option"

record Alternative =
  ID :: string
  IsMalicious :: bool
  PackageName :: string
  PackageType :: string
  PackageVersion :: string
  Score :: float64
  PackageNameURL :: string
  RepoDescription :: string
  Provenance :: "Provenance option"

record AlternativesList =
  Status :: string
  Packages :: "Alternative list"

record ScoreSummary =
  Score :: "float64 option"
  Description :: any_map
  UpdatedAt :: "Time option"

record ScoreSummaryDescription =
  Activity :: float64
  ActivityRepo :: float64
  ActivityUser :: float64
  From :: string
  Malicious :: bool
  Provenance :: float64
  TrustSummary :: float64
  Typosquatting :: float64

record MaliciousData =
  Summary :: string
  Details :: string
  Published :: "Time option"
  Modified :: "Time option"
  Source :: string

record User =
  Author :: string
  AuthorEmail :: string
  AvatarURL :: string
  Blog :: "string option"
  Company :: "string option"
  Email :: string
  Followers :: go_int
  Following :: go_int
  GravatarID :: string
  Hireable :: bool
  HtmlURL :: "string option"
  ID :: string
  Location :: "string option"
  Login :: string
  PublicGists :: "go_int option"
  PublicRepos :: go_int
  Scores :: any_map
  TwitterUsername :: "string option"
  URL :: string

record PackageData =
  Archived :: bool
  Author :: string
  AuthorEmail :: string
  ContributorCount :: go_int
  Contributors :: "User list"
  DefaultBranch :: string
  Disabled :: bool
  Followers :: go_int
  Following :: go_int
  ForksCount :: go_int
  HasDownloads :: bool
  HasIssues :: bool
  HasProjects :: bool
  HomePage :: "string option"
  ID :: string
  Deprecated :: bool
  LastUpdate :: "Time option"
  Malicious :: "MaliciousData option"
  Name :: string
  OpenIssuesCount :: go_int
  Origin :: string
  Owner :: User
  PackageDescription :: string
  PublicGists :: go_int
  PublicRepos :: go_int
  RepoDescription :: string
  RepositoryID :: string
  RepositoryName :: string
  Scores :: any_map
  StargazersCount :: go_int
  Status :: string
  StatusCode :: "string option"
  Type :: string
  Version :: string
  VersionDate :: "Time option"
  Visibility :: string
  WatchersCount :: go_int

record Reply =
  PackageName :: string
  PackageType :: string
  PackageVersion :: string
  Status :: string
  Summary :: ScoreSummary
  Provenance :: "Provenance option"
  Activity :: "Activity option"
  Typosquatting :: "Typosquatting option"
  Alternatives :: AlternativesList
  PackageData :: PackageData
  SameOriginPackagesCount :: go_int
  SimilarPackageNames :: "Alternative list"

definition StatusPending :: string where "StatusPending = ''pending''"
definition StatusInProgress :: string where "StatusInProgress = ''in_progress''"
definition StatusComplete :: string where "StatusComplete = ''complete''"

definition SummaryKeyActivity :: string where "SummaryKeyActivity = ''activity''"
definition SummaryKeyActivityRepo :: string where "SummaryKeyActivityRepo = ''activity_repo''"
definition SummaryKeyActivityUser :: string where "SummaryKeyActivityUser = ''activity_user''"
definition SummaryKeyFrom :: string where "SummaryKeyFrom = ''from''"
definition SummaryKeyMalicious :: string where "SummaryKeyMalicious = ''malicious''"
definition SummaryKeyProvenance :: string where "SummaryKeyProvenance = ''provenance''"
definition SummaryKeyTrustSummary :: string where "SummaryKeyTrustSummary = ''trust-summary''"
definition SummaryKeyTyposquatting :: string where "SummaryKeyTyposquatting = ''typosquatting''"

definition OriginOK :: string where "OriginOK = ''ok''"
definition VisibilityPublic :: string where "VisibilityPublic = ''public''"
definition VisibilityPrivate :: string where "VisibilityPrivate = ''private''"

subsection \<open>Zero values\<close>

definition zero_SigstoreProvenance :: SigstoreProvenance where
  "zero_SigstoreProvenance = \<lparr>Issuer = [], Workflow = [], SourceRepository = [], TokenIssuer = [],
     Transparency = []\<rparr>"

definition zero_HistoricalProvenance :: HistoricalProvenance where
  "zero_HistoricalProvenance = \<lparr>Tags = 0, Common = 0, Overlap = 0, Versions = 0, OverTime = Map.empty\<rparr>"

definition zero_ProvenanceDescription :: ProvenanceDescription where
  "zero_ProvenanceDescription =
     \<lparr>Historical = zero_HistoricalProvenance, Sigstore = zero_SigstoreProvenance\<rparr>"

definition zero_Provenance :: Provenance where
  "zero_Provenance = \<lparr>Provenance.Score = 0, Provenance.Description = zero_ProvenanceDescription,
     Provenance.UpdatedAt = None\<rparr>"

definition zero_ActivityDescription :: ActivityDescription where
  "zero_ActivityDescription = \<lparr>Repository = 0, ActivityDescription.User = 0\<rparr>"

definition zero_Activity :: Activity where
  "zero_Activity = \<lparr>Activity.Score = 0, Activity.Description = zero_ActivityDescription,
     Activity.UpdatedAt = None\<rparr>"

definition zero_TyposquattingDescription :: TyposquattingDescription where
  "zero_TyposquattingDescription = \<lparr>TotalSimilarNames = 0\<rparr>"

definition zero_Typosquatting :: Typosquatting where
  "zero_Typosquatting = \<lparr>Typosquatting.Score = 0,
     Typosquatting.Description = zero_TyposquattingDescription, Typosquatting.UpdatedAt = None\<rparr>"

definition zero_Alternative :: Alternative where
  "zero_Alternative = \<lparr>Alternative.ID = [], IsMalicious = False, Alternative.PackageName = [],
     Alternative.PackageType = [], Alternative.PackageVersion = [], Alternative.Score = 0,
     PackageNameURL = [], Alternative.RepoDescription = [], Alternative.Provenance = None\<rparr>"

definition zero_AlternativesList :: AlternativesList where
  "zero_AlternativesList = \<lparr>AlternativesList.Status = [], Packages = []\<rparr>"

definition zero_ScoreSummary :: ScoreSummary where
  "zero_ScoreSummary = \<lparr>ScoreSummary.Score = None, ScoreSummary.Description = Map.empty,
     ScoreSummary.UpdatedAt = None\<rparr>"

definition zero_ScoreSummaryDescription :: ScoreSummaryDescription where
  "zero_ScoreSummaryDescription = \<lparr>ScoreSummaryDescription.Activity = 0, ActivityRepo = 0,
     ActivityUser = 0, From = [], ScoreSummaryDescription.Malicious = False,
     ScoreSummaryDescription.Provenance = 0, TrustSummary = 0,
     ScoreSummaryDescription.Typosquatting = 0\<rparr>"

definition zero_MaliciousData :: MaliciousData where
  "zero_MaliciousData = \<lparr>MaliciousData.Summary = [], Details = [], Published = None, Modified = None,
     Source = []\<rparr>"

definition zero_User :: User where
  "zero_User = \<lparr>User.Author = [], User.AuthorEmail = [], AvatarURL = [], Blog = None, Company = None,
     Email = [], User.Followers = 0, User.Following = 0, GravatarID = [], Hireable = False,
     HtmlURL = None, User.ID = [], Location = None, Login = [], User.PublicGists = None,
     User.PublicRepos = 0, User.Scores = Map.empty, TwitterUsername = None, URL = []\<rparr>"

definition zero_PackageData :: PackageData where
  "zero_PackageData = \<lparr>Archived = False, PackageData.Author = [], PackageData.AuthorEmail = [],
     ContributorCount = 0, Contributors = [], DefaultBranch = [], Disabled = False,
     PackageData.Followers = 0, PackageData.Following = 0, ForksCount = 0, HasDownloads = False,
     HasIssues = False, HasProjects = False, HomePage = None, PackageData.ID = [],
     Deprecated = False, LastUpdate = None, PackageData.Malicious = None, PackageData.Name = [],
     OpenIssuesCount = 0, Origin = [], Owner = zero_User, PackageDescription = [],
     PackageData.PublicGists = 0, PackageData.PublicRepos = 0, PackageData.RepoDescription = [],
     RepositoryID = [], RepositoryName = [], PackageData.Scores = Map.empty, StargazersCount = 0,
     PackageData.Status = [], StatusCode = None, Type = [], PackageData.Version = [],
     VersionDate = None, Visibility = [], WatchersCount = 0\<rparr>"

definition zero_Reply :: Reply where
  "zero_Reply = \<lparr>Reply.PackageName = [], Reply.PackageType = [], Reply.PackageVersion = [],
     Reply.Status = [], Reply.Summary = zero_ScoreSummary, Reply.Provenance = None,
     Reply.Activity = None, Reply.Typosquatting = None, Alternatives = zero_AlternativesList,
     Reply.PackageData = zero_PackageData, SameOriginPackagesCount = 0, SimilarPackageNames = []\<rparr>"

subsection \<open>JSON names and decoders\<close>

definition SigstoreProvenance_fields :: "(string \<times> (SigstoreProvenance \<Rightarrow> json \<Rightarrow> SigstoreProvenance decoded)) list" where
  "SigstoreProvenance_fields =
     [(''issuer'', fld SigstoreProvenance.Issuer SigstoreProvenance.Issuer_update dec_string),
      (''workflow'', fld SigstoreProvenance.Workflow SigstoreProvenance.Workflow_update dec_string),
      (''source_repo'', fld SigstoreProvenance.SourceRepository SigstoreProvenance.SourceRepository_update dec_string),
      (''token_issuer'', fld SigstoreProvenance.TokenIssuer SigstoreProvenance.TokenIssuer_update dec_string),
      (''transparency'', fld SigstoreProvenance.Transparency SigstoreProvenance.Transparency_update dec_string)]"

definition dec_SigstoreProvenance :: "SigstoreProvenance \<Rightarrow> json \<Rightarrow> SigstoreProvenance decoded" where
  "dec_SigstoreProvenance = dec_struct ''types.SigstoreProvenance'' SigstoreProvenance_fields"

definition HistoricalProvenance_fields :: "(string \<times> (HistoricalProvenance \<Rightarrow> json \<Rightarrow> HistoricalProvenance decoded)) list" where
  "HistoricalProvenance_fields =
     [(''tags'', fld HistoricalProvenance.Tags HistoricalProvenance.Tags_update dec_float64),
      (''common'', fld HistoricalProvenance.Common HistoricalProvenance.Common_update dec_float64),
      (''overlap'', fld HistoricalProvenance.Overlap HistoricalProvenance.Overlap_update dec_float64),
      (''versions'', fld HistoricalProvenance.Versions HistoricalProvenance.Versions_update dec_float64),
      (''over_time'', fld HistoricalProvenance.OverTime HistoricalProvenance.OverTime_update dec_any_map)]"

definition dec_HistoricalProvenance :: "HistoricalProvenance \<Rightarrow> json \<Rightarrow> HistoricalProvenance decoded" where
  "dec_HistoricalProvenance = dec_struct ''types.HistoricalProvenance'' HistoricalProvenance_fields"

definition ProvenanceDescription_fields :: "(string \<times> (ProvenanceDescription \<Rightarrow> json \<Rightarrow> ProvenanceDescription decoded)) list" where
  "ProvenanceDescription_fields =
     [(''hp'', fld ProvenanceDescription.Historical ProvenanceDescription.Historical_update dec_HistoricalProvenance),
      (''sigstore'', fld ProvenanceDescription.Sigstore ProvenanceDescription.Sigstore_update dec_SigstoreProvenance)]"

definition dec_ProvenanceDescription :: "ProvenanceDescription \<Rightarrow> json \<Rightarrow> ProvenanceDescription decoded" where
  "dec_ProvenanceDescription = dec_struct ''types.ProvenanceDescription'' ProvenanceDescription_fields"

definition Provenance_fields :: "(string \<times> (Provenance \<Rightarrow> json \<Rightarrow> Provenance decoded)) list" where
  "Provenance_fields =
     [(''score'', fld Provenance.Score Provenance.Score_update dec_float64),
      (''description'', fld Provenance.Description Provenance.Description_update dec_ProvenanceDescription),
      (''updated_at'', fld Provenance.UpdatedAt Provenance.UpdatedAt_update (dec_ptr zero_time dec_Time))]"

definition dec_Provenance :: "Provenance \<Rightarrow> json \<Rightarrow> Provenance decoded" where
  "dec_Provenance = dec_struct ''types.Provenance'' Provenance_fields"

definition ActivityDescription_fields :: "(string \<times> (ActivityDescription \<Rightarrow> json \<Rightarrow> ActivityDescription decoded)) list" where
  "ActivityDescription_fields =
     [(''repo'', fld ActivityDescription.Repository ActivityDescription.Repository_update dec_float64),
      (''user'', fld ActivityDescription.User ActivityDescription.User_update dec_float64)]"

definition dec_ActivityDescription :: "ActivityDescription \<Rightarrow> json \<Rightarrow> ActivityDescription decoded" where
  "dec_ActivityDescription = dec_struct ''types.ActivityDescription'' ActivityDescription_fields"

definition Activity_fields :: "(string \<times> (Activity \<Rightarrow> json \<Rightarrow> Activity decoded)) list" where
  "Activity_fields =
     [(''score'', fld Activity.Score Activity.Score_update dec_float64),
      (''description'', fld Activity.Description Activity.Description_update dec_ActivityDescription),
      (''updated_at'', fld Activity.UpdatedAt Activity.UpdatedAt_update (dec_ptr zero_time dec_Time))]"

definition dec_Activity :: "Activity \<Rightarrow> json \<Rightarrow> Activity decoded" where
  "dec_Activity = dec_struct ''types.Activity'' Activity_fields"

definition TyposquattingDescription_fields :: "(string \<times> (TyposquattingDescription \<Rightarrow> json \<Rightarrow> TyposquattingDescription decoded)) list" where
  "TyposquattingDescription_fields =
     [(''total_similar_names'', fld TyposquattingDescription.TotalSimilarNames TyposquattingDescription.TotalSimilarNames_update dec_int)]"

definition dec_TyposquattingDescription :: "TyposquattingDescription \<Rightarrow> json \<Rightarrow> TyposquattingDescription decoded" where
  "dec_TyposquattingDescription = dec_struct ''types.TyposquattingDescription'' TyposquattingDescription_fields"

definition Typosquatting_fields :: "(string \<times> (Typosquatting \<Rightarrow> json \<Rightarrow> Typosquatting decoded)) list" where
  "Typosquatting_fields =
     [(''score'', fld Typosquatting.Score Typosquatting.Score_update dec_float64),
      (''description'', fld Typosquatting.Description Typosquatting.Description_update dec_TyposquattingDescription),
      (''updated_at'', fld Typosquatting.UpdatedAt Typosquatting.UpdatedAt_update (dec_ptr zero_time dec_Time))]"

definition dec_Typosquatting :: "Typosquatting \<Rightarrow> json \<Rightarrow> Typosquatting decoded" where
  "dec_Typosquatting = dec_struct ''types.Typosquatting'' Typosquatting_fields"

definition Alternative_fields :: "(string \<times> (Alternative \<Rightarrow> json \<Rightarrow> Alternative decoded)) list" where
  "Alternative_fields =
     [(''id'', fld Alternative.ID Alternative.ID_update dec_string),
      (''is_malicious'', fld Alternative.IsMalicious Alternative.IsMalicious_update dec_bool),
      (''package_name'', fld Alternative.PackageName Alternative.PackageName_update dec_string),
      (''package_type'', fld Alternative.PackageType Alternative.PackageType_update dec_string),
      (''package_version'', fld Alternative.PackageVersion Alternative.PackageVersion_update dec_string),
      (''score'', fld Alternative.Score Alternative.Score_update dec_float64),
      (''PackageNameURL'', fld Alternative.PackageNameURL Alternative.PackageNameURL_update dec_string),
      (''repo_description'', fld Alternative.RepoDescription Alternative.RepoDescription_update dec_string),
      (''provenance'', fld Alternative.Provenance Alternative.Provenance_update (dec_ptr zero_Provenance dec_Provenance))]"

definition dec_Alternative :: "Alternative \<Rightarrow> json \<Rightarrow> Alternative decoded" where
  "dec_Alternative = dec_struct ''types.Alternative'' Alternative_fields"

definition AlternativesList_fields :: "(string \<times> (AlternativesList \<Rightarrow> json \<Rightarrow> AlternativesList decoded)) list" where
  "AlternativesList_fields =
     [(''status'', fld AlternativesList.Status AlternativesList.Status_update dec_string),
      (''packages'', fld AlternativesList.Packages AlternativesList.Packages_update (dec_slice zero_Alternative dec_Alternative))]"

definition dec_AlternativesList :: "AlternativesList \<Rightarrow> json \<Rightarrow> AlternativesList decoded" where
  "dec_AlternativesList = dec_struct ''types.AlternativesList'' AlternativesList_fields"

definition ScoreSummary_fields :: "(string \<times> (ScoreSummary \<Rightarrow> json \<Rightarrow> ScoreSummary decoded)) list" where
  "ScoreSummary_fields =
     [(''score'', fld ScoreSummary.Score ScoreSummary.Score_update (dec_ptr 0 dec_float64)),
      (''description'', fld ScoreSummary.Description ScoreSummary.Description_update dec_any_map),
      (''updated_at'', fld ScoreSummary.UpdatedAt ScoreSummary.UpdatedAt_update (dec_ptr zero_time dec_Time))]"

definition dec_ScoreSummary :: "ScoreSummary \<Rightarrow> json \<Rightarrow> ScoreSummary decoded" where
  "dec_ScoreSummary = dec_struct ''types.ScoreSummary'' ScoreSummary_fields"

definition ScoreSummaryDescription_fields :: "(string \<times> (ScoreSummaryDescription \<Rightarrow> json \<Rightarrow> ScoreSummaryDescription decoded)) list" where
  "ScoreSummaryDescription_fields =
     [(''activity'', fld ScoreSummaryDescription.Activity ScoreSummaryDescription.Activity_update dec_float64),
      (''activity_repo'', fld ScoreSummaryDescription.ActivityRepo ScoreSummaryDescription.ActivityRepo_update dec_float64),
      (''activity_user'', fld ScoreSummaryDescription.ActivityUser ScoreSummaryDescription.ActivityUser_update dec_float64),
      (''from'', fld ScoreSummaryDescription.From ScoreSummaryDescription.From_update dec_string),
      (''malicious'', fld ScoreSummaryDescription.Malicious ScoreSummaryDescription.Malicious_update dec_bool),
      (''provenance'', fld ScoreSummaryDescription.Provenance ScoreSummaryDescription.Provenance_update dec_float64),
      (''trust-summary'', fld ScoreSummaryDescription.TrustSummary ScoreSummaryDescription.TrustSummary_update dec_float64),
      (''typosquatting'', fld ScoreSummaryDescription.Typosquatting ScoreSummaryDescription.Typosquatting_update dec_float64)]"

definition dec_ScoreSummaryDescription :: "ScoreSummaryDescription \<Rightarrow> json \<Rightarrow> ScoreSummaryDescription decoded" where
  "dec_ScoreSummaryDescription = dec_struct ''types.ScoreSummaryDescription'' ScoreSummaryDescription_fields"

definition MaliciousData_fields :: "(string \<times> (MaliciousData \<Rightarrow> json \<Rightarrow> MaliciousData decoded)) list" where
  "MaliciousData_fields =
     [(''summary'', fld MaliciousData.Summary MaliciousData.Summary_update dec_string),
      (''details'', fld MaliciousData.Details MaliciousData.Details_update dec_string),
      (''published'', fld MaliciousData.Published MaliciousData.Published_update (dec_ptr zero_time dec_Time)),
      (''modified'', fld MaliciousData.Modified MaliciousData.Modified_update (dec_ptr zero_time dec_Time)),
      (''source'', fld MaliciousData.Source MaliciousData.Source_update dec_string)]"

definition dec_MaliciousData :: "MaliciousData \<Rightarrow> json \<Rightarrow> MaliciousData decoded" where
  "dec_MaliciousData = dec_struct ''types.MaliciousData'' MaliciousData_fields"

definition User_fields :: "(string \<times> (User \<Rightarrow> json \<Rightarrow> User decoded)) list" where
  "User_fields =
     [(''author'', fld User.Author User.Author_update dec_string),
      (''author_email'', fld User.AuthorEmail User.AuthorEmail_update dec_string),
      (''avatar_url'', fld User.AvatarURL User.AvatarURL_update dec_string),
      (''blog'', fld User.Blog User.Blog_update (dec_ptr [] dec_string)),
      (''company'', fld User.Company User.Company_update (dec_ptr [] dec_string)),
      (''email'', fld User.Email User.Email_update dec_string),
      (''followers'', fld User.Followers User.Followers_update dec_int),
      (''following'', fld User.Following User.Following_update dec_int),
      (''gravatar_id'', fld User.GravatarID User.GravatarID_update dec_string),
      (''hireable'', fld User.Hireable User.Hireable_update dec_bool),
      (''html_url'', fld User.HtmlURL User.HtmlURL_update (dec_ptr [] dec_string)),
      (''id'', fld User.ID User.ID_update dec_string),
      (''location'', fld User.Location User.Location_update (dec_ptr [] dec_string)),
      (''login'', fld User.Login User.Login_update dec_string),
      (''public_gists'', fld User.PublicGists User.PublicGists_update (dec_ptr 0 dec_int)),
      (''public_repos'', fld User.PublicRepos User.PublicRepos_update dec_int),
      (''scores'', fld User.Scores User.Scores_update dec_any_map),
      (''twitter_username'', fld User.TwitterUsername User.TwitterUsername_update (dec_ptr [] dec_string)),
      (''url'', fld User.URL User.URL_update dec_string)]"

definition dec_User :: "User \<Rightarrow> json \<Rightarrow> User decoded" where
  "dec_User = dec_struct ''types.User'' User_fields"

definition PackageData_fields :: "(string \<times> (PackageData \<Rightarrow> json \<Rightarrow> PackageData decoded)) list" where
  "PackageData_fields =
     [(''archived'', fld PackageData.Archived PackageData.Archived_update dec_bool),
      (''author'', fld PackageData.Author PackageData.Author_update dec_string),
      (''author_email'', fld PackageData.AuthorEmail PackageData.AuthorEmail_update dec_string),
      (''contributor_count'', fld PackageData.ContributorCount PackageData.ContributorCount_update dec_int),
      (''contributors'', fld PackageData.Contributors PackageData.Contributors_update (dec_slice zero_User dec_User)),
      (''default_branch'', fld PackageData.DefaultBranch PackageData.DefaultBranch_update dec_string),
      (''disabled'', fld PackageData.Disabled PackageData.Disabled_update dec_bool),
      (''followers'', fld PackageData.Followers PackageData.Followers_update dec_int),
      (''following'', fld PackageData.Following PackageData.Following_update dec_int),
      (''forks_count'', fld PackageData.ForksCount PackageData.ForksCount_update dec_int),
      (''has_downloads'', fld PackageData.HasDownloads PackageData.HasDownloads_update dec_bool),
      (''has_issues'', fld PackageData.HasIssues PackageData.HasIssues_update dec_bool),
      (''has_projects'', fld PackageData.HasProjects PackageData.HasProjects_update dec_bool),
      (''home_page'', fld PackageData.HomePage PackageData.HomePage_update (dec_ptr [] dec_string)),
      (''id'', fld PackageData.ID PackageData.ID_update dec_string),
      (''is_deprecated'', fld PackageData.Deprecated PackageData.Deprecated_update dec_bool),
      (''last_update'', fld PackageData.LastUpdate PackageData.LastUpdate_update (dec_ptr zero_time dec_Time)),
      (''malicious'', fld PackageData.Malicious PackageData.Malicious_update (dec_ptr zero_MaliciousData dec_MaliciousData)),
      (''name'', fld PackageData.Name PackageData.Name_update dec_string),
      (''open_issues_count'', fld PackageData.OpenIssuesCount PackageData.OpenIssuesCount_update dec_int),
      (''origin'', fld PackageData.Origin PackageData.Origin_update dec_string),
      (''owner'', fld PackageData.Owner PackageData.Owner_update dec_User),
      (''package_description'', fld PackageData.PackageDescription PackageData.PackageDescription_update dec_string),
      (''public_gists'', fld PackageData.PublicGists PackageData.PublicGists_update dec_int),
      (''public_repos'', fld PackageData.PublicRepos PackageData.PublicRepos_update dec_int),
      (''repo_description'', fld PackageData.RepoDescription PackageData.RepoDescription_update dec_string),
      (''repository_id'', fld PackageData.RepositoryID PackageData.RepositoryID_update dec_string),
      (''repository_name'', fld PackageData.RepositoryName PackageData.RepositoryName_update dec_string),
      (''scores'', fld PackageData.Scores PackageData.Scores_update dec_any_map),
      (''stargazers_count'', fld PackageData.StargazersCount PackageData.StargazersCount_update dec_int),
      (''status'', fld PackageData.Status PackageData.Status_update dec_string),
      (''status_code'', fld PackageData.StatusCode PackageData.StatusCode_update (dec_ptr [] dec_string)),
      (''type'', fld PackageData.Type PackageData.Type_update dec_string),
      (''version'', fld PackageData.Version PackageData.Version_update dec_string),
      (''version_date'', fld PackageData.VersionDate PackageData.VersionDate_update (dec_ptr zero_time dec_Time)),
      (''visibility'', fld PackageData.Visibility PackageData.Visibility_update dec_string),
      (''watchers_count'', fld PackageData.WatchersCount PackageData.WatchersCount_update dec_int)]"

definition dec_PackageData :: "PackageData \<Rightarrow> json \<Rightarrow> PackageData decoded" where
  "dec_PackageData = dec_struct ''types.PackageData'' PackageData_fields"

definition Reply_fields :: "(string \<times> (Reply \<Rightarrow> json \<Rightarrow> Reply decoded)) list" where
  "Reply_fields =
     [(''package_name'', fld Reply.PackageName Reply.PackageName_update dec_string),
      (''package_type'', fld Reply.PackageType Reply.PackageType_update dec_string),
      (''package_version'', fld Reply.PackageVersion Reply.PackageVersion_update dec_string),
      (''status'', fld Reply.Status Reply.Status_update dec_string),
      (''summary'', fld Reply.Summary Reply.Summary_update dec_ScoreSummary),
      (''provenance'', fld Reply.Provenance Reply.Provenance_update (dec_ptr zero_Provenance dec_Provenance)),
      (''activity'', fld Reply.Activity Reply.Activity_update (dec_ptr zero_Activity dec_Activity)),
      (''typosquatting'', fld Reply.Typosquatting Reply.Typosquatting_update (dec_ptr zero_Typosquatting dec_Typosquatting)),
      (''alternatives'', fld Reply.Alternatives Reply.Alternatives_update dec_AlternativesList),
      (''package_data'', fld Reply.PackageData Reply.PackageData_update dec_PackageData),
      (''same_origin_packages_count'', fld Reply.SameOriginPackagesCount Reply.SameOriginPackagesCount_update dec_int),
      (''similar_package_names'', fld Reply.SimilarPackageNames Reply.SimilarPackageNames_update (dec_slice zero_Alternative dec_Alternative))]"

definition dec_Reply :: "Reply \<Rightarrow> json \<Rightarrow> Reply decoded" where
  "dec_Reply = dec_struct ''types.Reply'' Reply_fields"

subsection \<open>The timestamps a report holds\<close>

text \<open>Every \<open>*Time\<close> a report reaches, directly or through its blocks, alternatives and
  package data, is nil or satisfies \<open>Time_ok\<close>.\<close>

definition Provenance_times_ok :: "Provenance \<Rightarrow> bool" where
  "Provenance_times_ok p \<longleftrightarrow> pred_option Time_ok (Provenance.UpdatedAt p)"

definition Activity_times_ok :: "Activity \<Rightarrow> bool" where
  "Activity_times_ok a \<longleftrightarrow> pred_option Time_ok (Activity.UpdatedAt a)"

definition Typosquatting_times_ok :: "Typosquatting \<Rightarrow> bool" where
  "Typosquatting_times_ok t \<longleftrightarrow> pred_option Time_ok (Typosquatting.UpdatedAt t)"

definition ScoreSummary_times_ok :: "ScoreSummary \<Rightarrow> bool" where
  "ScoreSummary_times_ok s \<longleftrightarrow> pred_option Time_ok (ScoreSummary.UpdatedAt s)"

definition Alternative_times_ok :: "Alternative \<Rightarrow> bool" where
  "Alternative_times_ok a \<longleftrightarrow> pred_option Provenance_times_ok (Alternative.Provenance a)"

definition AlternativesList_times_ok :: "AlternativesList \<Rightarrow> bool" where
  "AlternativesList_times_ok l \<longleftrightarrow> list_all Alternative_times_ok (AlternativesList.Packages l)"

definition MaliciousData_times_ok :: "MaliciousData \<Rightarrow> bool" where
  "MaliciousData_times_ok m \<longleftrightarrow>
     pred_option Time_ok (MaliciousData.Published m) \<and> pred_option Time_ok (MaliciousData.Modified m)"

definition PackageData_times_ok :: "PackageData \<Rightarrow> bool" where
  "PackageData_times_ok d \<longleftrightarrow>
     pred_option Time_ok (PackageData.LastUpdate d) \<and> pred_option MaliciousData_times_ok (PackageData.Malicious d)
     \<and> pred_option Time_ok (PackageData.VersionDate d)"

definition Reply_times_ok :: "Reply \<Rightarrow> bool" where
  "Reply_times_ok r \<longleftrightarrow>
     ScoreSummary_times_ok (Reply.Summary r) \<and> pred_option Provenance_times_ok (Reply.Provenance r)
     \<and> pred_option Activity_times_ok (Reply.Activity r)
     \<and> pred_option Typosquatting_times_ok (Reply.Typosquatting r)
     \<and> AlternativesList_times_ok (Reply.Alternatives r) \<and> PackageData_times_ok (Reply.PackageData r)
     \<and> list_all Alternative_times_ok (Reply.SimilarPackageNames r)"

subsection \<open>Only timestamp errors abort a decode\<close>

lemma dec_SigstoreProvenance_fatal [decoder_fatal]: "dec_SigstoreProvenance c j = Inl e \<Longrightarrow> is_time_error e"
  unfolding dec_SigstoreProvenance_def
  by (erule dec_struct_fatal)
     (auto simp: SigstoreProvenance_fields_def dec_primitive_not_Inl dest!: decoder_fatal_dests decoder_fatal)

lemma dec_HistoricalProvenance_fatal [decoder_fatal]: "dec_HistoricalProvenance c j = Inl e \<Longrightarrow> is_time_error e"
  unfolding dec_HistoricalProvenance_def
  by (erule dec_struct_fatal)
     (auto simp: HistoricalProvenance_fields_def dec_primitive_not_Inl dest!: decoder_fatal_dests decoder_fatal)

lemma dec_ProvenanceDescription_fatal [decoder_fatal]: "dec_ProvenanceDescription c j = Inl e \<Longrightarrow> is_time_error e"
  unfolding dec_ProvenanceDescription_def
  by (erule dec_struct_fatal)
     (auto simp: ProvenanceDescription_fields_def dec_primitive_not_Inl dest!: decoder_fatal_dests decoder_fatal)

lemma dec_Provenance_fatal [decoder_fatal]: "dec_Provenance c j = Inl e \<Longrightarrow> is_time_error e"
  unfolding dec_Provenance_def
  by (erule dec_struct_fatal)
     (auto simp: Provenance_fields_def dec_primitive_not_Inl dest!: decoder_fatal_dests decoder_fatal)

lemma dec_ActivityDescription_fatal [decoder_fatal]: "dec_ActivityDescription c j = Inl e \<Longrightarrow> is_time_error e"
  unfolding dec_ActivityDescription_def
  by (erule dec_struct_fatal)
     (auto simp: ActivityDescription_fields_def dec_primitive_not_Inl dest!: decoder_fatal_dests decoder_fatal)

lemma dec_Activity_fatal [decoder_fatal]: "dec_Activity c j = Inl e \<Longrightarrow> is_time_error e"
  unfolding dec_Activity_def
  by (erule dec_struct_fatal)
     (auto simp: Activity_fields_def dec_primitive_not_Inl dest!: decoder_fatal_dests decoder_fatal)

lemma dec_TyposquattingDescription_fatal [decoder_fatal]: "dec_TyposquattingDescription c j = Inl e \<Longrightarrow> is_time_error e"
  unfolding dec_TyposquattingDescription_def
  by (erule dec_struct_fatal)
     (auto simp: TyposquattingDescription_fields_def dec_primitive_not_Inl dest!: decoder_fatal_dests decoder_fatal)

lemma dec_Typosquatting_fatal [decoder_fatal]: "dec_Typosquatting c j = Inl e \<Longrightarrow> is_time_error e"
  unfolding dec_Typosquatting_def
  by (erule dec_struct_fatal)
     (auto simp: Typosquatting_fields_def dec_primitive_not_Inl dest!: decoder_fatal_dests decoder_fatal)

lemma dec_Alternative_fatal [decoder_fatal]: "dec_Alternative c j = Inl e \<Longrightarrow> is_time_error e"
  unfolding dec_Alternative_def
  by (erule dec_struct_fatal)
     (auto simp: Alternative_fields_def dec_primitive_not_Inl dest!: decoder_fatal_dests decoder_fatal)

lemma dec_AlternativesList_fatal [decoder_fatal]: "dec_AlternativesList c j = Inl e \<Longrightarrow> is_time_error e"
  unfolding dec_AlternativesList_def
  by (erule dec_struct_fatal)
     (auto simp: AlternativesList_fields_def dec_primitive_not_Inl dest!: decoder_fatal_dests decoder_fatal)

lemma dec_ScoreSummary_fatal [decoder_fatal]: "dec_ScoreSummary c j = Inl e \<Longrightarrow> is_time_error e"
  unfolding dec_ScoreSummary_def
  by (erule dec_struct_fatal)
     (auto simp: ScoreSummary_fields_def dec_primitive_not_Inl dest!: decoder_fatal_dests decoder_fatal)

lemma dec_ScoreSummaryDescription_fatal [decoder_fatal]: "dec_ScoreSummaryDescription c j = Inl e \<Longrightarrow> is_time_error e"
  unfolding dec_ScoreSummaryDescription_def
  by (erule dec_struct_fatal)
     (auto simp: ScoreSummaryDescription_fields_def dec_primitive_not_Inl dest!: decoder_fatal_dests decoder_fatal)

lemma dec_MaliciousData_fatal [decoder_fatal]: "dec_MaliciousData c j = Inl e \<Longrightarrow> is_time_error e"
  unfolding dec_MaliciousData_def
  by (erule dec_struct_fatal)
     (auto simp: MaliciousData_fields_def dec_primitive_not_Inl dest!: decoder_fatal_dests decoder_fatal)

lemma dec_User_fatal [decoder_fatal]: "dec_User c j = Inl e \<Longrightarrow> is_time_error e"
  unfolding dec_User_def
  by (erule dec_struct_fatal)
     (auto simp: User_fields_def dec_primitive_not_Inl dest!: decoder_fatal_dests decoder_fatal)

lemma dec_PackageData_fatal [decoder_fatal]: "dec_PackageData c j = Inl e \<Longrightarrow> is_time_error e"
  unfolding dec_PackageData_def
  by (erule dec_struct_fatal)
     (auto simp: PackageData_fields_def dec_primitive_not_Inl dest!: decoder_fatal_dests decoder_fatal)

subsection \<open>Lookups in the tables\<close>

lemma Activity_updated_at_lookup:
  "field_lookup Activity_fields ''updated_at'' =
     Some (''updated_at'', fld Activity.UpdatedAt Activity.UpdatedAt_update (dec_ptr zero_time dec_Time))"
  by (simp add: Activity_fields_def field_lookup_def)

lemma Reply_activity_lookup:
  "field_lookup Reply_fields ''activity'' =
     Some (''activity'', fld Reply.Activity Reply.Activity_update (dec_ptr zero_Activity dec_Activity))"
  by (simp add: Reply_fields_def field_lookup_def)

lemma Reply_fields_keep:
  assumes "(n, f) \<in> set Reply_fields" and "f r v = Inr (r', e)"
  shows "(n \<noteq> ''activity'' \<longrightarrow> Reply.Activity r' = Reply.Activity r)
       \<and> (n \<noteq> ''provenance'' \<longrightarrow> Reply.Provenance r' = Reply.Provenance r)
       \<and> (n \<noteq> ''typosquatting'' \<longrightarrow> Reply.Typosquatting r' = Reply.Typosquatting r)"
  using assms unfolding Reply_fields_def set_simps insert_iff
  by (elim disjE) (auto dest!: fld_Inr)

lemma Reply_fields_fold_distinct: "distinct (map (\<lambda>nf. fold_name (fst nf)) Reply_fields)"
  by (simp add: Reply_fields_def fold_name_def fold_char_def)

lemma Reply_keep_provenance:
  "(n, f) \<in> set Reply_fields \<Longrightarrow> n \<noteq> ''provenance'' \<Longrightarrow> f r v = Inr (r', e) \<Longrightarrow>
   Reply.Provenance r' = Reply.Provenance r"
  using Reply_fields_keep by blast

lemma Reply_keep_activity:
  "(n, f) \<in> set Reply_fields \<Longrightarrow> n \<noteq> ''activity'' \<Longrightarrow> f r v = Inr (r', e) \<Longrightarrow>
   Reply.Activity r' = Reply.Activity r"
  using Reply_fields_keep by blast

lemma Reply_keep_typosquatting:
  "(n, f) \<in> set Reply_fields \<Longrightarrow> n \<noteq> ''typosquatting'' \<Longrightarrow> f r v = Inr (r', e) \<Longrightarrow>
   Reply.Typosquatting r' = Reply.Typosquatting r"
  using Reply_fields_keep by blast

subsection \<open>Properties of the decoding of a report\<close>

text \<open>C10: A timestamp that fails to parse aborts the decoding of the whole report: when
  the \<open>activity\<close> block of a report carries an \<open>updated_at\<close> value that
  \<open>Time.UnmarshalJSON\<close> rejects, decoding the report fails.\<close>
theorem dec_Reply_time_failure_aborts:
  assumes "(''activity'', JObject a) \<in> set kvs" and "(''updated_at'', v) \<in> set a" and "v \<noteq> JNull"
    and "snd (UnmarshalJSON zero_time (json_raw v)) \<noteq> None"
  shows "isl (dec_Reply r (JObject kvs))"
proof -
  have "isl (dec_Activity c (JObject a))" for c
    unfolding dec_Activity_def dec_struct_def json.case
    by (rule decode_fields_abort [OF assms(2) Activity_updated_at_lookup])
       (simp add: isl_dec_ptr assms(3) dec_Time_bad [OF assms(4)])
  then show ?thesis
    unfolding dec_Reply_def dec_struct_def json.case
    by (intro decode_fields_abort [OF assms(1) Reply_activity_lookup]) (simp add: isl_dec_ptr)
qed

text \<open>C11: Only a timestamp error aborts the decoding of a report, and a JSON value of the
  wrong type for a field is recorded while decoding goes on: when the field decoder a key
  selects rejects the value as a type mismatch and leaves the report as it was, the
  report decodes, wherever the key stands in the object, to what it decodes to without
  that key, and a successful decode reports an error.\<close>
theorem dec_Reply_fatal_time:
  "(dec_Reply r j = Inl e \<longrightarrow> is_time_error e)
   \<and> (field_lookup Reply_fields k = Some (n, f) \<and> (\<forall>r. f r v = Inr (r, Some e')) \<longrightarrow>
        map_sum id fst (dec_Reply r (JObject (pre @ (k, v) # post)))
          = map_sum id fst (dec_Reply r (JObject (pre @ post)))
        \<and> (\<forall>r' eo. dec_Reply r (JObject (pre @ (k, v) # post)) = Inr (r', eo) \<longrightarrow> eo \<noteq> None))"
proof (intro conjI impI)
  assume "dec_Reply r j = Inl e"
  then show "is_time_error e"
    unfolding dec_Reply_def
    by (elim dec_struct_fatal) (auto simp: Reply_fields_def dec_primitive_not_Inl dest!: decoder_fatal_dests decoder_fatal)
next
  assume a: "field_lookup Reply_fields k = Some (n, f) \<and> (\<forall>r. f r v = Inr (r, Some e'))"
  then have "map_sum id fst (decode_fields Reply_fields (pre @ (k, v) # post) r)
               = map_sum id fst (decode_fields Reply_fields (pre @ post) r)
             \<and> (\<forall>r' eo. decode_fields Reply_fields (pre @ (k, v) # post) r = Inr (r', eo) \<longrightarrow> eo \<noteq> None)"
    by (intro decode_fields_skip) blast+
  then show "map_sum id fst (dec_Reply r (JObject (pre @ (k, v) # post)))
               = map_sum id fst (dec_Reply r (JObject (pre @ post)))"
    and "\<forall>r' eo. dec_Reply r (JObject (pre @ (k, v) # post)) = Inr (r', eo) \<longrightarrow> eo \<noteq> None"
    by (simp_all add: dec_Reply_def dec_struct_def)
qed

lemma zero_Reply_blocks:
  "Reply.Provenance zero_Reply = None" "Reply.Activity zero_Reply = None"
  "Reply.Typosquatting zero_Reply = None"
  by (simp_all add: zero_Reply_def)

text \<open>C13: Decoding a fresh report, a JSON null for one of the optional blocks
  \<open>provenance\<close>, \<open>activity\<close> and \<open>typosquatting\<close> gives the same result as leaving the
  key out, as long as no other key of the object names the same field.\<close>
theorem dec_Reply_null_absent:
  assumes "k \<in> {''provenance'', ''activity'', ''typosquatting''}"
    and "\<forall>kv \<in> set (kvs1 @ kvs2). fold_name (fst kv) \<noteq> fold_name k"
  shows "dec_Reply zero_Reply (JObject (kvs1 @ (k, JNull) # kvs2)) = dec_Reply zero_Reply (JObject (kvs1 @ kvs2))"
proof -
  have "decode_fields Reply_fields (kvs1 @ (k, JNull) # kvs2) zero_Reply
        = decode_fields Reply_fields (kvs1 @ kvs2) zero_Reply"
    using assms(1)
  proof (elim insertE emptyE)
    assume k: "k = ''provenance''"
    show ?thesis unfolding k
      apply (rule decode_fields_ptr_null_absent [where F = Reply_fields and get = Reply.Provenance
            and upd = Reply.Provenance_update and tag = "''provenance''"])
          apply (fact Reply_keep_provenance)
         apply (simp add: Reply_fields_def field_lookup_def)
        apply simp
       apply (use assms(2) k in simp)
      apply (simp add: zero_Reply_blocks)
      done
  next
    assume k: "k = ''activity''"
    show ?thesis unfolding k
      apply (rule decode_fields_ptr_null_absent [where F = Reply_fields and get = Reply.Activity
            and upd = Reply.Activity_update and tag = "''activity''"])
          apply (fact Reply_keep_activity)
         apply (simp add: Reply_fields_def field_lookup_def)
        apply simp
       apply (use assms(2) k in simp)
      apply (simp add: zero_Reply_blocks)
      done
  next
    assume k: "k = ''typosquatting''"
    show ?thesis unfolding k
      apply (rule decode_fields_ptr_null_absent [where F = Reply_fields and get = Reply.Typosquatting
            and upd = Reply.Typosquatting_update and tag = "''typosquatting''"])
          apply (fact Reply_keep_typosquatting)
         apply (simp add: Reply_fields_def field_lookup_def)
        apply simp
       apply (use assms(2) k in simp)
      apply (simp add: zero_Reply_blocks)
      done
  qed
  then show ?thesis by (simp add: dec_Reply_def dec_struct_def)
qed

text \<open>C14: The keys of a report object match the JSON names case-insensitively: no two
  names of \<open>Reply\<close> differ only in case, so upper-casing every key of the object does not
  change what it decodes to.\<close>
theorem dec_Reply_fold_keys:
  "dec_Reply r (JObject (map (\<lambda>kv. (fold_name (fst kv), snd kv)) kvs)) = dec_Reply r (JObject kvs)"
  by (simp add: dec_Reply_def dec_struct_def decode_fields_fold_keys [OF Reply_fields_fold_distinct])

text \<open>C15: The status of a report is not checked against the three status constants: any
  string decodes into the field without error.\<close>
theorem dec_Reply_status_unchecked:
  "json_Unmarshal dec_Reply zero_Reply (JObject [(''status'', JString s)])
   = Inr (zero_Reply\<lparr>Reply.Status := s\<rparr>)"
  by (simp add: json_Unmarshal_def dec_Reply_def dec_struct_def Reply_fields_def field_lookup_def
      fld_def map_decoded_def dec_string_def save_error_def)

subsection \<open>The properties at concrete inputs\<close>

lemma not_a_date_rejected: "snd (UnmarshalJSON zero_time (json_raw (JString ''not-a-date''))) \<noteq> None"
  unfolding json_raw.simps
  by (subst UnmarshalJSON_quoted) (simp_all add: time_Parse_def timeLayout_chunks_def is_digit_at_def is_digit_def)

theorem dec_Reply_time_failure_aborts_witness:
  "isl (dec_Reply zero_Reply (JObject [(''activity'', JObject [(''updated_at'', JString ''not-a-date'')])]))"
  by (rule dec_Reply_time_failure_aborts [where a = "[(''updated_at'', JString ''not-a-date'')]"
        and v = "JString ''not-a-date''"])
     (simp_all add: not_a_date_rejected del: json_raw.simps)

lemma Reply_count_lookup:
  "field_lookup Reply_fields ''same_origin_packages_count'' =
     Some (''same_origin_packages_count'',
           fld Reply.SameOriginPackagesCount Reply.SameOriginPackagesCount_update dec_int)"
  by (simp add: Reply_fields_def field_lookup_def)

text \<open>A fractional count between a status and a package name is skipped and reported,
  and a report whose timestamp is rejected fails with the parse error.\<close>

theorem dec_Reply_fatal_time_witness:
  "dec_Reply zero_Reply (JObject [(''activity'', JObject [(''updated_at'', JString ''not-a-date'')])])
     = Inl (TimeError (ParseError timeLayout ''not-a-date''))
   \<and> is_time_error (TimeError (ParseError timeLayout ''not-a-date''))
   \<and> map_sum id fst (dec_Reply zero_Reply (JObject [(''status'', JString ''complete''),
        (''same_origin_packages_count'', JNumber ''1.5''), (''package_name'', JString ''a'')]))
     = map_sum id fst (dec_Reply zero_Reply (JObject [(''status'', JString ''complete''),
        (''package_name'', JString ''a'')]))"
proof -
  have u: "UnmarshalJSON t (json_raw (JString ''not-a-date''))
           = (zero_time, Some (ParseError timeLayout ''not-a-date''))" for t
    unfolding json_raw.simps
    by (subst UnmarshalJSON_quoted)
       (simp_all add: time_Parse_def timeLayout_chunks_def is_digit_at_def is_digit_def)
  have d: "dec_Reply zero_Reply (JObject [(''activity'', JObject [(''updated_at'', JString ''not-a-date'')])])
        = Inl (TimeError (ParseError timeLayout ''not-a-date''))"
    by (simp add: dec_Reply_def dec_struct_def Reply_activity_lookup dec_Activity_def
        Activity_updated_at_lookup fld_def map_decoded_def dec_ptr_def dec_Time_def u
        del: json_raw.simps)
  have m: "\<forall>r. fld Reply.SameOriginPackagesCount Reply.SameOriginPackagesCount_update dec_int r (JNumber ''1.5'')
             = Inr (r, Some (UnmarshalTypeError ''number 1.5'' ''int''))"
    by (simp add: fld_def map_decoded_def dec_int_def go_ParseInt_def is_digit_def)
  note w = dec_Reply_fatal_time [where r = zero_Reply and j = "JObject [(''activity'', JObject [(''updated_at'', JString ''not-a-date'')])]"
        and e = "TimeError (ParseError timeLayout ''not-a-date'')" and k = "''same_origin_packages_count''"
        and n = "''same_origin_packages_count''"
        and f = "fld Reply.SameOriginPackagesCount Reply.SameOriginPackagesCount_update dec_int"
        and v = "JNumber ''1.5''" and e' = "UnmarshalTypeError ''number 1.5'' ''int''"
        and pre = "[(''status'', JString ''complete'')]" and post = "[(''package_name'', JString ''a'')]"]
  show ?thesis using d mp [OF conjunct1 [OF w] d] mp [OF conjunct2 [OF w] conjI [OF Reply_count_lookup m]] by simp
qed

theorem dec_Reply_null_absent_witness:
  "dec_Reply zero_Reply (JObject [(''status'', JString ''complete''), (''activity'', JNull)])
   = dec_Reply zero_Reply (JObject [(''status'', JString ''complete'')])"
  using dec_Reply_null_absent [of "''activity''" "[(''status'', JString ''complete'')]" "[]"]
  by (simp add: fold_name_def fold_char_def)

subsection \<open>Decoding keeps the timestamps valid\<close>

lemmas [times_ok_dests] = dec_ptr_Time_ok

lemma zero_Reply_times_ok: "Reply_times_ok zero_Reply"
  by (simp add: Reply_times_ok_def zero_Reply_def ScoreSummary_times_ok_def zero_ScoreSummary_def
      AlternativesList_times_ok_def zero_AlternativesList_def PackageData_times_ok_def zero_PackageData_def)

lemma zero_times_ok:
  "Provenance_times_ok zero_Provenance" "Activity_times_ok zero_Activity"
  "Typosquatting_times_ok zero_Typosquatting" "Alternative_times_ok zero_Alternative"
  "MaliciousData_times_ok zero_MaliciousData"
  by (simp_all add: Provenance_times_ok_def zero_Provenance_def Activity_times_ok_def zero_Activity_def
      Typosquatting_times_ok_def zero_Typosquatting_def Alternative_times_ok_def zero_Alternative_def
      MaliciousData_times_ok_def zero_MaliciousData_def)

lemma dec_Provenance_times_ok:
  "dec_Provenance c j = Inr (c', e) \<Longrightarrow> Provenance_times_ok c \<Longrightarrow> Provenance_times_ok c'"
  unfolding dec_Provenance_def
  by (erule dec_struct_pres) (auto simp: Provenance_fields_def Provenance_times_ok_def fld_Inr_iff dest!: times_ok_dests)

lemma dec_ptr_Provenance_times_ok [times_ok_dests]:
  "dec_ptr zero_Provenance dec_Provenance c j = Inr (c', e) \<Longrightarrow> pred_option Provenance_times_ok c \<Longrightarrow> pred_option Provenance_times_ok c'"
  by (erule dec_ptr_pres) (blast intro: zero_times_ok dec_Provenance_times_ok)+

lemma dec_Activity_times_ok:
  "dec_Activity c j = Inr (c', e) \<Longrightarrow> Activity_times_ok c \<Longrightarrow> Activity_times_ok c'"
  unfolding dec_Activity_def
  by (erule dec_struct_pres) (auto simp: Activity_fields_def Activity_times_ok_def fld_Inr_iff dest!: times_ok_dests)

lemma dec_ptr_Activity_times_ok [times_ok_dests]:
  "dec_ptr zero_Activity dec_Activity c j = Inr (c', e) \<Longrightarrow> pred_option Activity_times_ok c \<Longrightarrow> pred_option Activity_times_ok c'"
  by (erule dec_ptr_pres) (blast intro: zero_times_ok dec_Activity_times_ok)+

lemma dec_Typosquatting_times_ok:
  "dec_Typosquatting c j = Inr (c', e) \<Longrightarrow> Typosquatting_times_ok c \<Longrightarrow> Typosquatting_times_ok c'"
  unfolding dec_Typosquatting_def
  by (erule dec_struct_pres) (auto simp: Typosquatting_fields_def Typosquatting_times_ok_def fld_Inr_iff dest!: times_ok_dests)

lemma dec_ptr_Typosquatting_times_ok [times_ok_dests]:
  "dec_ptr zero_Typosquatting dec_Typosquatting c j = Inr (c', e) \<Longrightarrow> pred_option Typosquatting_times_ok c \<Longrightarrow> pred_option Typosquatting_times_ok c'"
  by (erule dec_ptr_pres) (blast intro: zero_times_ok dec_Typosquatting_times_ok)+

lemma dec_ScoreSummary_times_ok [times_ok_dests]:
  "dec_ScoreSummary c j = Inr (c', e) \<Longrightarrow> ScoreSummary_times_ok c \<Longrightarrow> ScoreSummary_times_ok c'"
  unfolding dec_ScoreSummary_def
  by (erule dec_struct_pres) (auto simp: ScoreSummary_fields_def ScoreSummary_times_ok_def fld_Inr_iff dest!: times_ok_dests)

lemma dec_Alternative_times_ok [times_ok_dests]:
  "dec_Alternative c j = Inr (c', e) \<Longrightarrow> Alternative_times_ok c \<Longrightarrow> Alternative_times_ok c'"
  unfolding dec_Alternative_def
  by (erule dec_struct_pres) (auto simp: Alternative_fields_def Alternative_times_ok_def fld_Inr_iff dest!: times_ok_dests)

lemma dec_slice_Alternative_times_ok [times_ok_dests]:
  "dec_slice zero_Alternative dec_Alternative c j = Inr (c', e) \<Longrightarrow> list_all Alternative_times_ok c \<Longrightarrow>
   list_all Alternative_times_ok c'"
  by (erule dec_slice_pres) (blast intro: zero_times_ok dec_Alternative_times_ok)+

lemma dec_AlternativesList_times_ok [times_ok_dests]:
  "dec_AlternativesList c j = Inr (c', e) \<Longrightarrow> AlternativesList_times_ok c \<Longrightarrow> AlternativesList_times_ok c'"
  unfolding dec_AlternativesList_def
  by (erule dec_struct_pres) (auto simp: AlternativesList_fields_def AlternativesList_times_ok_def fld_Inr_iff dest!: times_ok_dests)

lemma dec_MaliciousData_times_ok:
  "dec_MaliciousData c j = Inr (c', e) \<Longrightarrow> MaliciousData_times_ok c \<Longrightarrow> MaliciousData_times_ok c'"
  unfolding dec_MaliciousData_def
  by (erule dec_struct_pres) (auto simp: MaliciousData_fields_def MaliciousData_times_ok_def fld_Inr_iff dest!: times_ok_dests)

lemma dec_ptr_MaliciousData_times_ok [times_ok_dests]:
  "dec_ptr zero_MaliciousData dec_MaliciousData c j = Inr (c', e) \<Longrightarrow> pred_option MaliciousData_times_ok c \<Longrightarrow> pred_option MaliciousData_times_ok c'"
  by (erule dec_ptr_pres) (blast intro: zero_times_ok dec_MaliciousData_times_ok)+

lemma dec_PackageData_times_ok [times_ok_dests]:
  "dec_PackageData c j = Inr (c', e) \<Longrightarrow> PackageData_times_ok c \<Longrightarrow> PackageData_times_ok c'"
  unfolding dec_PackageData_def
  by (erule dec_struct_pres) (auto simp: PackageData_fields_def PackageData_times_ok_def fld_Inr_iff dest!: times_ok_dests)

text \<open>C12: Decoding a report keeps every timestamp it holds valid: if each \<open>*Time\<close> the
  report reaches is nil or a valid UTC instant before \<open>json.Unmarshal\<close>, the same holds of
  the report it leaves behind, in every block, alternative and package datum.\<close>
theorem dec_Reply_times_ok:
  "Reply_times_ok r \<Longrightarrow> dec_Reply r j = Inr (r', e) \<Longrightarrow> Reply_times_ok r'"
  unfolding dec_Reply_def
  by (erule dec_struct_pres [rotated]) (auto simp: Reply_fields_def Reply_times_ok_def fld_Inr_iff dest!: times_ok_dests)

theorem dec_Reply_times_ok_witness:
  "Reply_times_ok (fst (projr (dec_Reply zero_Reply
     (JObject [(''activity'', JObject [(''updated_at'', JString ''null'')])]))))"
proof -
  have d: "dec_Reply zero_Reply (JObject [(''activity'', JObject [(''updated_at'', JString ''null'')])])
     = Inr (zero_Reply\<lparr>Reply.Activity := Some (zero_Activity\<lparr>Activity.UpdatedAt := Some zero_time\<rparr>)\<rparr>, None)"
    by (simp add: dec_Reply_def dec_struct_def Reply_activity_lookup fld_def map_decoded_def
        dec_ptr_def zero_Reply_blocks dec_Activity_def Activity_updated_at_lookup dec_Time_def
        UnmarshalJSON_unfold go_Trim_def save_error_def)
  show ?thesis using dec_Reply_times_ok [OF zero_Reply_times_ok d] d by simp
qed

end
