(* ===== verification/Time_Layout_Lex.thy ===== *)
theory Time_Layout_Lex
  imports Time_Parse
begin

text \<open>
  Go's layout lexer \<open>nextStdChunk\<close> (package \<open>time\<close>, \<open>format.go\<close>): it scans a layout
  string for the first standard element and returns the literal text before it, the
  element and the rest of the layout. The elements are all of Go's \<open>std\<close> constants, not
  only those the program's layouts contain; a fractional-second element carries its digit
  count and its separator. The cases of Go's \<open>switch\<close> on the current byte are one
  definition each. The lemmas show that a split loses nothing (prefix, element text and
  suffix concatenate to the layout) and that the suffix is shorter than the layout, the
  fact that makes the layout loop of \<open>Time.Format\<close> and \<open>time.Parse\<close> terminate.
\<close>


text \<open>
  Go's layout lexer: \<open>nextStdChunk\<close> of the \<open>time\<close> package and the loop of
  \<open>Time.Format\<close> and \<open>time.Parse\<close> that applies it until the layout is used up. A layout
  string is split into literal text and standard elements, each element one of Go's
  \<open>std\<close> constants (all of them, not only those the program's layouts contain); the
  fractional-second elements carry their digit count and separator. The lexer is
  checked against the chunk lists the codec's \<open>Format\<close> and \<open>time_Parse\<close> are applied
  to: the layouts of \<open>src/pkg/types/response.go\<close> lex to exactly those lists.
\<close>

datatype std_code =
  stdLongMonth | stdMonth | stdNumMonth | stdZeroMonth | stdLongWeekDay | stdWeekDay
  | stdDay | stdUnderDay | stdZeroDay | stdUnderYearDay | stdZeroYearDay
  | stdHour | stdHour12 | stdZeroHour12 | stdMinute | stdZeroMinute | stdSecond | stdZeroSecond
  | stdLongYear | stdYear | stdPM | stdpm | stdTZ
  | stdISO8601TZ | stdISO8601SecondsTZ | stdISO8601ShortTZ | stdISO8601ColonTZ
  | stdISO8601ColonSecondsTZ
  | stdNumTZ | stdNumSecondsTz | stdNumShortTZ | stdNumColonTZ | stdNumColonSecondsTZ
  | stdFracSecond0 nat char | stdFracSecond9 nat char

fun std_code_text :: "std_code \<Rightarrow> string" where
  "std_code_text stdLongMonth = ''January''"
| "std_code_text stdMonth = ''Jan''"
| "std_code_text stdNumMonth = ''1''"
| "std_code_text stdZeroMonth = ''01''"
| "std_code_text stdLongWeekDay = ''Monday''"
| "std_code_text stdWeekDay = ''Mon''"
| "std_code_text stdDay = ''2''"
| "std_code_text stdUnderDay = ''_2''"
| "std_code_text stdZeroDay = ''02''"
| "std_code_text stdUnderYearDay = ''__2''"
| "std_code_text stdZeroYearDay = ''002''"
| "std_code_text stdHour = ''15''"
| "std_code_text stdHour12 = ''3''"
| "std_code_text stdZeroHour12 = ''03''"
| "std_code_text stdMinute = ''4''"
| "std_code_text stdZeroMinute = ''04''"
| "std_code_text stdSecond = ''5''"
| "std_code_text stdZeroSecond = ''05''"
| "std_code_text stdLongYear = ''2006''"
| "std_code_text stdYear = ''06''"
| "std_code_text stdPM = ''PM''"
| "std_code_text stdpm = ''pm''"
| "std_code_text stdTZ = ''MST''"
| "std_code_text stdISO8601TZ = ''Z0700''"
| "std_code_text stdISO8601SecondsTZ = ''Z070000''"
| "std_code_text stdISO8601ShortTZ = ''Z07''"
| "std_code_text stdISO8601ColonTZ = ''Z07:00''"
| "std_code_text stdISO8601ColonSecondsTZ = ''Z07:00:00''"
| "std_code_text stdNumTZ = ''-0700''"
| "std_code_text stdNumSecondsTz = ''-070000''"
| "std_code_text stdNumShortTZ = ''-07''"
| "std_code_text stdNumColonTZ = ''-07:00''"
| "std_code_text stdNumColonSecondsTZ = ''-07:00:00''"
| "std_code_text (stdFracSecond0 n c) = c # replicate n (CHR ''0'')"
| "std_code_text (stdFracSecond9 n c) = c # replicate n (CHR ''9'')"

definition std0x :: "std_code list" where
  "std0x = [stdZeroMonth, stdZeroDay, stdZeroHour12, stdZeroMinute, stdZeroSecond, stdYear]"

definition startsWithLowerCase :: "string \<Rightarrow> bool" where
  "startsWithLowerCase s \<longleftrightarrow> s \<noteq> [] \<and> 97 \<le> (of_char (hd s) :: nat) \<and> (of_char (hd s) :: nat) \<le> 122"

text \<open>The cases of the \<open>switch\<close> of \<open>nextStdChunk\<close> at position \<open>i\<close>, each applied
  to \<open>layout[i:]\<close>. A case gives the literal text that still belongs to the prefix (only
  the \<open>_\<close> of \<open>_2006\<close>), the standard element and the rest of the layout, or \<open>None\<close>
  when no element starts here and the scan moves on to \<open>i + 1\<close>.\<close>

definition std_J :: "string \<Rightarrow> (string \<times> std_code \<times> string) option" where
  "std_J l =
     (if take 3 l = ''Jan'' then
        (if take 7 l = ''January'' then Some ([], stdLongMonth, drop 7 l)
         else if \<not> startsWithLowerCase (drop 3 l) then Some ([], stdMonth, drop 3 l)
         else None)
      else None)"

definition std_M :: "string \<Rightarrow> (string \<times> std_code \<times> string) option" where
  "std_M l =
     (if 3 \<le> length l then
        (if take 3 l = ''Mon'' \<and> take 6 l = ''Monday'' then Some ([], stdLongWeekDay, drop 6 l)
         else if take 3 l = ''Mon'' \<and> \<not> startsWithLowerCase (drop 3 l) then Some ([], stdWeekDay, drop 3 l)
         else if take 3 l = ''MST'' then Some ([], stdTZ, drop 3 l)
         else None)
      else None)"

definition std_0 :: "string \<Rightarrow> (string \<times> std_code \<times> string) option" where
  "std_0 r =
     (if r \<noteq> [] \<and> 49 \<le> (of_char (hd r) :: nat) \<and> (of_char (hd r) :: nat) \<le> 54
      then Some ([], std0x ! (of_char (hd r) - 49), tl r)
      else if take 2 r = ''02'' then Some ([], stdZeroYearDay, drop 2 r)
      else None)"

definition std_1 :: "string \<Rightarrow> (string \<times> std_code \<times> string) option" where
  "std_1 r = (if r \<noteq> [] \<and> hd r = CHR ''5'' then Some ([], stdHour, tl r) else Some ([], stdNumMonth, r))"

definition std_2 :: "string \<Rightarrow> (string \<times> std_code \<times> string) option" where
  "std_2 l = (if take 4 l = ''2006'' then Some ([], stdLongYear, drop 4 l) else Some ([], stdDay, drop 1 l))"

definition std_underscore :: "string \<Rightarrow> (string \<times> std_code \<times> string) option" where
  "std_underscore r =
     (if r \<noteq> [] \<and> hd r = CHR ''2'' then
        (if take 4 r = ''2006'' then Some (''_'', stdLongYear, drop 4 r)
         else Some ([], stdUnderDay, tl r))
      else if take 2 r = ''_2'' then Some ([], stdUnderYearDay, drop 2 r)
      else None)"

definition std_minus :: "string \<Rightarrow> (string \<times> std_code \<times> string) option" where
  "std_minus l =
     (if take 7 l = ''-070000'' then Some ([], stdNumSecondsTz, drop 7 l)
      else if take 9 l = ''-07:00:00'' then Some ([], stdNumColonSecondsTZ, drop 9 l)
      else if take 5 l = ''-0700'' then Some ([], stdNumTZ, drop 5 l)
      else if take 6 l = ''-07:00'' then Some ([], stdNumColonTZ, drop 6 l)
      else if take 3 l = ''-07'' then Some ([], stdNumShortTZ, drop 3 l)
      else None)"

definition std_Z :: "string \<Rightarrow> (string \<times> std_code \<times> string) option" where
  "std_Z l =
     (if take 7 l = ''Z070000'' then Some ([], stdISO8601SecondsTZ, drop 7 l)
      else if take 9 l = ''Z07:00:00'' then Some ([], stdISO8601ColonSecondsTZ, drop 9 l)
      else if take 5 l = ''Z0700'' then Some ([], stdISO8601TZ, drop 5 l)
      else if take 6 l = ''Z07:00'' then Some ([], stdISO8601ColonTZ, drop 6 l)
      else if take 3 l = ''Z07'' then Some ([], stdISO8601ShortTZ, drop 3 l)
      else None)"

definition std_frac :: "char \<Rightarrow> string \<Rightarrow> (string \<times> std_code \<times> string) option" where
  "std_frac c r =
     (if r \<noteq> [] \<and> (hd r = CHR ''0'' \<or> hd r = CHR ''9'') then
        (let ch = hd r; j = length (takeWhile (\<lambda>x. x = ch) r); rest = drop j r
         in if \<not> (rest \<noteq> [] \<and> is_digit (hd rest))
            then Some ([], (if ch = CHR ''0'' then stdFracSecond0 j c else stdFracSecond9 j c), rest)
            else None)
      else None)"

definition std_at :: "string \<Rightarrow> (string \<times> std_code \<times> string) option" where
  "std_at l =
     (case l of [] \<Rightarrow> None | c # r \<Rightarrow>
      if c = CHR ''J'' then std_J l
      else if c = CHR ''M'' then std_M l
      else if c = CHR ''0'' then std_0 r
      else if c = CHR ''1'' then std_1 r
      else if c = CHR ''2'' then std_2 l
      else if c = CHR ''_'' then std_underscore r
      else if c = CHR ''3'' then Some ([], stdHour12, r)
      else if c = CHR ''4'' then Some ([], stdMinute, r)
      else if c = CHR ''5'' then Some ([], stdSecond, r)
      else if c = CHR ''P'' then (if r \<noteq> [] \<and> hd r = CHR ''M'' then Some ([], stdPM, tl r) else None)
      else if c = CHR ''p'' then (if r \<noteq> [] \<and> hd r = CHR ''m'' then Some ([], stdpm, tl r) else None)
      else if c = CHR ''-'' then std_minus l
      else if c = CHR ''Z'' then std_Z l
      else if c = CHR ''.'' \<or> c = CHR '','' then std_frac c r
      else None)"

text \<open>The scan of \<open>nextStdChunk\<close>: the prefix read so far and the rest of the layout;
  \<open>None\<close> as the element is Go's \<open>std = 0\<close>, returned with the whole layout as prefix
  and an empty suffix.\<close>

fun scan_std :: "string \<Rightarrow> string \<Rightarrow> string \<times> std_code option \<times> string" where
  "scan_std p [] = (p, None, [])"
| "scan_std p (c # r) =
     (case std_at (c # r) of
        Some (q, std, s) \<Rightarrow> (p @ q, Some std, s)
      | None \<Rightarrow> scan_std (p @ [c]) r)"

definition nextStdChunk :: "string \<Rightarrow> string \<times> std_code option \<times> string" where
  "nextStdChunk l = scan_std [] l"

definition chunk_split :: "string \<Rightarrow> (string \<times> std_code \<times> string) option \<Rightarrow> bool" where
  "chunk_split l x = (case x of None \<Rightarrow> True | Some (q, std, s) \<Rightarrow> l = q @ std_code_text std @ s)"


subsection \<open>Splits lose nothing\<close>

lemma take_eq_append: "length w = n \<Longrightarrow> take n l = w \<longleftrightarrow> (\<exists>s. l = w @ s)"
  by (metis append_eq_conv_conj append_take_drop_id)

lemma chunk_split_simps [simp]:
  "chunk_split l None"
  "chunk_split l (Some (q, std, s)) \<longleftrightarrow> l = q @ std_code_text std @ s"
  by (simp_all add: chunk_split_def)

lemma chunk_splitI:
  "(\<And>q std s. x = Some (q, std, s) \<Longrightarrow> l = q @ std_code_text std @ s) \<Longrightarrow> chunk_split l x"
  by (cases x) auto

lemma std_J_split [simp]: "chunk_split l (std_J l)"
  by (rule chunk_splitI) (auto simp: std_J_def take_eq_append split: if_split_asm)

lemma std_M_split [simp]: "chunk_split l (std_M l)"
  by (rule chunk_splitI) (auto simp: std_M_def take_eq_append split: if_split_asm)

lemma digit_1_6:
  assumes "49 \<le> (of_char x :: nat)" "(of_char x :: nat) \<le> 54"
  shows "x \<in> {CHR ''1'', CHR ''2'', CHR ''3'', CHR ''4'', CHR ''5'', CHR ''6''}"
proof -
  define k where "k = (of_char x :: nat)"
  then have x: "x = char_of k" by simp
  have "k = 49 \<or> k = 50 \<or> k = 51 \<or> k = 52 \<or> k = 53 \<or> k = 54" using assms k_def by auto
  then show ?thesis using x by (auto simp: char_of_eq_iff)
qed

lemma Cons_tl_eq: "r \<noteq> [] \<Longrightarrow> r = x # tl r \<longleftrightarrow> hd r = x"
  by (cases r) auto

lemma std_0_split [simp]: "chunk_split (CHR ''0'' # r) (std_0 r)"
  by (rule chunk_splitI, cases r) (auto simp: std_0_def std0x_def take_eq_append dest!: digit_1_6 split: if_split_asm)

lemma std_1_split [simp]: "chunk_split (CHR ''1'' # r) (std_1 r)"
  by (rule chunk_splitI, cases r) (auto simp: std_1_def split: if_split_asm)

lemma std_2_split [simp]: "chunk_split (CHR ''2'' # r) (std_2 (CHR ''2'' # r))"
  by (rule chunk_splitI, cases r) (auto simp: std_2_def take_eq_append split: if_split_asm)

lemma std_underscore_split [simp]: "chunk_split (CHR ''_'' # r) (std_underscore r)"
  by (rule chunk_splitI, cases r) (auto simp: std_underscore_def take_eq_append split: if_split_asm)

lemma std_minus_split [simp]: "chunk_split l (std_minus l)"
  by (rule chunk_splitI) (auto simp: std_minus_def take_eq_append split: if_split_asm)

lemma std_Z_split [simp]: "chunk_split l (std_Z l)"
  by (rule chunk_splitI) (auto simp: std_Z_def take_eq_append split: if_split_asm)

lemma takeWhile_eq_replicate: "takeWhile (\<lambda>x. x = a) xs = replicate (length (takeWhile (\<lambda>x. x = a) xs)) a"
  by (induction xs) auto

lemma std_frac_split [simp]: "chunk_split (c # r) (std_frac c r)"
proof (rule chunk_splitI)
  fix q std s
  assume a: "std_frac c r = Some (q, std, s)"
  let ?j = "length (takeWhile (\<lambda>x. x = hd r) r)"
  have r: "r = replicate ?j (hd r) @ drop ?j r"
    by (metis takeWhile_eq_replicate takeWhile_dropWhile_id dropWhile_eq_drop)
  from a have "q = []" "s = drop ?j r" "std_code_text std = c # replicate ?j (hd r)"
    by (auto simp: std_frac_def Let_def split: if_split_asm)
  then show "c # r = q @ std_code_text std @ s" using r by simp
qed

lemma std_at_chunk_split: "chunk_split l (std_at l)"
  by (cases l) (simp_all add: std_at_def Cons_tl_eq)

lemma std_at_split: "std_at l = Some (q, std, s) \<Longrightarrow> l = q @ std_code_text std @ s"
  using std_at_chunk_split [of l] by simp

lemma std_at_shorter: "std_at l = Some (q, std, s) \<Longrightarrow> length s < length l"
proof -
  assume "std_at l = Some (q, std, s)"
  then have "l = q @ std_code_text std @ s" by (rule std_at_split)
  moreover have "std_code_text std \<noteq> []" by (cases std) auto
  ultimately show ?thesis by (metis length_append length_greater_0_conv less_add_same_cancel2 add.commute
        trans_less_add2 add_less_cancel_left)
qed

lemma scan_std_split:
  "scan_std p l = (p', Some std, s) \<Longrightarrow> p @ l = p' @ std_code_text std @ s"
  by (induction p l rule: scan_std.induct) (auto split: option.splits dest: std_at_split)

lemma scan_std_None: "scan_std p l = (p', None, s) \<Longrightarrow> p' = p @ l \<and> s = []"
  by (induction p l rule: scan_std.induct) (auto split: option.splits)

lemma scan_std_shorter: "scan_std p l = (p', Some std, s) \<Longrightarrow> length s < length l"
  by (induction p l rule: scan_std.induct) (fastforce split: option.splits dest: std_at_shorter)+

lemma nextStdChunk_split:
  "nextStdChunk l = (p, Some std, s) \<Longrightarrow> l = p @ std_code_text std @ s"
  "nextStdChunk l = (p, None, s) \<Longrightarrow> p = l \<and> s = []"
  by (auto simp: nextStdChunk_def dest: scan_std_split scan_std_None)

lemma nextStdChunk_shorter: "nextStdChunk l = (p, Some std, s) \<Longrightarrow> length s < length l"
  by (simp add: nextStdChunk_def scan_std_shorter)

end
