(* ===== verification/Time_Layout.thy ===== *)
theory Time_Layout
  imports Time_Layout_Lex Time_Codec
begin

text \<open>
  The layout loop of \<open>Time.Format\<close> and \<open>time.Parse\<close>, which applies \<open>nextStdChunk\<close>
  until the layout is used up, and the link between a layout string and the chunk lists
  \<open>Format\<close> and \<open>time_Parse\<close> of \<open>Time_Format\<close> and \<open>Time_Parse\<close> take: the layouts of
  \<open>src/pkg/types/response.go\<close> (\<open>timeLayout\<close>) and of the library (\<open>time.RFC3339\<close>) lex
  to exactly the chunk lists the codec is applied to, and the elements outside those the
  model formats and parses are flagged rather than dropped.
\<close>

datatype layout_elem = ELit string | EStd std_code

fun elem_text :: "layout_elem \<Rightarrow> string" where
  "elem_text (ELit s) = s"
| "elem_text (EStd std) = std_code_text std"

definition lit_elem :: "string \<Rightarrow> layout_elem list" where
  "lit_elem p = (if p = [] then [] else [ELit p])"

text \<open>
  \<^verbatim>\<open>for layout != "" {
    prefix, std, suffix := nextStdChunk(layout)
    if prefix != "" { ... the literal prefix ... }
    if std == 0 { break }
    layout = suffix
    ... the element std ... }\<close>
  An empty prefix is skipped; the loop ends because every element consumes at least one
  character of the layout (\<open>nextStdChunk_shorter\<close>).
\<close>

function layout_elems :: "string \<Rightarrow> layout_elem list" where
  "layout_elems l =
     (if l = [] then []
      else case nextStdChunk l of
             (p, None, _) \<Rightarrow> lit_elem p
           | (p, Some std, s) \<Rightarrow> lit_elem p @ EStd std # layout_elems s)"
  by pat_completeness auto
termination
  by (relation "measure length") (auto dest: nextStdChunk_shorter [OF sym])

text \<open>The layout elements the model of \<open>Time.Format\<close> and \<open>time.Parse\<close> covers, as the
  chunks of \<open>Time_Format\<close>; any other element (a month name, a 12-hour clock, a numeric
  zone, a comma separator, ...) has no chunk.\<close>

fun elem_chunk :: "layout_elem \<Rightarrow> layout_chunk option" where
  "elem_chunk (ELit s) = Some (LayoutLit s)"
| "elem_chunk (EStd stdLongYear) = Some StdLongYear"
| "elem_chunk (EStd stdZeroMonth) = Some StdZeroMonth"
| "elem_chunk (EStd stdZeroDay) = Some StdZeroDay"
| "elem_chunk (EStd stdHour) = Some StdHour"
| "elem_chunk (EStd stdZeroMinute) = Some StdZeroMinute"
| "elem_chunk (EStd stdZeroSecond) = Some StdZeroSecond"
| "elem_chunk (EStd (stdFracSecond0 n c)) = (if c = CHR ''.'' then Some (StdFracSecond0 n) else None)"
| "elem_chunk (EStd stdISO8601ColonTZ) = Some StdISO8601ColonTZ"
| "elem_chunk (EStd _) = None"

definition layout_chunks :: "string \<Rightarrow> layout_chunk list option" where
  "layout_chunks l = those (map elem_chunk (layout_elems l))"

subsection \<open>The loop loses nothing\<close>

declare layout_elems.simps [simp del]

lemma layout_elems_text: "concat (map elem_text (layout_elems l)) = l"
proof (induction l rule: layout_elems.induct)
  case (1 l)
  show ?case
  proof (cases "l = []")
    case True
    then show ?thesis by (simp add: layout_elems.simps)
  next
    case False
    obtain p x s where n: "nextStdChunk l = (p, x, s)" by (cases "nextStdChunk l")
    show ?thesis
    proof (cases x)
      case None
      then have "p = l" using n nextStdChunk_split(2) by blast
      then show ?thesis using False n None by (simp add: layout_elems.simps [of l] lit_elem_def)
    next
      case (Some std)
      have IH: "concat (map elem_text (layout_elems s)) = s" by (rule 1 [OF False n [symmetric] refl Some])
      have l: "l = p @ std_code_text std @ s" using n Some nextStdChunk_split(1) by blast
      have e: "layout_elems l = lit_elem p @ EStd std # layout_elems s"
        using False n Some by (simp add: layout_elems.simps [of l])
      show ?thesis unfolding e using IH l by (simp add: lit_elem_def)
    qed
  qed
qed

lemma elem_chunk_text: "elem_chunk e = Some c \<Longrightarrow> std_text c = elem_text e"
  by (induction e rule: elem_chunk.induct) (auto split: if_splits)

lemma those_map_Some:
  "those (map f xs) = Some ys \<Longrightarrow> list_all2 (\<lambda>x y. f x = Some y) xs ys"
  by (induction xs arbitrary: ys) (auto split: option.splits)

lemma layout_chunks_string: "layout_chunks l = Some cs \<Longrightarrow> layout_string cs = l"
proof -
  assume "layout_chunks l = Some cs"
  then have "list_all2 (\<lambda>e c. elem_chunk e = Some c) (layout_elems l) cs"
    unfolding layout_chunks_def by (rule those_map_Some)
  then have "concat (map std_text cs) = concat (map elem_text (layout_elems l))"
    by (induction rule: list_all2_induct) (auto dest: elem_chunk_text)
  then show ?thesis by (simp add: layout_string_def layout_elems_text)
qed

text \<open>The layout loop applied to the layout constant \<open>timeLayout\<close> of response.go
  yields exactly the chunks the codec formats and parses with, and so does the library's
  \<open>time.RFC3339\<close>: the chunk lists used in \<open>String\<close> and \<open>UnmarshalJSON\<close> are what Go
  derives from the layout strings.\<close>

lemma layout_chunks_timeLayout:
  "layout_chunks timeLayout = Some timeLayout_chunks \<and> layout_chunks RFC3339 = Some RFC3339_chunks"
  by code_simp

end
