(* ===== verification/Spec2Isabelle.thy ===== *)
theory Spec2Isabelle
  imports Dependencies Response_Schema Time_Layout
begin

text \<open>
  Verification development of the Trusty SDK data model, \<open>src/pkg/types/types.go\<close>
  and \<open>src/pkg/types/response.go\<close>.

  \<^bold>\<open>The program.\<close> The package declares the data exchanged with the Trusty package
  intelligence API. Three parts carry behaviour: the ecosystem identifiers with their
  display names (\<open>Ecosystem\<close>, \<open>Ecosystems\<close>, \<open>AsString\<close>), the dependency differ
  (\<open>ConvertDepsToMap\<close>, \<open>DiffDependencies\<close>), and the timestamp wrapper \<open>Time\<close> with
  its JSON hooks (\<open>UnmarshalJSON\<close>, \<open>MarshalJSON\<close>, \<open>String\<close>), which call Go's
  \<open>time.Parse\<close>, \<open>Time.Format\<close>, \<open>strings.Trim\<close>, \<open>strings.Contains\<close> and
  \<open>fmt.Sprintf("%q")\<close>.

  \<^bold>\<open>Theories.\<close>
  \<^item> \<open>Prelude\<close>: the model's types (\<open>go_map\<close> for \<open>map[string]string\<close>, \<open>int32\<close> as
    \<open>32 word\<close>) and shared lemmas on maps, digits and lists.
  \<^item> \<open>Ecosystem\<close> (types.go lines 19--71): the \<open>int32\<close> codes, the \<open>Ecosystems\<close> table and
    \<open>AsString\<close>, refined to a closed datatype \<open>eco\<close> with a default arm.
  \<^item> \<open>Dependencies\<close> (types.go lines 22--91): \<open>Dependency\<close> as a record,
    \<open>ConvertDepsToMap\<close> as a left fold of map updates and \<open>DiffDependencies\<close> as a fold of
    its loop body over the entries of the new map. Go's \<open>range\<close> over a map visits the
    entries in an unspecified order; the order is an argument of the model, any
    duplicate-free listing of the map (\<open>go_range_order\<close>), and the lemmas hold for all
    of them.
  \<^item> \<open>Calendar\<close>: the proleptic Gregorian calendar Go uses (day 0 is 0001-01-01), the
    day count of \<open>time.Date\<close> (\<open>days_from_civil\<close>) and the date recovery of
    \<open>Time.Format\<close> (\<open>civil_from_days\<close>), shown inverse on valid dates. The year is found
    from the estimate \<open>(400 n + 699) div 146097\<close> and one correction step, the month by
    scanning the month lengths (\<open>month_day\<close>, a function with a termination measure).
  \<^item> \<open>Time_Format\<close>: \<open>time.Time\<close> as a record (seconds since 0001-01-01 UTC, nanoseconds,
    zone offset), the two layouts as lists of layout elements, \<open>Time.Format\<close> with
    \<open>appendInt\<close>/\<open>appendNano\<close>, and \<open>strconv.Quote\<close>.
  \<^item> \<open>Time_Parse\<close>: Go's general \<open>time.parse\<close> for the layout elements the program uses,
    element by element with the library's leniencies (\<open>getnum\<close> accepting one digit for
    a non-zero-padded hour, \<open>atoi\<close> with its sign and 64-bit overflow checks, the comma
    as a fraction separator), returning a parse error or a time; lemmas that it reads
    back every text \<open>Format\<close> prints for a clock with a four-digit year, and that each
    element consumes a prefix of the input without a \<open>Z\<close> unless it is the zone element,
    which is what makes every time the codec stores a UTC time. The parser state keeps an
    invariant (\<open>ps_ok\<close>: each field read so far within its range) from its initial state
    through every element, so every time it returns in UTC is a valid clock reading with
    a four-digit year.
  \<^item> \<open>Time_RFC3339\<close>: the strict fast path \<open>parseRFC3339\<close> that \<open>time.Parse\<close> tries
    first for \<open>time.RFC3339\<close>, and \<open>time.Parse\<close> itself (\<open>go_time_Parse\<close>: the fast
    path's result, or the general parser's when the fast path declines). Everything the
    fast path accepts the general parser accepts with the same result, so \<open>time.Parse\<close>
    equals the general parser on both layouts the program uses.
  \<^item> \<open>Time_Layout_Lex\<close> and \<open>Time_Layout\<close>: Go's layout lexer \<open>nextStdChunk\<close>, one
    definition per case of its \<open>switch\<close> over all of Go's standard elements, and the loop of
    \<open>Time.Format\<close>/\<open>time.parse\<close> that applies it until the layout is used up (a
    \<open>function\<close> whose termination rests on every element consuming a character). The
    loop loses nothing (the pieces concatenate to the layout) and turns the layout strings
    \<open>timeLayout\<close> and \<open>time.RFC3339\<close> into exactly the chunk lists the codec's \<open>Format\<close>
    and \<open>time_Parse\<close> are applied to, so those lists are derived from the source's
    strings rather than assumed.
  \<^item> \<open>Time_Codec\<close> (response.go lines 19--47): \<open>UnmarshalJSON\<close> (calling \<open>time.Parse\<close>
    as the source does), \<open>MarshalJSON\<close> and \<open>String\<close>, and the codec's properties.
  \<^item> \<open>Json_Decode\<close>: Go's \<open>encoding/json\<close> decoder for the kinds the report types
    use. A decoder takes the current value and a JSON value and returns a fatal error
    (an \<open>UnmarshalJSON\<close> hook failed) or the new value with the first recorded type
    mismatch (\<open>saveError\<close>). Object keys are looked up exact-first and then
    case-insensitively; a JSON null sets a pointer, slice or map to nil and leaves other
    kinds alone; a pointer is allocated before decoding into it.
  \<^item> \<open>Response_Schema\<close> (response.go lines 50--255): every report struct as a record
    with the source's fields, the string constants, the Go zero values, and per struct
    the table of its JSON names (the tags, or the field name for the untagged
    \<open>PackageNameURL\<close>) with the field decoders; \<open>dec_Reply\<close> and the other
    \<open>dec_\<close> functions are the decoders \<open>encoding/json\<close> derives from the tags.
    \<open>Reply_times_ok\<close> and its companions say that every \<open>*Time\<close> a report reaches is
    nil or \<open>Time_ok\<close> (a valid UTC reading); each decoder keeps that invariant, shown
    once for the generic struct, pointer and slice decoders of \<open>Json_Decode\<close> and then per
    record through the collection \<open>times_ok_dests\<close>.

  \<^bold>\<open>What is shown.\<close> The codec round trip (decoding the encoding gives the wall-clock
  instant in UTC, truncated to microseconds) and the fixed point of re-encoding; the
  Z-suffixed RFC 3339 form decodes to its instant (whatever the RFC 3339 fast path of
  \<open>time.Parse\<close> accepts, the general parser accepts with the same result, so the model
  of \<open>time.Parse\<close> is the general parser on both layouts); a numeric offset without Z
  is rejected with the receiver zeroed; every time the decoder stores is UTC, whatever the
  input, and is a valid calendar reading with a four-digit year, so that decode-then-encode
  is idempotent on every input; every error zeroes the receiver and names the layout
  tried; the null forms, in any number of quotes. The layout strings lex to the chunk
  lists the codec uses (\<open>layout_chunks_timeLayout\<close>, a computation kept as a check of
  the model rather than as a property). For the differ: refinement of the abstract set
  difference of maps, independence of the iteration order, last-write-wins in
  \<open>ConvertDepsToMap\<close>, and keying on names only. For the ecosystems: refinement of a
  closed enumeration and the codes with an empty name. For the report: a rejected
  timestamp aborts the decode of the whole report; only timestamp errors abort, and a
  value of the wrong type is skipped wherever it stands, the report decoding to what it
  decodes to without that key, with the mismatch reported; null and absent optional
  blocks decode alike into a fresh report; keys match case-insensitively; the status is
  not checked; decoding a report keeps every timestamp it holds valid, in every block and
  alternative. Across components (this theory): the encoding of a time, met as the
  \<open>updated_at\<close> of a report's activity block, decodes through the whole report decoder
  to the codec's round-trip value, with the block allocated on the way; an int field
  given the literal of an integer holds exactly that integer when it fits in 64 bits and
  is otherwise left alone with a type error; \<open>MarshalJSON\<close> always emits a JSON string
  literal that needs no escaping.

  \<^bold>\<open>Bounds.\<close> The round-trip theorems assume a wall-clock year in 0..9999, the years
  the four-digit layout element prints and reads back, and nanoseconds below \<open>10^9\<close>, the
  invariant of \<open>time.Time\<close>. Go's \<open>int\<close> is taken to be 64 bits wide, as on the
  64-bit platforms the SDK targets (\<open>strconv.ParseInt(s, 10, 64)\<close> in the decoder). No
  fuel is used: every loop is structural recursion or a function with a measure (the
  month scan of \<open>Calendar\<close>, the layout loop of \<open>Time_Layout\<close>). The loops of the
  source itself (\<open>ConvertDepsToMap\<close>, \<open>DiffDependencies\<close>) range over a finite slice or
  map and are folds over a list, so their termination is structural and no separate
  termination or liveness theorem is stated for them.

  \<^bold>\<open>Not modelled.\<close> Named time zones (a time carries only its offset; the location is
  irrelevant to the two layouts used), the formatting and parsing of layout elements the program does
  not use (the lexer recognises them; they have no chunk), and bytes of
  \<open>strconv.Quote\<close> beyond ASCII (Format only prints ASCII). For \<open>encoding/json\<close>:
  escape sequences inside JSON strings (a string is taken as written without escapes, so
  that the bytes handed to \<open>UnmarshalJSON\<close> are its content in quotes), rounding of
  numbers to binary64 (a float64 field gets the exact decimal value), the capacity of a
  slice decoded into (elements beyond its length start from the zero value), Unicode case
  folding beyond ASCII, the partially filled value returned with an error, and encoding
  with \<open>json.Marshal\<close> (it prints a float64 as the shortest decimal that reads back to
  the same binary64 value, which exact reals cannot model; the encoding of a time, the
  one hook the program adds, is modelled by \<open>MarshalJSON\<close>).
  The HTTP client, CLI and configuration the specification mentions are not in this
  repository.
\<close>

section \<open>Properties across components\<close>

lemma MarshalJSON_not_null: "json_raw j = fst (MarshalJSON t) \<Longrightarrow> j \<noteq> JNull"
  by (auto simp: MarshalJSON_def String_plain)

lemma dec_Time_MarshalJSON:
  assumes "0 \<le> cl_year (wall_clock t)" and "cl_year (wall_clock t) \<le> 9999" and "nsec t < 10 ^ 9"
    and "json_raw j = fst (MarshalJSON t)"
  shows "dec_Time c j =
           Inr (\<lparr>sec_abs = sec_abs t + zone_offset t, nsec = nsec t div 1000 * 1000, zone_offset = 0\<rparr>, None)"
  using decode_Format_timeLayout [OF wall_clock_valid [OF assms(1-3)], of c] assms(4)
  by (simp add: dec_Time_def MarshalJSON_def go_Date_wall_clock)

lemma dec_Reply_count:
  "dec_Reply r (JObject [(''same_origin_packages_count'', JNumber n)]) =
     (case go_ParseInt n of
        Some i \<Rightarrow> Inr (r\<lparr>Reply.SameOriginPackagesCount := i\<rparr>, None)
      | None \<Rightarrow> Inr (r, Some (UnmarshalTypeError (''number '' @ n) ''int'')))"
  by (simp add: dec_Reply_def dec_struct_def Reply_fields_def field_lookup_def fld_def map_decoded_def
      dec_int_def save_error_def split: option.split)

text \<open>C16: A timestamp travels through the report decoder as the codec promises: when the
  activity block of a report carries, as its \<open>updated_at\<close>, the JSON string that
  \<open>Time.MarshalJSON\<close> emitted for a time with a four-digit year, decoding the report
  allocates the activity block (or reuses the one present), stores in it a pointer to the
  UTC instant of the encoded wall clock, truncated to microseconds, and reports no error.\<close>

theorem dec_Reply_activity_MarshalJSON:
  assumes "0 \<le> cl_year (wall_clock t)" and "cl_year (wall_clock t) \<le> 9999" and "nsec t < 10 ^ 9"
    and "json_raw j = fst (MarshalJSON t)"
  shows "dec_Reply r (JObject [(''activity'', JObject [(''updated_at'', j)])]) =
           Inr (r\<lparr>Reply.Activity :=
                   Some ((case Reply.Activity r of None \<Rightarrow> zero_Activity | Some a \<Rightarrow> a)
                     \<lparr>Activity.UpdatedAt := Some \<lparr>sec_abs = sec_abs t + zone_offset t,
                                                  nsec = nsec t div 1000 * 1000, zone_offset = 0\<rparr>\<rparr>)\<rparr>,
                None)"
  using dec_Time_MarshalJSON [OF assms] MarshalJSON_not_null [OF assms(4)]
  by (simp add: dec_Reply_def dec_struct_def Reply_activity_lookup dec_Activity_def
      Activity_updated_at_lookup fld_def map_decoded_def dec_ptr_nonnull save_error_def)

text \<open>C17: An int field of a report holds exactly the 64-bit integer its JSON literal
  names: decoding \<open>same_origin_packages_count\<close> given the literal of an integer stores
  that integer, without error, when it lies in \<open>[-2^63, 2^63)\<close>; outside that range
  the report is left as it was and a type error naming the literal is recorded, so the
  count is never wrapped or clamped.\<close>

theorem dec_Reply_count_int64:
  "dec_Reply r (JObject [(''same_origin_packages_count'', JNumber (int_literal i))]) =
     (if - (2 ^ 63) \<le> i \<and> i < 2 ^ 63 then Inr (r\<lparr>Reply.SameOriginPackagesCount := i\<rparr>, None)
      else Inr (r, Some (UnmarshalTypeError (''number '' @ int_literal i) ''int'')))"
  by (simp add: dec_Reply_count go_ParseInt_int_literal)

text \<open>C18: Whatever the time, \<open>Time.MarshalJSON\<close> succeeds and emits a JSON string
  literal whose content is printable ASCII with no quote or backslash, so
  \<open>encoding/json\<close>, which checks that a marshaler's output is valid JSON, accepts it
  without escaping anything.\<close>

theorem MarshalJSON_json_string:
  "\<exists>s. MarshalJSON t = (json_raw (JString s), None) \<and> list_all plain_char s"
  using Format_timeLayout_plain [of t] by (simp add: MarshalJSON_def String_plain list_all_iff)

subsection \<open>The properties at concrete inputs\<close>

theorem dec_Reply_activity_MarshalJSON_witness:
  "dec_Reply zero_Reply
     (JObject [(''activity'', JObject [(''updated_at'', JString ''2024-01-17T00:40:53.123456'')])]) =
   Inr (zero_Reply\<lparr>Reply.Activity := Some (zero_Activity\<lparr>Activity.UpdatedAt :=
          Some \<lparr>sec_abs = 63841048853, nsec = 123456000, zone_offset = 0\<rparr>\<rparr>)\<rparr>, None)"
proof -
  let ?t = "\<lparr>sec_abs = 63841045253, nsec = 123456789, zone_offset = 3600\<rparr>"
  have m: "fst (MarshalJSON ?t) = CHR 0x22 # ''2024-01-17T00:40:53.123456'' @ [CHR 0x22]"
    by (simp add: MarshalJSON_def String_plain wall_clock_2024_01_17 timeLayout_chunks_def format_eval)
  show ?thesis
    using dec_Reply_activity_MarshalJSON [of ?t "JString ''2024-01-17T00:40:53.123456''" zero_Reply] m
    by (simp add: wall_clock_2024_01_17 zero_Reply_blocks)
qed


theorem MarshalJSON_json_string_witness:
  "MarshalJSON zero_time = (json_raw (JString ''0001-01-01T00:00:00.000000''), None)
   \<and> list_all plain_char ''0001-01-01T00:00:00.000000''"
proof -
  have m: "MarshalJSON zero_time = (CHR 0x22 # ''0001-01-01T00:00:00.000000'' @ [CHR 0x22], None)"
    using wall_clock_zero_time
    by (simp add: MarshalJSON_def String_plain Format_def timeLayout_chunks_def appendInt_def
        appendNano_def dec_digits_eval replicate_numeral)
  obtain s where "MarshalJSON zero_time = (json_raw (JString s), None)" and "list_all plain_char s"
    using MarshalJSON_json_string [of zero_time] by blast
  then show ?thesis using m by simp
qed
end
